(* ===== verification/Prelude.thy ===== *)
theory Prelude
  imports Complex_Main "HOL-Library.Multiset" "HOL-Library.Product_Lexorder"
begin

text \<open>
  Shared vocabulary of the model of \<open>src/app.py\<close>: the Python exceptions the code can
  raise (every \<open>raise\<close> of the program or of a library it calls becomes an \<open>Inl\<close> of
  \<open>py_exc + 'a\<close>), Python truthiness, the zero-padded decimal fields that
  \<open>strftime\<close> prints and their parser, and the mean that pandas computes. The lemmas
  here are generic facts on lists, digits and sums that the component theories share;
  the collection \<open>model_simps\<close> gathers the evaluation rules of the model.
\<close>

named_theorems model_simps "equations that evaluate the model on concrete inputs"

section \<open>Python values and exceptions\<close>

text \<open>
  The exceptions the program can raise. \<open>AttributeError\<close> carries the attribute looked
  up, \<open>NameError\<close> an unbound global name, \<open>KeyError\<close> the missing key, \<open>OverflowError\<close> a date out of range, and
  \<open>OperationalError\<close> an sqlite3 error (a database file that cannot be opened).
\<close>

datatype py_exc =
    AttributeError string
  | NameError string
  | KeyError string
  | OverflowError
  | ValueError string
  | OperationalError string

type_synonym 'a py_result = "py_exc + 'a"

text \<open>
  The values the creation form passes to \<open>all([...])\<close> (app.py line 186): strings from
  \<open>st.text_input\<close>, floats and ints from \<open>st.number_input\<close>. Python truthiness: a
  string is true when it is not empty, a number when it is not zero. Floats are modelled
  as reals (no rounding of IEEE arithmetic).
\<close>

datatype pyval = PStr string | PFloat real | PInt int

fun truthy :: "pyval \<Rightarrow> bool" where
  "truthy (PStr s) = (s \<noteq> [])"
| "truthy (PFloat x) = (x \<noteq> 0)"
| "truthy (PInt i) = (i \<noteq> 0)"

definition py_all :: "pyval list \<Rightarrow> bool" where
  "py_all vs = list_all truthy vs"

section \<open>Decimal fields\<close>

text \<open>
  \<open>strftime\<close> prints \<open>%Y\<close>, \<open>%m\<close>, \<open>%d\<close>, \<open>%H\<close>, \<open>%M\<close>, \<open>%S\<close> as zero-padded decimal
  fields of fixed width. \<open>zpad w n\<close> is the field of width \<open>w\<close>: the last \<open>w\<close> decimal
  digits of \<open>n\<close>, which is \<open>n\<close> itself whenever \<open>n < 10 ^ w\<close>.
\<close>

definition digit_char :: "nat \<Rightarrow> char" where
  "digit_char d = ''0123456789'' ! d"

fun zpad :: "nat \<Rightarrow> nat \<Rightarrow> string" where
  "zpad 0 n = []"
| "zpad (Suc w) n = zpad w (n div 10) @ [digit_char (n mod 10)]"

definition digit_val :: "char \<Rightarrow> nat option" where
  "digit_val c = (let k = of_char c in if 48 \<le> k \<and> k \<le> (57::nat) then Some (k - 48) else None)"

text \<open>Reading a run of decimal digits, as a parser of the printed fields does.\<close>

fun parse_digits_acc :: "nat \<Rightarrow> string \<Rightarrow> nat option" where
  "parse_digits_acc acc [] = Some acc"
| "parse_digits_acc acc (c # cs) =
     (case digit_val c of None \<Rightarrow> None | Some d \<Rightarrow> parse_digits_acc (10 * acc + d) cs)"

definition parse_digits :: "string \<Rightarrow> nat option" where
  "parse_digits cs = (if cs = [] then None else parse_digits_acc 0 cs)"

section \<open>Means\<close>

text \<open>
  pandas' \<open>Series.mean()\<close> on a non-empty series: the sum divided by the count. The
  program only takes means of non-empty frames (\<open>calculer_statistiques\<close> returns early
  on an empty one), so the NaN of an empty mean never arises.
\<close>

definition py_mean :: "real list \<Rightarrow> real" where
  "py_mean xs = sum_list xs / real (length xs)"

section \<open>Generic lemmas\<close>

lemma digit_char_val [simp]: "d < 10 \<Longrightarrow> digit_val (digit_char d) = Some d"
  by (auto simp: less_Suc_eq numeral_eq_Suc digit_char_def digit_val_def)

lemma zpad_numeral [model_simps]:
  "zpad (numeral k) n = zpad (pred_numeral k) (n div 10) @ [digit_char (n mod 10)]"
  by (subst numeral_eq_Suc) (simp only: zpad.simps)

lemma zpad_one [model_simps]: "zpad 1 n = [digit_char (n mod 10)]"
  by (simp add: One_nat_def)

lemma length_zpad [simp]: "length (zpad w n) = w"
  by (induction w arbitrary: n) auto

lemma parse_digits_acc_append:
  "parse_digits_acc acc (xs @ ys) =
     (case parse_digits_acc acc xs of None \<Rightarrow> None | Some a \<Rightarrow> parse_digits_acc a ys)"
  by (induction acc xs rule: parse_digits_acc.induct) (auto split: option.splits)

lemma parse_digits_acc_zpad:
  "parse_digits_acc acc (zpad w n) = Some (acc * 10 ^ w + n mod 10 ^ w)"
proof (induction w arbitrary: n acc)
  case 0
  then show ?case by simp
next
  case (Suc w)
  have split: "n mod (10 * 10 ^ w) = 10 * (n div 10 mod 10 ^ w) + n mod 10"
    by (metis mod_mult2_eq power_Suc)
  show ?case
    by (simp add: parse_digits_acc_append Suc.IH split algebra_simps)
qed

text \<open>The round trip of a field: printing \<open>n < 10 ^ w\<close> and reading it back gives \<open>n\<close>.\<close>

lemma parse_zpad [simp]: "0 < w \<Longrightarrow> n < 10 ^ w \<Longrightarrow> parse_digits (zpad w n) = Some n"
proof -
  assume w: "0 < w" and n: "n < 10 ^ w"
  then have "zpad w n \<noteq> []" by (metis length_zpad less_numeral_extra(3) list.size(3))
  with n show ?thesis by (simp add: parse_digits_def parse_digits_acc_zpad)
qed

lemma zpad_inj: "0 < w \<Longrightarrow> a < 10 ^ w \<Longrightarrow> b < 10 ^ w \<Longrightarrow> zpad w a = zpad w b \<Longrightarrow> a = b"
  by (metis option.inject parse_zpad)

lemma zpad_eq_iff: "0 < w \<Longrightarrow> a < 10 ^ w \<Longrightarrow> b < 10 ^ w \<Longrightarrow> zpad w a = zpad w b \<longleftrightarrow> a = b"
  using zpad_inj by blast

text \<open>Counting by key: the group sizes of a list add up to its length.\<close>

lemma sum_list_count_keys:
  "distinct ks \<Longrightarrow> set (map key xs) \<subseteq> set ks \<Longrightarrow>
   (\<Sum>k\<leftarrow>ks. length (filter (\<lambda>x. key x = k) xs)) = length xs"
proof (induction xs)
  case Nil
  then show ?case by simp
next
  case (Cons x xs)
  have in_ks: "key x \<in> set ks" using Cons.prems(2) by simp
  have "(\<Sum>k\<leftarrow>ks. length (filter (\<lambda>y. key y = k) (x # xs)))
        = (\<Sum>k\<leftarrow>ks. (if key x = k then 1 else 0) + length (filter (\<lambda>y. key y = k) xs))"
    by (rule arg_cong [where f = sum_list], rule map_cong) auto
  also have "\<dots> = (\<Sum>k\<leftarrow>ks. if key x = k then 1 else 0) + length xs"
    using Cons by (simp add: sum_list_addf)
  also have "(\<Sum>k\<leftarrow>ks. if key x = k then 1 else (0::nat)) = 1"
    using in_ks Cons.prems(1) by (simp add: sum_list_distinct_conv_sum_set sum.If_cases)
  finally show ?case by simp
qed

lemma sum_list_filter_keys:
  fixes f :: "'a \<Rightarrow> 'b::comm_monoid_add"
  shows "distinct ks \<Longrightarrow> set (map key xs) \<subseteq> set ks \<Longrightarrow>
   (\<Sum>k\<leftarrow>ks. sum_list (map f (filter (\<lambda>x. key x = k) xs))) = sum_list (map f xs)"
proof (induction xs)
  case Nil
  then show ?case by simp
next
  case (Cons x xs)
  have in_ks: "key x \<in> set ks" using Cons.prems(2) by simp
  have "(\<Sum>k\<leftarrow>ks. sum_list (map f (filter (\<lambda>y. key y = k) (x # xs))))
        = (\<Sum>k\<leftarrow>ks. (if key x = k then f x else 0) + sum_list (map f (filter (\<lambda>y. key y = k) xs)))"
    by (rule arg_cong [where f = sum_list], rule map_cong) auto
  also have "\<dots> = (\<Sum>k\<leftarrow>ks. if key x = k then f x else 0) + sum_list (map f xs)"
    using Cons by (simp add: sum_list_addf)
  also have "(\<Sum>k\<leftarrow>ks. if key x = k then f x else 0) = f x"
    using in_ks Cons.prems(1) by (simp add: sum_list_distinct_conv_sum_set sum.If_cases)
  finally show ?case by simp
qed

lemma digit_char_mem: "n < 10 \<Longrightarrow> digit_char n \<in> set ''0123456789''"
  unfolding digit_char_def by (rule nth_mem) simp

lemma digits_zpad: "set (zpad w n) \<subseteq> set ''0123456789''"
proof (induction w arbitrary: n)
  case 0
  show ?case by simp
next
  case (Suc w)
  then show ?case using digit_char_mem [of "n mod 10"] by simp
qed

lemma div_unique_int: "0 \<le> r \<Longrightarrow> r < d \<Longrightarrow> (q * d + r) div (d::int) = q"
  by simp

lemma mod_unique_int: "0 \<le> r \<Longrightarrow> r < d \<Longrightarrow> (q * d + r) mod (d::int) = r"
  by simp

lemma small_mod_zero: "0 \<le> x \<Longrightarrow> x < (d::int) \<Longrightarrow> x mod d = 0 \<longleftrightarrow> x = 0"
  by simp

end
