(* ===== verification/Calendar.thy ===== *)
theory Calendar
  imports Prelude "HOL-Library.Monad_Syntax"
begin

text \<open>
  The parts of Python's \<open>datetime\<close> module (and of pandas' timestamp parsing) that
  \<open>src/app.py\<close> relies on: naive dates, times and datetimes with Python's ordering,
  the proleptic Gregorian day numbers \<open>toordinal\<close>/\<open>fromordinal\<close> (translated from
  CPython's \<open>_ymd2ord\<close> and \<open>_ord2ymd\<close>), subtraction of \<open>timedelta(days=k)\<close>,
  the \<open>strftime\<close> formats the program prints, and the ISO text that the sqlite3
  adapter stores and \<open>pd.to_datetime\<close> reads back. These are library semantics, not
  code of the repository; the program's own definitions start in \<open>Fare\<close>.
\<close>

section \<open>Dates, times, datetimes\<close>

datatype date = Date (year: int) (month: int) (day: int)

datatype time = Time (hour: int) (minute: int) (second: int) (microsecond: int)

datatype datetime = DateTime (dt_date: date) (dt_time: time)

text \<open>
  Python compares dates by the tuple \<open>(year, month, day)\<close>, times by
  \<open>(hour, minute, second, microsecond)\<close> and naive datetimes by date, then time: a
  lexicographic order, given here as the library's order on the key tuples.
\<close>

definition date_key :: "date \<Rightarrow> int \<times> int \<times> int" where
  "date_key d = (year d, month d, day d)"

definition time_key :: "time \<Rightarrow> int \<times> int \<times> int \<times> int" where
  "time_key t = (hour t, minute t, second t, microsecond t)"

definition dt_key :: "datetime \<Rightarrow> (int \<times> int \<times> int) \<times> (int \<times> int \<times> int \<times> int)" where
  "dt_key x = (date_key (dt_date x), time_key (dt_time x))"

instantiation date :: linorder
begin

definition less_eq_date :: "date \<Rightarrow> date \<Rightarrow> bool" where
  "a \<le> b \<longleftrightarrow> date_key a \<le> date_key b"

definition less_date :: "date \<Rightarrow> date \<Rightarrow> bool" where
  "a < b \<longleftrightarrow> date_key a < date_key b"

instance
proof
  fix a b c :: date
  show "a < b \<longleftrightarrow> a \<le> b \<and> \<not> b \<le> a" by (auto simp: less_eq_date_def less_date_def)
  show "a \<le> a" by (simp add: less_eq_date_def)
  show "a \<le> b \<Longrightarrow> b \<le> c \<Longrightarrow> a \<le> c" unfolding less_eq_date_def by (rule order_trans)
  show "a \<le> b \<Longrightarrow> b \<le> a \<Longrightarrow> a = b" unfolding less_eq_date_def
  proof -
    assume "date_key a \<le> date_key b" "date_key b \<le> date_key a"
    then have "date_key a = date_key b" by (rule antisym)
    then show "a = b" by (cases a, cases b) (auto simp: date_key_def intro: date.expand time.expand)
  qed
  show "a \<le> b \<or> b \<le> a" unfolding less_eq_date_def by (rule linear)
qed

end

instantiation time :: linorder
begin

definition less_eq_time :: "time \<Rightarrow> time \<Rightarrow> bool" where
  "a \<le> b \<longleftrightarrow> time_key a \<le> time_key b"

definition less_time :: "time \<Rightarrow> time \<Rightarrow> bool" where
  "a < b \<longleftrightarrow> time_key a < time_key b"

instance
proof
  fix a b c :: time
  show "a < b \<longleftrightarrow> a \<le> b \<and> \<not> b \<le> a" by (auto simp: less_eq_time_def less_time_def)
  show "a \<le> a" by (simp add: less_eq_time_def)
  show "a \<le> b \<Longrightarrow> b \<le> c \<Longrightarrow> a \<le> c" unfolding less_eq_time_def by (rule order_trans)
  show "a \<le> b \<Longrightarrow> b \<le> a \<Longrightarrow> a = b" unfolding less_eq_time_def
  proof -
    assume "time_key a \<le> time_key b" "time_key b \<le> time_key a"
    then have "time_key a = time_key b" by (rule antisym)
    then show "a = b" by (cases a, cases b) (auto simp: time_key_def intro: date.expand time.expand)
  qed
  show "a \<le> b \<or> b \<le> a" unfolding less_eq_time_def by (rule linear)
qed

end

instantiation datetime :: linorder
begin

definition less_eq_datetime :: "datetime \<Rightarrow> datetime \<Rightarrow> bool" where
  "a \<le> b \<longleftrightarrow> dt_key a \<le> dt_key b"

definition less_datetime :: "datetime \<Rightarrow> datetime \<Rightarrow> bool" where
  "a < b \<longleftrightarrow> dt_key a < dt_key b"

instance
proof
  fix a b c :: datetime
  show "a < b \<longleftrightarrow> a \<le> b \<and> \<not> b \<le> a" by (auto simp: less_eq_datetime_def less_datetime_def)
  show "a \<le> a" by (simp add: less_eq_datetime_def)
  show "a \<le> b \<Longrightarrow> b \<le> c \<Longrightarrow> a \<le> c" unfolding less_eq_datetime_def by (rule order_trans)
  show "a \<le> b \<Longrightarrow> b \<le> a \<Longrightarrow> a = b" unfolding less_eq_datetime_def
  proof -
    assume "dt_key a \<le> dt_key b" "dt_key b \<le> dt_key a"
    then have "dt_key a = dt_key b" by (rule antisym)
    then show "a = b" by (cases a, cases b) (auto simp: dt_key_def date_key_def time_key_def intro: date.expand time.expand)
  qed
  show "a \<le> b \<or> b \<le> a" unfolding less_eq_datetime_def by (rule linear)
qed

end

section \<open>The calendar\<close>

definition is_leap :: "int \<Rightarrow> bool" where
  "is_leap y \<longleftrightarrow> y mod 4 = 0 \<and> (y mod 100 \<noteq> 0 \<or> y mod 400 = 0)"

text \<open>CPython's tables, index 0 unused: \<open>_DAYS_IN_MONTH\<close> and \<open>_DAYS_BEFORE_MONTH\<close>.\<close>

definition days_in_month_tbl :: "int list" where
  "days_in_month_tbl = [-1, 31, 28, 31, 30, 31, 30, 31, 31, 30, 31, 30, 31]"

definition days_before_month_tbl :: "int list" where
  "days_before_month_tbl = [-1, 0, 31, 59, 90, 120, 151, 181, 212, 243, 273, 304, 334]"

definition days_in_month :: "int \<Rightarrow> int \<Rightarrow> int" where
  "days_in_month y m = (if m = 2 \<and> is_leap y then 29 else days_in_month_tbl ! nat m)"

definition days_before_month :: "int \<Rightarrow> int \<Rightarrow> int" where
  "days_before_month y m = days_before_month_tbl ! nat m + (if m > 2 \<and> is_leap y then 1 else 0)"

definition days_before_year :: "int \<Rightarrow> int" where
  "days_before_year y = (let z = y - 1 in z * 365 + z div 4 - z div 100 + z div 400)"

definition ymd2ord :: "int \<Rightarrow> int \<Rightarrow> int \<Rightarrow> int" where
  "ymd2ord y m d = days_before_year y + days_before_month y m + d"

definition toordinal :: "date \<Rightarrow> int" where
  "toordinal dt = ymd2ord (year dt) (month dt) (day dt)"

text \<open>
  The month and day within a year in CPython's \<open>_ord2ymd\<close>: \<open>(n + 50) >> 5\<close>
  estimates the month of the 0-based day \<open>n\<close> of the year, corrected by one if it
  overshoots.
\<close>

definition ord2md :: "bool \<Rightarrow> int \<Rightarrow> int \<times> int" where
  "ord2md leapyear n =
     (let m = (n + 50) div 32;
          preceding = days_before_month_tbl ! nat m + (if m > 2 \<and> leapyear then 1 else 0)
      in if preceding > n
         then (let m' = m - 1;
                   preceding' = preceding - (days_in_month_tbl ! nat m' + (if m' = 2 \<and> leapyear then 1 else 0))
               in (m', n - preceding' + 1))
         else (m, n - preceding + 1))"

text \<open>
  CPython's \<open>_ord2ymd\<close>: the day number is split into 400-, 100-, 4- and 1-year
  cycles; the last day of a 4- or 400-year cycle is the 31st of December of the
  year before.
\<close>

definition ord2ymd :: "int \<Rightarrow> date" where
  "ord2ymd n0 =
     (let n = n0 - 1;
          n400 = n div 146097; n = n mod 146097;
          n100 = n div 36524; n = n mod 36524;
          n4 = n div 1461; n = n mod 1461;
          n1 = n div 365; n = n mod 365;
          y = n400 * 400 + 1 + n100 * 100 + n4 * 4 + n1
      in if n1 = 4 \<or> n100 = 4 then Date (y - 1) 12 31
         else (case ord2md (n1 = 3 \<and> (n4 \<noteq> 24 \<or> n100 = 3)) n of (m, d) \<Rightarrow> Date y m d))"

definition max_ordinal :: int where
  "max_ordinal = 3652059"

definition valid_date :: "date \<Rightarrow> bool" where
  "valid_date dt \<longleftrightarrow> 1 \<le> year dt \<and> year dt \<le> 9999 \<and> 1 \<le> month dt \<and> month dt \<le> 12 \<and>
                     1 \<le> day dt \<and> day dt \<le> days_in_month (year dt) (month dt)"

definition valid_time :: "time \<Rightarrow> bool" where
  "valid_time t \<longleftrightarrow> 0 \<le> hour t \<and> hour t < 24 \<and> 0 \<le> minute t \<and> minute t < 60 \<and>
                    0 \<le> second t \<and> second t < 60 \<and> 0 \<le> microsecond t \<and> microsecond t < 1000000"

definition valid_datetime :: "datetime \<Rightarrow> bool" where
  "valid_datetime x \<longleftrightarrow> valid_date (dt_date x) \<and> valid_time (dt_time x)"

text \<open>
  \<open>dt - timedelta(days=k)\<close>: CPython's \<open>datetime.__add__\<close> moves the day number and
  keeps the time of day; a result outside \<open>1 .. max_ordinal\<close> raises OverflowError.
\<close>

definition sub_days :: "datetime \<Rightarrow> int \<Rightarrow> datetime py_result" where
  "sub_days x k =
     (let n = toordinal (dt_date x) - k
      in if 0 < n \<and> n \<le> max_ordinal then Inr (DateTime (ord2ymd n) (dt_time x))
         else Inl OverflowError)"

text \<open>\<open>datetime.combine(date, time)\<close>.\<close>

definition combine :: "date \<Rightarrow> time \<Rightarrow> datetime" where
  "combine d t = DateTime d t"

section \<open>Printing and reading\<close>

text \<open>\<open>strftime('%Y%m%d')\<close>, \<open>strftime('%H%M%S')\<close> and \<open>strftime('%d/%m/%Y %H:%M')\<close>.\<close>

definition strftime_Ymd :: "date \<Rightarrow> string" where
  "strftime_Ymd d = zpad 4 (nat (year d)) @ zpad 2 (nat (month d)) @ zpad 2 (nat (day d))"

definition strftime_HMS :: "time \<Rightarrow> string" where
  "strftime_HMS t = zpad 2 (nat (hour t)) @ zpad 2 (nat (minute t)) @ zpad 2 (nat (second t))"

definition strftime_dmY_HM :: "datetime \<Rightarrow> string" where
  "strftime_dmY_HM x =
     zpad 2 (nat (day (dt_date x))) @ ''/'' @ zpad 2 (nat (month (dt_date x))) @ ''/'' @
     zpad 4 (nat (year (dt_date x))) @ '' '' @
     zpad 2 (nat (hour (dt_time x))) @ '':'' @ zpad 2 (nat (minute (dt_time x)))"

text \<open>
  The text the sqlite3 datetime adapter stores: \<open>isoformat(' ')\<close>, that is
  \<open>YYYY-MM-DD HH:MM:SS\<close> followed by \<open>.ffffff\<close> when the microseconds are not zero.
\<close>

definition isoformat_sp :: "datetime \<Rightarrow> string" where
  "isoformat_sp x =
     zpad 4 (nat (year (dt_date x))) @ ''-'' @ zpad 2 (nat (month (dt_date x))) @ ''-'' @
     zpad 2 (nat (day (dt_date x))) @ '' '' @
     zpad 2 (nat (hour (dt_time x))) @ '':'' @ zpad 2 (nat (minute (dt_time x))) @ '':'' @
     zpad 2 (nat (second (dt_time x))) @
     (if microsecond (dt_time x) = 0 then [] else ''.'' @ zpad 6 (nat (microsecond (dt_time x))))"

text \<open>
  \<open>pd.to_datetime\<close> on that text: the fixed positions of the separators, the digit
  fields, and a range check of the fields (an invalid date raises).
\<close>

definition parse_field :: "nat \<Rightarrow> nat \<Rightarrow> string \<Rightarrow> int option" where
  "parse_field i w s = map_option int (parse_digits (take w (drop i s)))"

definition parse_iso :: "string \<Rightarrow> datetime option" where
  "parse_iso s =
     (if (length s = 19 \<or> (length s = 26 \<and> s ! 19 = CHR ''.'')) \<and>
         s ! 4 = CHR ''-'' \<and> s ! 7 = CHR ''-'' \<and> s ! 10 = CHR '' '' \<and>
         s ! 13 = CHR '':'' \<and> s ! 16 = CHR '':''
      then do {
        y \<leftarrow> parse_field 0 4 s; m \<leftarrow> parse_field 5 2 s; d \<leftarrow> parse_field 8 2 s;
        hh \<leftarrow> parse_field 11 2 s; mi \<leftarrow> parse_field 14 2 s; ss \<leftarrow> parse_field 17 2 s;
        us \<leftarrow> (if length s = 19 then Some 0 else parse_field 20 6 s);
        let x = DateTime (Date y m d) (Time hh mi ss us);
        if valid_datetime x then Some x else None
      }
      else None)"

definition to_datetime :: "string \<Rightarrow> datetime py_result" where
  "to_datetime s = (case parse_iso s of None \<Rightarrow> Inl (ValueError s) | Some x \<Rightarrow> Inr x)"

section \<open>Facts about printing and reading\<close>

lemma valid_date_bounds:
  "valid_date d \<Longrightarrow> nat (year d) < 10000 \<and> nat (month d) < 100 \<and> nat (day d) < 100"
  by (auto simp: valid_date_def days_in_month_def days_in_month_tbl_def nth_Cons' split: if_splits)

lemma valid_time_bounds:
  "valid_time t \<Longrightarrow> nat (hour t) < 100 \<and> nat (minute t) < 100 \<and> nat (second t) < 100 \<and>
     nat (microsecond t) < 1000000"
  by (auto simp: valid_time_def)

text \<open>The text stored by sqlite3 reads back as the same datetime (app.py lines 222, 248, 252).\<close>

lemma parse_iso_isoformat:
  assumes v: "valid_datetime x"
  shows "parse_iso (isoformat_sp x) = Some x"
proof (cases x)
  case (DateTime d t)
  obtain y m dd where d: "d = Date y m dd" by (cases d)
  obtain h mi s us where t: "t = Time h mi s us" by (cases t)
  have vd: "valid_date d" and vt: "valid_time t" using v DateTime by (auto simp: valid_datetime_def)
  then have b: "nat y < 10000" "nat m < 100" "nat dd < 100" using valid_date_bounds [of d] d by auto
  have c: "0 \<le> y" "0 \<le> m" "0 \<le> dd" using vd d by (auto simp: valid_date_def)
  have tb: "nat h < 100" "nat mi < 100" "nat s < 100" "nat us < 1000000"
    "0 \<le> h" "0 \<le> mi" "0 \<le> s" "0 \<le> us"
    using vt t by (auto simp: valid_time_def)
  show ?thesis
    using v b c tb DateTime d t
    by (cases "us = 0") (simp_all add: parse_iso_def isoformat_sp_def parse_field_def nth_append Let_def)
qed

lemma to_datetime_isoformat [simp]: "valid_datetime x \<Longrightarrow> to_datetime (isoformat_sp x) = Inr x"
  by (simp add: to_datetime_def parse_iso_isoformat)

lemma strftime_Ymd_inj:
  assumes "valid_date a" "valid_date b" "strftime_Ymd a = strftime_Ymd b"
  shows "a = b"
proof -
  have "zpad 4 (nat (year a)) = zpad 4 (nat (year b)) \<and> zpad 2 (nat (month a)) = zpad 2 (nat (month b))
        \<and> zpad 2 (nat (day a)) = zpad 2 (nat (day b))"
    using assms(3) by (simp add: strftime_Ymd_def append_eq_append_conv)
  then have "nat (year a) = nat (year b) \<and> nat (month a) = nat (month b) \<and> nat (day a) = nat (day b)"
    using valid_date_bounds [OF assms(1)] valid_date_bounds [OF assms(2)]
    by (simp add: zpad_eq_iff)
  then show ?thesis using assms(1,2)
    by (cases a, cases b) (auto simp: valid_date_def)
qed

text \<open>\<open>%H%M%S\<close> determines the time up to its microseconds, which it does not print.\<close>

lemma strftime_HMS_inj:
  assumes "valid_time a" "valid_time b" "strftime_HMS a = strftime_HMS b"
  shows "hour a = hour b \<and> minute a = minute b \<and> second a = second b"
proof -
  have "zpad 2 (nat (hour a)) = zpad 2 (nat (hour b)) \<and> zpad 2 (nat (minute a)) = zpad 2 (nat (minute b))
        \<and> zpad 2 (nat (second a)) = zpad 2 (nat (second b))"
    using assms(3) by (simp add: strftime_HMS_def append_eq_append_conv)
  then have "nat (hour a) = nat (hour b) \<and> nat (minute a) = nat (minute b) \<and> nat (second a) = nat (second b)"
    using valid_time_bounds [OF assms(1)] valid_time_bounds [OF assms(2)]
    by (simp add: zpad_eq_iff)
  then show ?thesis using assms(1,2) by (auto simp: valid_time_def)
qed

lemma length_strftime_Ymd [simp]: "length (strftime_Ymd d) = 8"
  by (simp add: strftime_Ymd_def)

lemma length_strftime_HMS [simp]: "length (strftime_HMS t) = 6"
  by (simp add: strftime_HMS_def)

end
