(* ===== verification/Namespace.thy ===== *)
theory Namespace
  imports Calendar
begin

text \<open>
  The module namespace of \<open>src/app.py\<close> (lines 1--16) and the three places where the
  program resolves the global name \<open>datetime\<close>: \<open>datetime.combine\<close> (line 190),
  \<open>datetime.now()\<close> (lines 191 and 295) and \<open>datetime.datetime.now()\<close> (line 457).
  Line 4 binds \<open>datetime\<close> to the class \<open>datetime.datetime\<close>; line 16 rebinds it to
  the module \<open>datetime\<close>. Which object the name denotes decides whether each of the
  three calls returns or raises AttributeError.
\<close>

datatype import_stmt =
    Import string string            \<comment> \<open>\<open>import m\<close> or \<open>import m as alias\<close>\<close>
  | FromImport string "string list"  \<comment> \<open>\<open>from m import n1, n2, ...\<close>\<close>

datatype pyobj = ModuleObj string | MemberObj string string

fun exec_import :: "(string \<rightharpoonup> pyobj) \<Rightarrow> import_stmt \<Rightarrow> (string \<rightharpoonup> pyobj)" where
  "exec_import g (Import m alias) = g(alias \<mapsto> ModuleObj m)"
| "exec_import g (FromImport m names) = fold (\<lambda>n h. h(n \<mapsto> MemberObj m n)) names g"

definition app_imports :: "import_stmt list" where
  "app_imports =
     [Import ''streamlit'' ''st'', Import ''sqlite3'' ''sqlite3'', Import ''pandas'' ''pd'',
      FromImport ''datetime'' [''datetime'', ''timedelta''],
      FromImport ''reportlab.lib'' [''colors''],
      FromImport ''reportlab.lib.pagesizes'' [''letter''],
      FromImport ''reportlab.platypus''
        [''SimpleDocTemplate'', ''Paragraph'', ''Spacer'', ''Table'', ''TableStyle'', ''Image''],
      FromImport ''reportlab.lib.styles'' [''getSampleStyleSheet'', ''ParagraphStyle''],
      Import ''smtplib'' ''smtplib'',
      FromImport ''email.mime.text'' [''MIMEText''],
      FromImport ''email.mime.multipart'' [''MIMEMultipart''],
      FromImport ''email.mime.application'' [''MIMEApplication''],
      Import ''os'' ''os'', Import ''plotly.express'' ''px'',
      FromImport ''streamlit_option_menu'' [''option_menu''],
      Import ''datetime'' ''datetime'']"

definition app_globals :: "string \<rightharpoonup> pyobj" where
  "app_globals = fold (\<lambda>s g. exec_import g s) app_imports Map.empty"

text \<open>
  \<open>datetime.combine(d, t)\<close> and \<open>datetime.now()\<close> with the global \<open>datetime\<close> bound to
  \<open>b\<close>: they work on the class and raise AttributeError on the module, which has
  neither attribute. \<open>clock\<close> is the wall-clock instant the call would read.
\<close>

definition dt_combine :: "pyobj option \<Rightarrow> date \<Rightarrow> time \<Rightarrow> datetime py_result" where
  "dt_combine b d t =
     (case b of
        None \<Rightarrow> Inl (NameError ''datetime'')
      | Some (MemberObj m n) \<Rightarrow>
          if m = ''datetime'' \<and> n = ''datetime'' then Inr (combine d t)
          else Inl (AttributeError ''combine'')
      | Some (ModuleObj m) \<Rightarrow> Inl (AttributeError ''combine''))"

definition dt_now :: "pyobj option \<Rightarrow> datetime \<Rightarrow> datetime py_result" where
  "dt_now b clock =
     (case b of
        None \<Rightarrow> Inl (NameError ''datetime'')
      | Some (MemberObj m n) \<Rightarrow>
          if m = ''datetime'' \<and> n = ''datetime'' then Inr clock
          else Inl (AttributeError ''now'')
      | Some (ModuleObj m) \<Rightarrow> Inl (AttributeError ''now''))"

text \<open>\<open>datetime.datetime.now()\<close> (line 457): the attribute \<open>datetime\<close> exists on the module only.\<close>

definition dt_module_now :: "pyobj option \<Rightarrow> datetime \<Rightarrow> datetime py_result" where
  "dt_module_now b clock =
     (case b of
        None \<Rightarrow> Inl (NameError ''datetime'')
      | Some (ModuleObj m) \<Rightarrow>
          if m = ''datetime'' then Inr clock else Inl (AttributeError ''datetime'')
      | Some (MemberObj m n) \<Rightarrow> Inl (AttributeError ''datetime''))"

abbreviation datetime_class :: "pyobj option" where
  "datetime_class \<equiv> Some (MemberObj ''datetime'' ''datetime'')"

lemma app_globals_datetime: "app_globals ''datetime'' = Some (ModuleObj ''datetime'')"
  by (simp add: app_globals_def app_imports_def)

lemma app_globals_timedelta: "app_globals ''timedelta'' = Some (MemberObj ''datetime'' ''timedelta'')"
  by (simp add: app_globals_def app_imports_def)

end
