(* ===== verification/Fare.thy ===== *)
theory Fare
  imports Namespace
begin

text \<open>
  The business rules of the creation view of \<open>src/app.py\<close> (lines 167--210): the
  values the form widgets return, the required-field check of line 186, the invoice
  number of line 191, the tax and total of lines 193--194 and the record (the \<open>data\<close>
  dict of lines 197--210) that is rendered and stored. The lemmas give the computed
  amounts, read the invoice number back, and show what the number does not separate.
\<close>

section \<open>The form and the invoice record\<close>

text \<open>The widget values of lines 173--183, in the order the form reads them.\<close>

record formulaire =
  saisie_date_course :: date
  saisie_heure_course :: time
  saisie_depart :: string
  saisie_arrivee :: string
  saisie_kilometrage :: real
  saisie_duree :: int
  saisie_tarif_base :: real
  saisie_email_client :: string
  saisie_notes :: string

text \<open>
  What the widgets can return: \<open>st.number_input(min_value=0.0)\<close> and
  \<open>min_value=0\<close> never give a negative number; \<open>st.date_input\<close> and
  \<open>st.time_input\<close> give a valid date and a time of whole minutes.
\<close>

definition widgets_ok :: "formulaire \<Rightarrow> bool" where
  "widgets_ok f \<longleftrightarrow>
     valid_date (saisie_date_course f) \<and> valid_time (saisie_heure_course f) \<and>
     second (saisie_heure_course f) = 0 \<and> microsecond (saisie_heure_course f) = 0 \<and>
     0 \<le> saisie_kilometrage f \<and> 0 \<le> saisie_duree f \<and> 0 \<le> saisie_tarif_base f"

text \<open>
  The \<open>data\<close> dict of lines 197--210: one row of table \<open>factures\<close> (without its id).
  The type of the date column is a parameter: a \<open>datetime\<close> in the program, the text
  sqlite3 stores in the database (theory \<open>Store\<close>).
\<close>

record 'd facture =
  numero_facture :: string
  date_course :: 'd
  depart :: string
  arrivee :: string
  kilometrage :: real
  duree :: int
  tarif_base :: real
  tva :: real
  montant_total :: real
  client_email :: string
  notes_facture :: string
  statut :: string

text \<open>The status literal \<open>'emise' (accented e)\<close> (UTF-8: the two bytes of e-acute, then \<open>mise\<close>).\<close>

definition statut_emise :: string where
  "statut_emise = [CHR 0xC3, CHR 0xA9] @ ''mise''"

section \<open>Operations\<close>

text \<open>Line 186: \<open>all([depart, arrivee, kilometrage, duree, tarif_base, email_client])\<close>.\<close>

definition champs_obligatoires :: "formulaire \<Rightarrow> bool" where
  "champs_obligatoires f =
     py_all [PStr (saisie_depart f), PStr (saisie_arrivee f), PFloat (saisie_kilometrage f),
             PInt (saisie_duree f), PFloat (saisie_tarif_base f), PStr (saisie_email_client f)]"

text \<open>Lines 193--194: \<open>tva = tarif_base * 0.20\<close>, \<open>montant_total = tarif_base + tva\<close>.\<close>

definition calcul_tva :: "real \<Rightarrow> real" where
  "calcul_tva tarif = tarif * 0.20"

definition calcul_montant_total :: "real \<Rightarrow> real" where
  "calcul_montant_total tarif = tarif + calcul_tva tarif"

text \<open>
  Line 191: \<open>f"VTC-{datetime_course.strftime('%Y%m%d')}-{datetime.now().strftime('%H%M%S')}"\<close>:
  the date of the trip and the time of day of the creation instant.
\<close>

definition generer_numero :: "datetime \<Rightarrow> datetime \<Rightarrow> string" where
  "generer_numero dc now = ''VTC-'' @ strftime_Ymd (dt_date dc) @ ''-'' @ strftime_HMS (dt_time now)"

text \<open>
  Lines 190--210 with the global \<open>datetime\<close> bound to \<open>b\<close>: combine the trip's date and
  time (line 190), read the clock (line 191), number, tax, total, and the record with
  status \<open>'emise' (accented e)\<close>. The first exception raised ends the computation.
\<close>

definition construire_facture :: "pyobj option \<Rightarrow> formulaire \<Rightarrow> datetime \<Rightarrow> datetime facture py_result" where
  "construire_facture b f clock =
     (case dt_combine b (saisie_date_course f) (saisie_heure_course f) of
        Inl e \<Rightarrow> Inl e
      | Inr dc \<Rightarrow>
          (case dt_now b clock of
             Inl e \<Rightarrow> Inl e
           | Inr now \<Rightarrow>
               Inr \<lparr>numero_facture = generer_numero dc now, date_course = dc,
                    depart = saisie_depart f, arrivee = saisie_arrivee f,
                    kilometrage = saisie_kilometrage f, duree = saisie_duree f,
                    tarif_base = saisie_tarif_base f, tva = calcul_tva (saisie_tarif_base f),
                    montant_total = calcul_montant_total (saisie_tarif_base f),
                    client_email = saisie_email_client f, notes_facture = saisie_notes f,
                    statut = statut_emise\<rparr>))"

section \<open>Reading an invoice number\<close>

text \<open>
  A reader of the numbers: the prefix, the trip date and the three clock fields. It is
  not code of the program; it is what shows which information a number carries.
\<close>

definition lire_numero :: "string \<Rightarrow> (date \<times> int \<times> int \<times> int) option" where
  "lire_numero s =
     (if length s = 19 \<and> take 4 s = ''VTC-'' \<and> s ! 12 = CHR ''-''
      then do {
        y \<leftarrow> parse_field 4 4 s; m \<leftarrow> parse_field 8 2 s; d \<leftarrow> parse_field 10 2 s;
        hh \<leftarrow> parse_field 13 2 s; mi \<leftarrow> parse_field 15 2 s; ss \<leftarrow> parse_field 17 2 s;
        Some (Date y m d, hh, mi, ss)
      }
      else None)"

section \<open>Sample inputs\<close>

text \<open>A trip booked for 10 March 2025 at 09:00 and two creation instants one day apart.\<close>

definition course0 :: datetime where
  "course0 = DateTime (Date 2025 3 10) (Time 9 0 0 0)"

definition clock1 :: datetime where
  "clock1 = DateTime (Date 2025 3 10) (Time 14 30 15 0)"

definition clock2 :: datetime where
  "clock2 = DateTime (Date 2025 3 11) (Time 14 30 15 0)"

definition form50 :: formulaire where
  "form50 = \<lparr>saisie_date_course = Date 2025 3 10, saisie_heure_course = Time 9 0 0 0,
     saisie_depart = ''Gare de Lyon'', saisie_arrivee = ''Orly'', saisie_kilometrage = 18.5,
     saisie_duree = 35, saisie_tarif_base = 50, saisie_email_client = ''client@example.fr'',
     saisie_notes = []\<rparr>"

section \<open>Well-formed invoices\<close>

text \<open>
  What an invoice built by lines 190--210 from the widgets' values looks like: a valid
  datetime; a number \<open>VTC-YYYYMMDD-HHMMSS\<close> that \<open>lire_numero\<close> reads back, whose date
  fields are the trip's date and whose time fields form a valid time of day; non-negative
  distance, duration and fare; the tax and total of lines 193--194; the status of line 209.
\<close>

definition facture_bien_formee :: "datetime facture \<Rightarrow> bool" where
  "facture_bien_formee r \<longleftrightarrow>
     valid_datetime (date_course r) \<and>
     (case lire_numero (numero_facture r) of
        None \<Rightarrow> False
      | Some (d, hh, mi, ss) \<Rightarrow> d = dt_date (date_course r) \<and> valid_time (Time hh mi ss 0)) \<and>
     0 \<le> kilometrage r \<and> 0 \<le> duree r \<and> 0 \<le> tarif_base r \<and> tva r = tarif_base r * 0.2 \<and>
     montant_total r = tarif_base r + tva r \<and> statut r = statut_emise"

section \<open>Lemmas\<close>

lemma champs_obligatoires_iff:
  "champs_obligatoires f \<longleftrightarrow>
     saisie_depart f \<noteq> [] \<and> saisie_arrivee f \<noteq> [] \<and> saisie_kilometrage f \<noteq> 0 \<and>
     saisie_duree f \<noteq> 0 \<and> saisie_tarif_base f \<noteq> 0 \<and> saisie_email_client f \<noteq> []"
  by (simp add: champs_obligatoires_def py_all_def)

lemma calcul_montant_total_eq: "calcul_montant_total t = t * 1.2"
  by (simp add: calcul_montant_total_def calcul_tva_def)

lemma lire_numero_generer:
  assumes "valid_date (dt_date dc)" "valid_time (dt_time now)"
  shows "lire_numero (generer_numero dc now) =
           Some (dt_date dc, hour (dt_time now), minute (dt_time now), second (dt_time now))"
proof -
  obtain y m d where d: "dt_date dc = Date y m d" by (cases "dt_date dc")
  obtain h mi s us where t: "dt_time now = Time h mi s us" by (cases "dt_time now")
  have b: "nat y < 10000" "nat m < 100" "nat d < 100" "0 \<le> y" "0 \<le> m" "0 \<le> d"
    using assms(1) valid_date_bounds [OF assms(1)] d by (auto simp: valid_date_def)
  have tb: "nat h < 100" "nat mi < 100" "nat s < 100" "0 \<le> h" "0 \<le> mi" "0 \<le> s"
    using assms(2) t by (auto simp: valid_time_def)
  show ?thesis
    using b tb d t
    by (simp add: lire_numero_def generer_numero_def strftime_Ymd_def strftime_HMS_def
        parse_field_def nth_append)
qed

lemma length_generer_numero [simp]: "length (generer_numero dc now) = 19"
  by (simp add: generer_numero_def)

lemma construire_facture_class:
  "construire_facture datetime_class f clock =
     Inr \<lparr>numero_facture = generer_numero (combine (saisie_date_course f) (saisie_heure_course f)) clock,
          date_course = combine (saisie_date_course f) (saisie_heure_course f),
          depart = saisie_depart f, arrivee = saisie_arrivee f,
          kilometrage = saisie_kilometrage f, duree = saisie_duree f,
          tarif_base = saisie_tarif_base f, tva = calcul_tva (saisie_tarif_base f),
          montant_total = calcul_montant_total (saisie_tarif_base f),
          client_email = saisie_email_client f, notes_facture = saisie_notes f,
          statut = statut_emise\<rparr>"
  by (simp add: construire_facture_def dt_combine_def dt_now_def)

lemma construire_facture_module:
  "construire_facture (Some (ModuleObj ''datetime'')) f clock = Inl (AttributeError ''combine'')"
  by (simp add: construire_facture_def dt_combine_def)

text \<open>Only the class binding gets past both \<open>datetime.combine\<close> and \<open>datetime.now()\<close>.\<close>

lemma construire_facture_Inr:
  "construire_facture b f clock = Inr data \<Longrightarrow> b = datetime_class"
  by (auto simp: construire_facture_def dt_combine_def dt_now_def
      split: option.splits pyobj.splits sum.splits if_splits)

lemma valid_samples:
  "valid_datetime course0" "valid_datetime clock1" "valid_datetime clock2" "widgets_ok form50"
  by (simp_all add: course0_def clock1_def clock2_def form50_def widgets_ok_def valid_datetime_def
      valid_date_def valid_time_def days_in_month_def days_in_month_tbl_def is_leap_def)

section \<open>Properties\<close>

text \<open>
  C11: Whatever the binding of \<open>datetime\<close>, a record the creation
  flow builds carries the fare typed in the form, a tax of 20 percent of it, a total equal
  to fare plus tax, and the status 'emise'; for a non-negative fare (all the widget allows)
  the tax is non-negative and at most the total.
\<close>

theorem facture_montants:
  assumes "construire_facture b f clock = Inr r"
  shows "tarif_base r = saisie_tarif_base f \<and> tva r = tarif_base r * 0.2 \<and>
         montant_total r = tarif_base r + tva r \<and> statut r = statut_emise \<and>
         (0 \<le> saisie_tarif_base f \<longrightarrow> 0 \<le> tva r \<and> tva r \<le> montant_total r)"
  using assms
  by (auto simp: construire_facture_def calcul_montant_total_def calcul_tva_def
      split: sum.splits)

theorem facture_montants_witness:
  "\<exists>r. construire_facture datetime_class form50 clock1 = Inr r \<and>
       tarif_base r = saisie_tarif_base form50 \<and> tva r = tarif_base r * 0.2 \<and>
       montant_total r = tarif_base r + tva r \<and> statut r = statut_emise \<and>
       (0 \<le> saisie_tarif_base form50 \<longrightarrow> 0 \<le> tva r \<and> tva r \<le> montant_total r)"
proof -
  obtain r where r: "construire_facture datetime_class form50 clock1 = Inr r"
    using construire_facture_class by blast
  show ?thesis using r facture_montants [OF r] by blast
qed

text \<open>
  C24: An invoice number reads back as the trip's date and the
  hour, minute and second of the creation clock: it carries exactly these and nothing else.
\<close>

theorem lire_generer_numero:
  assumes "valid_date (dt_date dc)" "valid_time (dt_time now)"
  shows "lire_numero (generer_numero dc now) =
           Some (dt_date dc, hour (dt_time now), minute (dt_time now), second (dt_time now))"
  using assms by (rule lire_numero_generer)

theorem lire_generer_numero_witness:
  "lire_numero (generer_numero course0 clock1) = Some (Date 2025 3 10, 14, 30, 15)"
proof -
  have "valid_date (dt_date course0)" "valid_time (dt_time clock1)"
    using valid_samples by (simp_all add: valid_datetime_def)
  from lire_generer_numero [OF this] show ?thesis by (simp add: course0_def clock1_def)
qed

text \<open>C23: For valid dates and times, two invoice numbers are equal
  exactly when the trip dates are equal and the creation clocks agree to the second on
  hour, minute and second; the creation date plays no part.\<close>

theorem generer_numero_eq_iff:
  assumes "valid_date (dt_date dc1)" "valid_date (dt_date dc2)" "valid_time (dt_time n1)" "valid_time (dt_time n2)"
  shows "generer_numero dc1 n1 = generer_numero dc2 n2 \<longleftrightarrow>
           dt_date dc1 = dt_date dc2 \<and> hour (dt_time n1) = hour (dt_time n2) \<and>
           minute (dt_time n1) = minute (dt_time n2) \<and> second (dt_time n1) = second (dt_time n2)"
proof
  assume "generer_numero dc1 n1 = generer_numero dc2 n2"
  then have "strftime_Ymd (dt_date dc1) = strftime_Ymd (dt_date dc2) \<and> strftime_HMS (dt_time n1) = strftime_HMS (dt_time n2)"
    by (simp add: generer_numero_def)
  then show "dt_date dc1 = dt_date dc2 \<and> hour (dt_time n1) = hour (dt_time n2) \<and>
           minute (dt_time n1) = minute (dt_time n2) \<and> second (dt_time n1) = second (dt_time n2)"
    using strftime_Ymd_inj [OF assms(1,2)] strftime_HMS_inj [OF assms(3,4)] by blast
next
  assume "dt_date dc1 = dt_date dc2 \<and> hour (dt_time n1) = hour (dt_time n2) \<and>
           minute (dt_time n1) = minute (dt_time n2) \<and> second (dt_time n1) = second (dt_time n2)"
  then show "generer_numero dc1 n1 = generer_numero dc2 n2"
    by (simp add: generer_numero_def strftime_HMS_def)
qed

theorem generer_numero_eq_iff_witness:
  "generer_numero course0 clock1 = generer_numero course0 clock2 \<and>
   generer_numero course0 clock1 \<noteq> generer_numero course0 (DateTime (Date 2025 3 10) (Time 14 30 16 0))"
proof -
  have v: "valid_date (dt_date course0)" "valid_time (dt_time clock1)" "valid_time (dt_time clock2)"
    "valid_time (dt_time (DateTime (Date 2025 3 10) (Time 14 30 16 0)))"
    using valid_samples by (simp_all add: valid_datetime_def valid_time_def)
  show ?thesis
    using generer_numero_eq_iff [OF v(1) v(1) v(2) v(3)] generer_numero_eq_iff [OF v(1) v(1) v(2) v(4)]
    by (simp add: clock1_def clock2_def)
qed

end
