(* ===== verification/Store.thy ===== *)
theory Store
  imports Fare "HOL-Library.Sublist"
begin

text \<open>
  The invoice store of \<open>src/app.py\<close>: the sqlite table \<open>factures\<close> created by
  \<open>init_db\<close> (lines 45--65), the append of one row by \<open>df.to_sql(..., if_exists='append')\<close>
  (lines 220--223), the full read \<open>SELECT * FROM factures\<close> with the conversion of the
  date column by \<open>pd.to_datetime\<close> (lines 247--252 and 287--292), and the history
  filter by date range and status (lines 255--260). The table keeps the rows in insertion
  order together with sqlite's AUTOINCREMENT counter. The lemmas show that ids are
  fresh and increasing, that the read returns the rows in insertion order with the
  dates as inserted, and that the history filter returns exactly the matching rows.
\<close>

section \<open>The table\<close>

text \<open>
  A row as sqlite holds it: the id (\<open>INTEGER PRIMARY KEY AUTOINCREMENT\<close>) and the
  columns of the \<open>data\<close> dict, the date as the text of the sqlite3 adapter.
  \<open>sequence\<close> is the table's entry in \<open>sqlite_sequence\<close>: the largest id ever given.
\<close>

record table_factures =
  lignes :: "(int \<times> string facture) list"
  sequence :: int

text \<open>\<open>CREATE TABLE IF NOT EXISTS factures\<close>: \<open>None\<close> is a database without the table.\<close>

definition init_db :: "table_factures option \<Rightarrow> table_factures option" where
  "init_db t = (case t of None \<Rightarrow> Some \<lparr>lignes = [], sequence = 0\<rparr> | Some t' \<Rightarrow> Some t')"

text \<open>The date column of a record mapped by \<open>g\<close>, every other column kept.\<close>

definition map_date :: "('a \<Rightarrow> 'b) \<Rightarrow> 'a facture \<Rightarrow> 'b facture" where
  "map_date g r =
     \<lparr>numero_facture = numero_facture r, date_course = g (date_course r),
      depart = depart r, arrivee = arrivee r, kilometrage = kilometrage r, duree = duree r,
      tarif_base = tarif_base r, tva = tva r, montant_total = montant_total r,
      client_email = client_email r, notes_facture = notes_facture r, statut = statut r\<rparr>"

definition max_rowid :: "(int \<times> 'a) list \<Rightarrow> int" where
  "max_rowid rs = fold max (map fst rs) 0"

text \<open>
  \<open>pd.DataFrame([data]).to_sql('factures', conn, if_exists='append', index=False)\<close>:
  the datetime is stored as its ISO text, and AUTOINCREMENT gives the row the id one
  above both the largest id in use and the largest id ever given.
\<close>

definition to_sql_append :: "datetime facture \<Rightarrow> table_factures \<Rightarrow> table_factures" where
  "to_sql_append r t =
     (let i = max (sequence t) (max_rowid (lignes t)) + 1
      in t\<lparr>lignes := lignes t @ [(i, map_date isoformat_sp r)], sequence := i\<rparr>)"

text \<open>\<open>SELECT * FROM factures\<close>: a scan of the table in rowid order.\<close>

definition select_all :: "table_factures \<Rightarrow> (int \<times> string facture) list" where
  "select_all t = sort_key fst (lignes t)"

text \<open>\<open>df['date_course'] = pd.to_datetime(df['date_course'])\<close>: one bad text raises.\<close>

fun convertir_dates :: "(int \<times> string facture) list \<Rightarrow> (int \<times> datetime facture) list py_result" where
  "convertir_dates [] = Inr []"
| "convertir_dates ((i, r) # rs) =
     (case to_datetime (date_course r) of
        Inl e \<Rightarrow> Inl e
      | Inr x \<Rightarrow> (case convertir_dates rs of
                   Inl e \<Rightarrow> Inl e
                 | Inr ys \<Rightarrow> Inr ((i, map_date (\<lambda>_. x) r) # ys)))"

definition lire_factures :: "table_factures \<Rightarrow> (int \<times> datetime facture) list py_result" where
  "lire_factures t = convertir_dates (select_all t)"

text \<open>
  Lines 255--260: the rows whose trip date (\<open>.dt.date\<close>) lies in
  \<open>[date_debut, date_fin]\<close>, and, unless the status filter is \<open>"Tous"\<close>, whose status
  equals it.
\<close>

definition filtre_historique ::
  "date \<Rightarrow> date \<Rightarrow> string \<Rightarrow> (int \<times> datetime facture) list \<Rightarrow> (int \<times> datetime facture) list" where
  "filtre_historique date_debut date_fin statut_filter df =
     filter (\<lambda>(i, r). date_debut \<le> dt_date (date_course r) \<and> dt_date (date_course r) \<le> date_fin \<and>
                      (statut_filter = ''Tous'' \<or> statut r = statut_filter)) df"

section \<open>Invariant\<close>

text \<open>
  What every table the program builds satisfies: ids positive, strictly increasing in
  storage order, at most the counter, and every stored date the text of a valid datetime.
\<close>

definition table_ok :: "table_factures \<Rightarrow> bool" where
  "table_ok t \<longleftrightarrow>
     sorted_wrt (<) (map fst (lignes t)) \<and> (\<forall>i \<in> set (map fst (lignes t)). 0 < i \<and> i \<le> sequence t) \<and>
     0 \<le> sequence t \<and>
     (\<forall>r \<in> set (map snd (lignes t)). \<exists>x. valid_datetime x \<and> date_course r = isoformat_sp x)"

section \<open>Sample data\<close>

text \<open>The empty table \<open>init_db\<close> creates and the invoice of the sample form.\<close>

definition table0 :: table_factures where
  "table0 = \<lparr>lignes = [], sequence = 0\<rparr>"

definition facture50 :: "datetime facture" where
  "facture50 =
     \<lparr>numero_facture = ''VTC-20250310-143015'', date_course = course0,
      depart = ''Gare de Lyon'', arrivee = ''Orly'', kilometrage = 18.5, duree = 35,
      tarif_base = 50, tva = 10, montant_total = 60, client_email = ''client@example.fr'',
      notes_facture = [], statut = statut_emise\<rparr>"

section \<open>Lemmas\<close>

lemma fold_max_ge: "a \<le> fold max xs (a::int)"
proof (induction xs arbitrary: a)
  case Nil
  then show ?case by simp
next
  case (Cons y ys)
  show ?case using order_trans [OF max.cobounded2 Cons.IH [of "max y a"]] by simp
qed

lemma fold_max_mono: "x \<in> set xs \<Longrightarrow> x \<le> fold max xs (a::int)"
proof (induction xs arbitrary: a)
  case Nil
  then show ?case by simp
next
  case (Cons y ys)
  then show ?case
    by (auto intro: order_trans [OF _ fold_max_ge])
qed

lemma max_rowid_ge: "i \<in> set (map fst rs) \<Longrightarrow> i \<le> max_rowid rs"
  by (simp add: max_rowid_def fold_max_mono)

lemma max_rowid_le: "0 \<le> s \<Longrightarrow> \<forall>i \<in> set (map fst rs). i \<le> s \<Longrightarrow> max_rowid rs \<le> s"
proof -
  have "\<And>a. a \<le> s \<Longrightarrow> \<forall>i \<in> set xs. i \<le> s \<Longrightarrow> fold max xs a \<le> s" for xs :: "int list"
    by (induction xs) auto
  then show "0 \<le> s \<Longrightarrow> \<forall>i \<in> set (map fst rs). i \<le> s \<Longrightarrow> max_rowid rs \<le> s"
    by (simp add: max_rowid_def)
qed

lemma date_course_map_date [simp]: "date_course (map_date g r) = g (date_course r)"
  and statut_map_date [simp]: "statut (map_date g r) = statut r"
  by (simp_all add: map_date_def)

lemma map_date_comp [simp]: "map_date g (map_date h r) = map_date (g \<circ> h) r"
  by (simp add: map_date_def)

lemma map_date_id [simp]: "map_date (\<lambda>_. date_course r) r = r"
  by (simp add: map_date_def)

text \<open>Under the invariant the new id is the counter plus one.\<close>

lemma to_sql_append_id:
  "table_ok t \<Longrightarrow> to_sql_append r t =
     t\<lparr>lignes := lignes t @ [(sequence t + 1, map_date isoformat_sp r)], sequence := sequence t + 1\<rparr>"
  using max_rowid_le [of "sequence t" "lignes t"]
  by (simp add: to_sql_append_def table_ok_def max_def Let_def)

lemma select_all_sorted: "table_ok t \<Longrightarrow> select_all t = lignes t"
proof -
  assume ok: "table_ok t"
  then have "sorted (map fst (lignes t))"
    by (simp add: table_ok_def strict_sorted_iff)
  then show ?thesis by (simp add: select_all_def sort_key_id_if_sorted)
qed

lemma convertir_dates_append:
  "convertir_dates (xs @ ys) =
     (case convertir_dates xs of Inl e \<Rightarrow> Inl e
      | Inr as \<Rightarrow> (case convertir_dates ys of Inl e \<Rightarrow> Inl e | Inr bs \<Rightarrow> Inr (as @ bs)))"
  by (induction xs rule: convertir_dates.induct) (auto split: sum.splits)

lemma convertir_dates_ok:
  "\<forall>r \<in> set (map snd rs). \<exists>x. valid_datetime x \<and> date_course r = isoformat_sp x \<Longrightarrow>
   \<exists>ys. convertir_dates rs = Inr ys \<and> map fst ys = map fst rs"
proof (induction rs)
  case Nil
  then show ?case by simp
next
  case (Cons p rs)
  obtain i r where p: "p = (i, r)" by (cases p)
  then obtain x where "valid_datetime x" "date_course r = isoformat_sp x"
    using Cons.prems by auto
  with Cons p show ?case by auto
qed

lemma table0_ok: "table_ok table0" by (simp add: table0_def table_ok_def)

lemma table0_seq: "sequence table0 = 0" by (simp add: table0_def)

lemma init_db_ok: "init_db t = Some t' \<Longrightarrow> (t = None \<or> table_ok t') \<Longrightarrow> table_ok t'"
  by (auto simp: init_db_def table_ok_def split: option.splits)

lemma to_sql_append_ok:
  assumes "table_ok t" "valid_datetime (date_course r)"
  shows "table_ok (to_sql_append r t)"
  using assms
  by (fastforce simp: to_sql_append_id table_ok_def sorted_wrt_append)

lemma lire_factures_append:
  assumes ok: "table_ok t" and v: "valid_datetime (date_course r)"
    and rd: "lire_factures t = Inr rs"
  shows "lire_factures (to_sql_append r t) = Inr (rs @ [(sequence t + 1, r)])"
proof -
  have ok': "table_ok (to_sql_append r t)" using ok v by (rule to_sql_append_ok)
  have conv: "convertir_dates (lignes t) = Inr rs"
    using rd ok by (simp add: lire_factures_def select_all_sorted)
  have "lire_factures (to_sql_append r t) =
          convertir_dates (lignes t @ [(sequence t + 1, map_date isoformat_sp r)])"
    using ok' ok by (simp add: lire_factures_def select_all_sorted to_sql_append_id)
  also have "\<dots> = Inr (rs @ [(sequence t + 1, r)])"
    using conv v by (simp add: convertir_dates_append comp_def)
  finally show ?thesis .
qed

lemma lire_factures_ok:
  "table_ok t \<Longrightarrow> \<exists>rs. lire_factures t = Inr rs \<and> map fst rs = map fst (lignes t)"
  using convertir_dates_ok [of "lignes t"]
  by (simp add: lire_factures_def select_all_sorted table_ok_def)

lemma filtre_historique_set:
  "x \<in> set (filtre_historique d1 d2 sf df) \<longleftrightarrow>
     x \<in> set df \<and> d1 \<le> dt_date (date_course (snd x)) \<and> dt_date (date_course (snd x)) \<le> d2 \<and>
     (sf = ''Tous'' \<or> statut (snd x) = sf)"
  by (cases x) (auto simp: filtre_historique_def)

section \<open>Properties\<close>

text \<open>
  C6: Appending a record whose trip datetime is valid keeps
  the table invariant (ids positive, strictly increasing, bounded by the AUTOINCREMENT
  counter, dates stored as ISO text), advances the counter by one, and gives the new row
  an id no row of the table has.
\<close>

theorem to_sql_append_invariant:
  assumes "table_ok t" "valid_datetime (date_course r)"
  shows "table_ok (to_sql_append r t) \<and> sequence (to_sql_append r t) = sequence t + 1 \<and>
         sequence t + 1 \<notin> set (map fst (lignes t)) \<and>
         lignes (to_sql_append r t) = lignes t @ [(sequence t + 1, map_date isoformat_sp r)]"
proof -
  have "\<forall>i \<in> set (map fst (lignes t)). i \<le> sequence t" using assms(1) by (simp add: table_ok_def)
  then have "sequence t + 1 \<notin> set (map fst (lignes t))" by fastforce
  with to_sql_append_ok [OF assms] to_sql_append_id [OF assms(1)] show ?thesis by simp
qed

theorem to_sql_append_invariant_witness:
  "table_ok (to_sql_append facture50 table0) \<and> sequence (to_sql_append facture50 table0) = 1 \<and>
   lignes (to_sql_append facture50 table0) = [(1, map_date isoformat_sp facture50)]"
proof -
  have ok: "table_ok table0" by (simp add: table0_def table_ok_def)
  have v: "valid_datetime (date_course facture50)"
    using valid_samples by (simp add: facture50_def)
  from to_sql_append_invariant [OF ok v] show ?thesis by (simp add: table0_def)
qed

text \<open>
  C8: After an append, the full read of the table (\<open>SELECT *\<close> and
  \<open>pd.to_datetime\<close>) succeeds and returns the rows read before, in the same order,
  followed by the appended record, with its datetime as given and a fresh id.
\<close>

theorem append_then_read:
  assumes "table_ok t" "valid_datetime (date_course r)"
  shows "\<exists>rs. lire_factures t = Inr rs \<and> sequence t + 1 \<notin> set (map fst rs) \<and>
           lire_factures (to_sql_append r t) = Inr (rs @ [(sequence t + 1, r)])"
proof -
  obtain rs where rs: "lire_factures t = Inr rs" "map fst rs = map fst (lignes t)"
    using lire_factures_ok [OF assms(1)] by blast
  have "\<forall>i \<in> set (map fst (lignes t)). i \<le> sequence t" using assms(1) by (simp add: table_ok_def)
  then have "sequence t + 1 \<notin> set (map fst rs)" using rs(2) by (metis less_add_one not_le)
  with rs lire_factures_append [OF assms rs(1)] show ?thesis by blast
qed

theorem append_then_read_witness:
  "lire_factures (to_sql_append facture50 table0) = Inr [(1, facture50)]"
proof -
  have ok: "table_ok table0" by (simp add: table0_def table_ok_def)
  have v: "valid_datetime (date_course facture50)"
    using valid_samples by (simp add: facture50_def)
  from append_then_read [OF ok v] obtain rs where
    "lire_factures table0 = Inr rs" "lire_factures (to_sql_append facture50 table0) = Inr (rs @ [(1, facture50)])"
    by (auto simp: table0_def)
  moreover have "lire_factures table0 = Inr []" by (simp add: lire_factures_def select_all_def table0_def)
  ultimately show ?thesis by simp
qed

text \<open>
  C19: The history filter returns, in storage order, exactly the
  rows whose trip date lies in \<open>[date_debut, date_fin]\<close> (both ends included) and whose
  status matches unless the filter is \<open>"Tous"\<close>; for \<open>date_debut > date_fin\<close> it
  returns nothing.
\<close>

theorem filtre_historique_exact:
  "subseq (filtre_historique d1 d2 sf df) df \<and>
   (\<forall>x \<in> set df. x \<in> set (filtre_historique d1 d2 sf df) \<longleftrightarrow>
      d1 \<le> dt_date (date_course (snd x)) \<and> dt_date (date_course (snd x)) \<le> d2 \<and>
      (sf = ''Tous'' \<or> statut (snd x) = sf)) \<and>
   (d2 < d1 \<longrightarrow> filtre_historique d1 d2 sf df = [])"
proof (intro conjI)
  show "subseq (filtre_historique d1 d2 sf df) df"
    by (simp add: filtre_historique_def)
  show "\<forall>x \<in> set df. x \<in> set (filtre_historique d1 d2 sf df) \<longleftrightarrow>
      d1 \<le> dt_date (date_course (snd x)) \<and> dt_date (date_course (snd x)) \<le> d2 \<and>
      (sf = ''Tous'' \<or> statut (snd x) = sf)"
    by (simp add: filtre_historique_set)
  show "d2 < d1 \<longrightarrow> filtre_historique d1 d2 sf df = []"
    by (auto simp: filtre_historique_def filter_empty_conv dest: order.trans)
qed

theorem filtre_historique_exact_witness:
  "(1, facture50) \<in> set (filtre_historique (Date 2025 3 1) (Date 2025 3 31) ''Tous'' [(1, facture50)]) \<and>
   (1, facture50) \<notin> set (filtre_historique (Date 2025 3 11) (Date 2025 3 31) ''Tous'' [(1, facture50)]) \<and>
   filtre_historique (Date 2025 3 31) (Date 2025 3 1) ''Tous'' [(1, facture50)] = []"
proof -
  note h = filtre_historique_exact [of "Date 2025 3 1" "Date 2025 3 31" "''Tous''" "[(1, facture50)]"]
    filtre_historique_exact [of "Date 2025 3 11" "Date 2025 3 31" "''Tous''" "[(1, facture50)]"]
    filtre_historique_exact [of "Date 2025 3 31" "Date 2025 3 1" "''Tous''" "[(1, facture50)]"]
  have d: "dt_date (date_course facture50) = Date 2025 3 10"
    by (simp add: facture50_def course0_def)
  have lt: "Date 2025 3 1 < Date 2025 3 31" "Date 2025 3 1 \<le> Date 2025 3 10"
    "Date 2025 3 10 \<le> Date 2025 3 31" "\<not> Date 2025 3 11 \<le> Date 2025 3 10"
    by (simp_all add: less_date_def less_eq_date_def date_key_def)
  show ?thesis using h d lt by simp
qed

end
