(* ===== verification/Ordinal.thy ===== *)
theory Ordinal
  imports Calendar
begin

text \<open>
  Correctness of the calendar arithmetic of theory \<open>Calendar\<close>, which the dashboard's
  period filter relies on (\<open>today - timedelta(days=k)\<close>, lines 297 and 299 of
  \<open>src/app.py\<close>). CPython's \<open>_ord2ymd\<close> inverts \<open>_ymd2ord\<close> on the whole range of
  \<open>datetime\<close>: every valid date has a day number in \<open>1 .. max_ordinal\<close> from which
  \<open>ord2ymd\<close> gives it back, and every day number of that range is the number of the
  valid date \<open>ord2ymd\<close> computes. The day number is an order embedding, so comparing
  datetimes is comparing day numbers and then times, and subtracting \<open>k\<close> days moves
  the day number by \<open>k\<close> and keeps the time of day.

  The proof splits a year count into 400-, 100-, 4- and 1-year cycles
  (\<open>days_before_year_cycles\<close>) and checks the month step \<open>ord2md\<close> on every day of a
  common and of a leap year, by evaluation of the bool-valued checks below.
\<close>

section \<open>Month tables for a given leap flag\<close>



text \<open>The length and the first day of month \<open>m\<close> in a year with leap flag \<open>L\<close>.\<close>



definition dim_l :: "bool \<Rightarrow> int \<Rightarrow> int" where
  "dim_l L m = (if m = 2 \<and> L then 29 else days_in_month_tbl ! nat m)"

definition dbm_l :: "bool \<Rightarrow> int \<Rightarrow> int" where
  "dbm_l L m = days_before_month_tbl ! nat m + (if m > 2 \<and> L then 1 else 0)"

text \<open>The month step on day \<open>n\<close> of a year gives a valid month and day whose day of the year is \<open>n\<close>.\<close>



definition ord2md_ok :: "bool \<Rightarrow> int \<Rightarrow> bool" where
  "ord2md_ok L n = (case ord2md L n of (m, d) \<Rightarrow>
      1 \<le> m \<and> m \<le> 12 \<and> 1 \<le> d \<and> d \<le> dim_l L m \<and> dbm_l L m + d - 1 = n)"

text \<open>Consecutive months follow each other without gap.\<close>



definition dbm_step_ok :: "bool \<Rightarrow> int \<Rightarrow> bool" where
  "dbm_step_ok L m \<longleftrightarrow> dbm_l L (m + 1) = dbm_l L m + dim_l L m \<and> 1 \<le> dim_l L m"

section \<open>The month step, checked on every day of the year\<close>

lemma ord2md_ok_all: "list_all (ord2md_ok True) [0..364] \<and> list_all (ord2md_ok False) [0..364]"
  by code_simp

lemma ord2md_inv_all:
  "list_all (\<lambda>L. list_all (\<lambda>m. list_all (\<lambda>d. ord2md L (dbm_l L m + d - 1) = (m, d) \<and>
       dbm_l L m + d - 1 \<le> 364 + (if L then 1 else 0) \<and>
       (dbm_l L m + d - 1 = 364 + (if L then 1 else 0) \<longrightarrow> m = 12 \<and> d = 31))
     [1..dim_l L m]) [1..12]) [True, False]"
  by code_simp

lemma dbm_step_all: "list_all (\<lambda>L. list_all (dbm_step_ok L) [1..11]) [True, False] \<and>
    list_all (\<lambda>L. dbm_l L 12 + dim_l L 12 = 365 + (if L then 1 else 0) \<and> dbm_l L 1 = 0) [True, False]"
  by code_simp

lemma days_in_month_l: "days_in_month y m = dim_l (is_leap y) m"
  by (simp add: days_in_month_def dim_l_def)

lemma days_before_month_l: "days_before_month y m = dbm_l (is_leap y) m"
  by (simp add: days_before_month_def dbm_l_def)

lemma toordinal_Date: "toordinal (Date y m d) = days_before_year y + dbm_l (is_leap y) m + d"
  by (simp add: toordinal_def ymd2ord_def days_before_month_l)

lemma valid_Date: "valid_date (Date y m d) \<longleftrightarrow> 1 \<le> y \<and> y \<le> 9999 \<and> 1 \<le> m \<and> m \<le> 12 \<and> 1 \<le> d \<and> d \<le> dim_l (is_leap y) m"
  by (simp add: valid_date_def days_in_month_l)

lemma ord2md_range:
  assumes "0 \<le> r" "r \<le> 364" "ord2md L r = (m, d)"
  shows "1 \<le> m \<and> m \<le> 12 \<and> 1 \<le> d \<and> d \<le> dim_l L m \<and> dbm_l L m + d - 1 = r"
proof -
  have "r \<in> set [0..364]" using assms by simp
  then have "ord2md_ok L r" using ord2md_ok_all by (cases L) (auto simp: list_all_iff)
  then show ?thesis using assms(3) by (simp add: ord2md_ok_def)
qed

lemma ord2md_inv:
  assumes "1 \<le> m" "m \<le> 12" "1 \<le> d" "d \<le> dim_l L m"
  shows "ord2md L (dbm_l L m + d - 1) = (m, d) \<and> dbm_l L m + d - 1 \<le> 364 + (if L then 1 else 0) \<and>
         (dbm_l L m + d - 1 = 364 + (if L then 1 else 0) \<longrightarrow> m = 12 \<and> d = 31)"
proof -
  have "m \<in> set [1..12]" "d \<in> set [1..dim_l L m]" using assms by simp_all
  moreover have "L \<in> set [True, False]" by simp
  ultimately show ?thesis using ord2md_inv_all unfolding list_all_iff by blast
qed

lemma dbm_step: "1 \<le> m \<Longrightarrow> m \<le> 11 \<Longrightarrow> dbm_l L (m + 1) = dbm_l L m + dim_l L m"
  using dbm_step_all by (cases L) (auto simp: list_all_iff dbm_step_ok_def)

lemma dim_pos: "1 \<le> m \<Longrightarrow> m \<le> 12 \<Longrightarrow> 1 \<le> dim_l L m"
  by (cases L; cases "m = 12") (use dbm_step_all in \<open>auto simp: list_all_iff dbm_step_ok_def\<close>, simp_all add: dim_l_def days_in_month_tbl_def)

lemma dbm_one: "dbm_l L 1 = 0"
  by (simp add: dbm_l_def days_before_month_tbl_def)

lemma dbm_mono:
  assumes "1 \<le> m1" "m1 < m2" "m2 \<le> 12"
  shows "dbm_l L m1 + dim_l L m1 \<le> dbm_l L m2"
proof -
  have "m1 + 1 \<le> m2" using assms by simp
  then show ?thesis using assms(3)
  proof (induction m2 rule: int_ge_induct)
    case base
    then show ?case using dbm_step [of m1 L] assms by simp
  next
    case (step i)
    then show ?case using dbm_step [of i L] dim_pos [of i L] assms by simp
  qed
qed

section \<open>Cycles of 400, 100, 4 and 1 years\<close>

lemma cycles_exist:
  assumes "0 \<le> (z::int)"
  obtains a b c e where "0 \<le> a" "0 \<le> b" "b < 4" "0 \<le> c" "c < 25" "0 \<le> e" "e < 4"
    "z = 400 * a + 100 * b + 4 * c + e"
proof
  show "0 \<le> z div 400" using assms by simp
  show "0 \<le> z mod 400 div 100" "z mod 400 div 100 < 4" by simp_all
  show "0 \<le> z mod 100 div 4" "z mod 100 div 4 < 25" by simp_all
  show "0 \<le> z mod 4" "z mod 4 < 4" by simp_all
  have m: "z mod 400 mod 100 = z mod 100" "z mod 100 mod 4 = z mod 4"
    by (simp_all add: mod_mod_cancel)
  have "z = 400 * (z div 400) + z mod 400" by simp
  also have "z mod 400 = 100 * (z mod 400 div 100) + z mod 100"
    using div_mult_mod_eq [of "z mod 400" 100] m(1) by simp
  also have "z mod 100 = 4 * (z mod 100 div 4) + z mod 4"
    using div_mult_mod_eq [of "z mod 100" 4] m(2) by simp
  finally show "z = 400 * (z div 400) + 100 * (z mod 400 div 100) + 4 * (z mod 100 div 4) + z mod 4"
    by simp
qed

lemma days_before_year_cycles:
  assumes "0 \<le> b" "b < 4" "0 \<le> c" "c < 25" "0 \<le> e" "e < 4"
  shows "days_before_year (400 * a + 100 * b + 4 * c + e + 1) = 146097 * a + 36524 * b + 1461 * c + 365 * e"
proof -
  have "(400 * a + 100 * b + 4 * c + e) div 4 = 100 * a + 25 * b + c"
    using div_unique_int [of e 4 "100 * a + 25 * b + c"] assms by (simp add: algebra_simps)
  moreover have "(400 * a + 100 * b + 4 * c + e) div 100 = 4 * a + b"
    using div_unique_int [of "4 * c + e" 100 "4 * a + b"] assms by (simp add: algebra_simps)
  moreover have "(400 * a + 100 * b + 4 * c + e) div 400 = a"
    using div_unique_int [of "100 * b + 4 * c + e" 400 a] assms by (simp add: algebra_simps)
  ultimately show ?thesis by (simp add: days_before_year_def Let_def algebra_simps)
qed

lemma is_leap_cycles:
  assumes "0 \<le> b" "b < 4" "0 \<le> c" "c < 25" "0 \<le> e" "e < 4"
  shows "is_leap (400 * a + 100 * b + 4 * c + e + 1) \<longleftrightarrow> e = 3 \<and> (c \<noteq> 24 \<or> b = 3)"
proof (cases "e = 3")
  case False
  have "(400 * a + 100 * b + 4 * c + e + 1) = (100 * a + 25 * b + c) * 4 + (e + 1)" by simp
  then have "(400 * a + 100 * b + 4 * c + e + 1) mod 4 = (e + 1) mod 4" by (metis mod_mult_self3)
  moreover have "(e + 1) mod 4 \<noteq> 0" using False assms(5,6) by (subst small_mod_zero) auto
  ultimately show ?thesis using False by (simp add: is_leap_def)
next
  case True
  have y: "400 * a + 100 * b + 4 * c + e + 1 = (100 * a + 25 * b + c + 1) * 4" using True by simp
  have m100: "(400 * a + 100 * b + 4 * c + e + 1) mod 100 = (4 * c + 4) mod 100"
  proof -
    have "400 * a + 100 * b + 4 * c + e + 1 = (4 * a + b) * 100 + (4 * c + 4)" using True by simp
    then show ?thesis by (metis mod_mult_self3)
  qed
  show ?thesis
  proof (cases "c = 24")
    case False
    then have "(4 * c + 4) mod 100 \<noteq> 0" using assms(3,4) by (subst small_mod_zero) auto
    with m100 y True False show ?thesis by (simp add: is_leap_def)
  next
    case c: True
    have "400 * a + 100 * b + 4 * c + e + 1 = a * 400 + (100 * b + 100)" using True c by simp
    then have "(400 * a + 100 * b + 4 * c + e + 1) mod 400 = (100 * b + 100) mod 400" by (metis mod_mult_self3)
    moreover have "(100 * b + 100) mod 400 = 0 \<longleftrightarrow> b = 3"
    proof (cases "b = 3")
      case False
      then show ?thesis using assms(1,2) by (subst small_mod_zero) auto
    qed simp
    moreover have "(400 * a + 100 * b + 4 * c + e + 1) mod 100 = 0" using m100 c by simp
    ultimately show ?thesis using y True c by (simp add: is_leap_def)
  qed
qed

lemma days_before_year_succ:
  assumes "1 \<le> y"
  shows "days_before_year (y + 1) = days_before_year y + 365 + (if is_leap y then 1 else 0)"
proof -
  have "0 \<le> y - 1" using assms by simp
  from cycles_exist [OF this] obtain a b c e where abce: "0 \<le> a" "0 \<le> b" "b < 4" "0 \<le> c" "c < 25" "0 \<le> e" "e < 4"
    and z: "y - 1 = 400 * a + 100 * b + 4 * c + e" .
  have y: "y = 400 * a + 100 * b + 4 * c + e + 1" using z by simp
  have dby: "days_before_year y = 146097 * a + 36524 * b + 1461 * c + 365 * e"
    unfolding y using abce(2-7) by (rule days_before_year_cycles)
  have leap: "is_leap y \<longleftrightarrow> e = 3 \<and> (c \<noteq> 24 \<or> b = 3)"
    unfolding y using abce(2-7) by (rule is_leap_cycles)
  consider "e < 3" | "e = 3" "c < 24" | "e = 3" "c = 24" "b < 3" | "e = 3" "c = 24" "b = 3"
    using abce by linarith
  then show ?thesis
  proof cases
    case 1
    have "y + 1 = 400 * a + 100 * b + 4 * c + (e + 1) + 1" using y by simp
    then show ?thesis using days_before_year_cycles [of b c "e + 1" a] abce 1 dby leap by simp
  next
    case 2
    have "y + 1 = 400 * a + 100 * b + 4 * (c + 1) + 0 + 1" using y 2 by simp
    then show ?thesis using days_before_year_cycles [of b "c + 1" 0 a] abce 2 dby leap by simp
  next
    case 3
    have "y + 1 = 400 * a + 100 * (b + 1) + 4 * 0 + 0 + 1" using y 3 by simp
    then show ?thesis using days_before_year_cycles [of "b + 1" 0 0 a] abce 3 dby leap by simp
  next
    case 4
    have "y + 1 = 400 * (a + 1) + 100 * 0 + 4 * 0 + 0 + 1" using y 4 by simp
    then show ?thesis using days_before_year_cycles [of 0 0 0 "a + 1"] abce 4 dby leap by simp
  qed
qed

lemma days_before_year_mono:
  assumes "1 \<le> y1" "y1 \<le> y2"
  shows "days_before_year y1 \<le> days_before_year y2"
  using assms(2)
proof (induction y2 rule: int_ge_induct)
  case (step i)
  then show ?case using days_before_year_succ [of i] assms(1) by simp
qed simp

lemma ord2ymd_cycles:
  assumes "0 \<le> b" "b < 4" "0 \<le> c" "c < 25" "0 \<le> e" "e < 4" "0 \<le> r" "r \<le> 364"
  shows "ord2ymd (146097 * a + 36524 * b + 1461 * c + 365 * e + r + 1) =
           (case ord2md (e = 3 \<and> (c \<noteq> 24 \<or> b = 3)) r of (m, d) \<Rightarrow> Date (400 * a + 100 * b + 4 * c + e + 1) m d)"
proof -
  let ?n0 = "146097 * a + 36524 * b + 1461 * c + 365 * e + r + 1"
  let ?X = "36524 * b + 1461 * c + 365 * e + r"
  let ?W = "1461 * c + 365 * e + r"
  let ?V = "365 * e + r"
  have e1: "?n0 - 1 = a * 146097 + ?X" and e2: "?X = b * 36524 + ?W" and e3: "?W = c * 1461 + ?V"
    and e4: "?V = e * 365 + r" by simp_all
  have h1: "(?n0 - 1) div 146097 = a" and h2: "(?n0 - 1) mod 146097 = ?X"
    unfolding e1 using assms by (intro div_unique_int mod_unique_int; simp)+
  have h3: "?X div 36524 = b" and h4: "?X mod 36524 = ?W"
    unfolding e2 using assms by (intro div_unique_int mod_unique_int; simp)+
  have h5: "?W div 1461 = c" and h6: "?W mod 1461 = ?V"
    unfolding e3 using assms by (intro div_unique_int mod_unique_int; simp)+
  have h7: "?V div 365 = e" and h8: "?V mod 365 = r"
    unfolding e4 using assms by (intro div_unique_int mod_unique_int; simp)+
  have y: "a * 400 + 1 + b * 100 + c * 4 + e = 400 * a + 100 * b + 4 * c + e + 1" by simp
  show ?thesis
    unfolding ord2ymd_def Let_def h1 h2 h3 h4 h5 h6 h7 h8 y
    using assms by simp
qed

lemma ord2ymd_last4:
  assumes "0 \<le> b" "b < 4" "0 \<le> c" "c < 24"
  shows "ord2ymd (146097 * a + 36524 * b + 1461 * c + 1460 + 1) = Date (400 * a + 100 * b + 4 * c + 4) 12 31"
proof -
  let ?n0 = "146097 * a + 36524 * b + 1461 * c + 1460 + 1"
  have e1: "?n0 - 1 = a * 146097 + (36524 * b + 1461 * c + 1460)"
    and e2: "36524 * b + 1461 * c + 1460 = b * 36524 + (1461 * c + 1460)"
    and e3: "1461 * c + 1460 = c * 1461 + 1460" by simp_all
  have h1: "(?n0 - 1) div 146097 = a" and h2: "(?n0 - 1) mod 146097 = 36524 * b + 1461 * c + 1460"
    unfolding e1 using assms by (intro div_unique_int mod_unique_int; simp)+
  have h3: "(36524 * b + 1461 * c + 1460) div 36524 = b" and h4: "(36524 * b + 1461 * c + 1460) mod 36524 = 1461 * c + 1460"
    unfolding e2 using assms by (intro div_unique_int mod_unique_int; simp)+
  have h5: "(1461 * c + 1460) div 1461 = c" and h6: "(1461 * c + 1460) mod 1461 = 1460"
    unfolding e3 using assms by (intro div_unique_int mod_unique_int; simp)+
  show ?thesis
    unfolding ord2ymd_def Let_def h1 h2 h3 h4 h5 h6 by simp
qed

lemma ord2ymd_last400: "ord2ymd (146097 * a + 146096 + 1) = Date (400 * a + 400) 12 31"
proof -
  have e1: "146097 * a + 146096 + 1 - 1 = a * 146097 + 146096" by simp
  have h1: "(146097 * a + 146096 + 1 - 1) div 146097 = a" and h2: "(146097 * a + 146096 + 1 - 1) mod 146097 = 146096"
    unfolding e1 by (intro div_unique_int mod_unique_int; simp)+
  show ?thesis unfolding ord2ymd_def Let_def h1 h2 by simp
qed

lemma ord_cycles_exist:
  assumes "1 \<le> (n0::int)"
  obtains (main) a b c e r where "0 \<le> a" "0 \<le> b" "b < 4" "0 \<le> c" "c < 25" "0 \<le> e" "e < 4" "0 \<le> r" "r \<le> 364"
      "n0 = 146097 * a + 36524 * b + 1461 * c + 365 * e + r + 1"
  | (last4) a b c where "0 \<le> a" "0 \<le> b" "b < 4" "0 \<le> c" "c < 24" "n0 = 146097 * a + 36524 * b + 1461 * c + 1460 + 1"
  | (last400) a where "0 \<le> a" "n0 = 146097 * a + 146096 + 1"
proof -
  define a where "a = (n0 - 1) div 146097"
  define X where "X = (n0 - 1) mod 146097"
  define b where "b = X div 36524"
  define W where "W = X mod 36524"
  define c where "c = W div 1461"
  define V where "V = W mod 1461"
  define e where "e = V div 365"
  define r where "r = V mod 365"
  have n: "n0 - 1 = 146097 * a + X" "0 \<le> a" using assms unfolding X_def a_def by simp_all
  have X: "X = 36524 * b + W" "0 \<le> b" "X \<le> 146096" "0 \<le> X" unfolding W_def X_def b_def by simp_all
  have W: "W = 1461 * c + V" "0 \<le> c" "W \<le> 36523" "0 \<le> W" unfolding V_def W_def c_def by simp_all
  have V: "V = 365 * e + r" "0 \<le> e" "V \<le> 1460" "0 \<le> V" "0 \<le> r" "r \<le> 364"
    unfolding V_def e_def r_def by simp_all
  have b4: "b \<le> 4" using X unfolding b_def by simp
  have c24: "c \<le> 24" using W unfolding c_def by simp
  have e4: "e \<le> 4" using V unfolding e_def by simp
  show thesis
  proof (cases "b = 4")
    case True
    then have "n0 = 146097 * a + 146096 + 1" using n X W by linarith
    with n(2) show thesis by (rule last400)
  next
    case b: False
    show thesis
    proof (cases "e = 4")
      case True
      have "c \<noteq> 24" using True W V by linarith
      moreover have "n0 = 146097 * a + 36524 * b + 1461 * c + 1460 + 1" using True n X W V by linarith
      ultimately show thesis using last4 [of a b c] n(2) X(2) b b4 W(2) c24 by linarith
    next
      case False
      have "n0 = 146097 * a + 36524 * b + 1461 * c + 365 * e + r + 1" using n X W V by linarith
      then show thesis using main [of a b c e r] n(2) X(2) b b4 W(2) c24 V(2,5,6) e4 False by linarith
    qed
  qed
qed

section \<open>Round trips between dates and day numbers\<close>

theorem ord2ymd_toordinal:
  assumes "valid_date dt"
  shows "ord2ymd (toordinal dt) = dt"
proof -
  obtain Y M D where dt: "dt = Date Y M D" by (cases dt)
  have v: "1 \<le> Y" "1 \<le> M" "M \<le> 12" "1 \<le> D" "D \<le> dim_l (is_leap Y) M"
    using assms by (simp_all add: dt valid_date_def days_in_month_l)
  have "0 \<le> Y - 1" using v(1) by simp
  from cycles_exist [OF this] obtain a b c e where abce: "0 \<le> a" "0 \<le> b" "b < 4" "0 \<le> c" "c < 25" "0 \<le> e" "e < 4"
    and z: "Y - 1 = 400 * a + 100 * b + 4 * c + e" .
  have Y: "Y = 400 * a + 100 * b + 4 * c + e + 1" using z by simp
  define L where "L = is_leap Y"
  have L: "L \<longleftrightarrow> e = 3 \<and> (c \<noteq> 24 \<or> b = 3)" unfolding L_def Y using abce(2-7) by (rule is_leap_cycles)
  define r where "r = dbm_l L M + D - 1"
  have inv: "ord2md L r = (M, D)" "r \<le> 364 + (if L then 1 else 0)"
    "r = 364 + (if L then 1 else 0) \<Longrightarrow> M = 12 \<and> D = 31"
    using ord2md_inv [OF v(2,3,4)] v(5) unfolding r_def L_def by auto
  have r0: "0 \<le> r" using v unfolding r_def dbm_l_def by (cases "nat M") (auto simp: days_before_month_tbl_def nth_Cons')
  have ord: "toordinal dt = 146097 * a + 36524 * b + 1461 * c + 365 * e + r + 1"
    using days_before_year_cycles [OF abce(2-7), of a] unfolding toordinal_def ymd2ord_def dt
    by (simp add: Y [symmetric] days_before_month_l r_def L_def)
  show ?thesis
  proof (cases "r \<le> 364")
    case True
    then show ?thesis unfolding ord using ord2ymd_cycles [OF abce(2-7) r0 True, of a] inv(1) L by (simp add: dt Y)
  next
    case False
    then have r: "r = 365" "L" using inv(2) by (auto split: if_splits)
    then have md: "M = 12" "D = 31" using inv(3) by simp_all
    have e3: "e = 3" using L r by simp
    show ?thesis
    proof (cases "c = 24")
      case True
      then have "b = 3" using L r by simp
      then show ?thesis unfolding ord using ord2ymd_last400 [of a] by (simp add: dt Y md r e3 True)
    next
      case False
      then show ?thesis unfolding ord using ord2ymd_last4 [OF abce(2,3,4), of a] abce(5) by (simp add: dt Y md r e3)
    qed
  qed
qed

theorem toordinal_ord2ymd:
  assumes "1 \<le> n0" "n0 \<le> max_ordinal"
  shows "valid_date (ord2ymd n0) \<and> toordinal (ord2ymd n0) = n0"
  using assms(1)
proof (cases rule: ord_cycles_exist)
  case (main a b c e r)
  define L where "L = (e = 3 \<and> (c \<noteq> 24 \<or> b = 3))"
  obtain m d where md: "ord2md L r = (m, d)" by (cases "ord2md L r")
  have ok: "1 \<le> m" "m \<le> 12" "1 \<le> d" "d \<le> dim_l L m" "dbm_l L m + d - 1 = r"
    using ord2md_range [OF main(8,9) md] by simp_all
  have leap: "is_leap (400 * a + 100 * b + 4 * c + e + 1) = L"
    unfolding L_def using main(2-7) by (rule is_leap_cycles)
  have o: "ord2ymd n0 = Date (400 * a + 100 * b + 4 * c + e + 1) m d"
    using ord2ymd_cycles [OF main(2-9), of a] md unfolding main(10) L_def by simp
  have "400 * a + 100 * b + 4 * c + e + 1 \<le> 9999"
    using main assms(2) unfolding max_ordinal_def by linarith
  then show ?thesis
    unfolding o toordinal_Date valid_Date leap days_before_year_cycles [OF main(2-7)]
    using ok main by simp
next
  case (last4 a b c)
  have dby: "days_before_year (400 * a + 100 * b + 4 * c + 4) = 146097 * a + 36524 * b + 1461 * c + 1095"
  proof -
    have y: "400 * a + 100 * b + 4 * c + 4 = 400 * a + 100 * b + 4 * c + 3 + 1" by simp
    show ?thesis unfolding y by (rule trans [OF days_before_year_cycles]) (use last4 in simp_all)
  qed
  have leap: "is_leap (400 * a + 100 * b + 4 * c + 4)"
  proof -
    have y: "400 * a + 100 * b + 4 * c + 4 = 400 * a + 100 * b + 4 * c + 3 + 1" by simp
    show ?thesis unfolding y by (subst is_leap_cycles) (use last4 in simp_all)
  qed
  have "400 * a + 100 * b + 4 * c + 4 \<le> 9999"
    using last4 assms(2) unfolding max_ordinal_def by linarith
  then show ?thesis
    unfolding last4(6) ord2ymd_last4 [OF last4(2-5)] toordinal_Date valid_Date dby
    using leap last4 by (simp add: dim_l_def dbm_l_def days_in_month_tbl_def days_before_month_tbl_def)
next
  case (last400 a)
  have y: "400 * a + 400 = 400 * a + 100 * 3 + 4 * 24 + 3 + 1" by simp
  have dby: "days_before_year (400 * a + 400) = 146097 * a + 145731"
    unfolding y by (rule trans [OF days_before_year_cycles]) simp_all
  have leap: "is_leap (400 * a + 400)"
    unfolding y by (subst is_leap_cycles) simp_all
  have "400 * a + 400 \<le> 9999"
    using last400 assms(2) unfolding max_ordinal_def by linarith
  then show ?thesis
    unfolding last400(2) ord2ymd_last400 toordinal_Date valid_Date dby
    using leap last400 by (simp add: dim_l_def dbm_l_def days_in_month_tbl_def days_before_month_tbl_def)
qed

section \<open>Order and bounds\<close>

lemma toordinal_in_year:
  assumes "valid_date (Date y m d)"
  shows "days_before_year y < toordinal (Date y m d)" "toordinal (Date y m d) \<le> days_before_year (y + 1)"
proof -
  have v: "1 \<le> y" "1 \<le> m" "m \<le> 12" "1 \<le> d" "d \<le> dim_l (is_leap y) m"
    using assms by (simp_all add: valid_Date)
  have "dbm_l (is_leap y) m + d - 1 \<le> 364 + (if is_leap y then 1 else 0)"
    using ord2md_inv [OF v(2-5)] by simp
  moreover have "0 \<le> dbm_l (is_leap y) m"
  proof (cases "m = 1")
    case False
    then show ?thesis using dbm_mono [of 1 m "is_leap y"] dim_pos [of 1 "is_leap y"] dbm_one v by simp
  qed (simp add: dbm_one)
  ultimately have b: "0 \<le> dbm_l (is_leap y) m + d - 1" "dbm_l (is_leap y) m + d - 1 \<le> 364 + (if is_leap y then 1 else 0)"
    using v by simp_all
  show "days_before_year y < toordinal (Date y m d)" using b by (simp add: toordinal_Date)
  show "toordinal (Date y m d) \<le> days_before_year (y + 1)"
    using b days_before_year_succ [OF v(1)] by (simp add: toordinal_Date)
qed

theorem toordinal_strict_mono:
  assumes "valid_date d1" "valid_date d2" "d1 < d2"
  shows "toordinal d1 < toordinal d2"
proof -
  obtain y1 m1 a1 where d1: "d1 = Date y1 m1 a1" by (cases d1)
  obtain y2 m2 a2 where d2: "d2 = Date y2 m2 a2" by (cases d2)
  have v1: "1 \<le> y1" "1 \<le> m1" "m1 \<le> 12" "1 \<le> a1" "a1 \<le> dim_l (is_leap y1) m1"
    using assms(1) by (simp_all add: d1 valid_Date)
  have v2: "1 \<le> y2" "1 \<le> m2" "m2 \<le> 12" "1 \<le> a2"
    using assms(2) by (simp_all add: d2 valid_Date)
  have lt: "y1 < y2 \<or> y1 = y2 \<and> (m1 < m2 \<or> m1 = m2 \<and> a1 < a2)"
    using assms(3) by (auto simp: d1 d2 less_date_def date_key_def less_prod_def)
  show ?thesis
  proof (cases "y1 < y2")
    case True
    then have "days_before_year (y1 + 1) \<le> days_before_year y2" using v1(1) by (intro days_before_year_mono) simp_all
    then show ?thesis using toordinal_in_year(2) [OF assms(1) [unfolded d1]] toordinal_in_year(1) [OF assms(2) [unfolded d2]]
      by (simp add: d1 d2)
  next
    case False
    with lt have y: "y1 = y2" and m: "m1 < m2 \<or> m1 = m2 \<and> a1 < a2" by simp_all
    have "dbm_l (is_leap y1) m1 + a1 < dbm_l (is_leap y1) m2 + a2"
    proof (cases "m1 < m2")
      case True
      then show ?thesis using dbm_mono [of m1 m2 "is_leap y1"] v1 v2 by simp
    qed (use m in simp)
    then show ?thesis by (simp add: d1 d2 y toordinal_Date)
  qed
qed

lemma date_eq_toordinal:
  assumes "valid_date d1" "valid_date d2"
  shows "toordinal d1 = toordinal d2 \<longleftrightarrow> d1 = d2"
  using ord2ymd_toordinal [OF assms(1)] ord2ymd_toordinal [OF assms(2)] by metis

lemma date_le_toordinal:
  assumes "valid_date d1" "valid_date d2"
  shows "d1 \<le> d2 \<longleftrightarrow> toordinal d1 \<le> toordinal d2"
  using toordinal_strict_mono [OF assms] toordinal_strict_mono [OF assms(2,1)] date_eq_toordinal [OF assms]
  by (metis linorder_not_less order_le_less order_less_irrefl)

lemma toordinal_bounds:
  assumes "valid_date d"
  shows "1 \<le> toordinal d \<and> toordinal d \<le> max_ordinal"
proof -
  obtain y m a where d: "d = Date y m a" by (cases d)
  have v: "1 \<le> y" "y \<le> 9999" "m \<le> 12" "a \<le> dim_l (is_leap y) m" using assms by (simp_all add: d valid_Date)
  have "days_before_year 1 \<le> days_before_year y" using v(1) by (intro days_before_year_mono) simp_all
  then have "1 \<le> toordinal d" using toordinal_in_year(1) [OF assms [unfolded d]]
    by (simp add: d days_before_year_def)
  moreover have "a \<le> 31"
    using v(3,4) dim_pos [of m] by (cases "m = 2"; auto simp: dim_l_def days_in_month_tbl_def nth_Cons' split: if_splits)
  then have "d \<le> Date 9999 12 31" using v by (auto simp: d less_eq_date_def date_key_def less_eq_prod_def)
  then have "toordinal d \<le> toordinal (Date 9999 12 31)"
    using date_le_toordinal [OF assms] by (simp add: valid_Date dim_l_def days_in_month_tbl_def is_leap_def)
  ultimately show ?thesis
    by (simp add: toordinal_Date days_before_year_def dbm_l_def days_before_month_tbl_def max_ordinal_def is_leap_def)
qed

lemma datetime_le_toordinal:
  assumes "valid_datetime x" "valid_datetime y"
  shows "x \<le> y \<longleftrightarrow> toordinal (dt_date x) < toordinal (dt_date y) \<or>
                   toordinal (dt_date x) = toordinal (dt_date y) \<and> dt_time x \<le> dt_time y"
proof -
  have v: "valid_date (dt_date x)" "valid_date (dt_date y)" using assms by (simp_all add: valid_datetime_def)
  have "x \<le> y \<longleftrightarrow> dt_date x < dt_date y \<or> dt_date x = dt_date y \<and> dt_time x \<le> dt_time y"
    by (auto simp: less_eq_datetime_def dt_key_def less_eq_prod_def less_date_def less_eq_time_def
        date_key_def intro: date.expand)
  also have "\<dots> \<longleftrightarrow> toordinal (dt_date x) < toordinal (dt_date y) \<or>
                   toordinal (dt_date x) = toordinal (dt_date y) \<and> dt_time x \<le> dt_time y"
    using date_le_toordinal [OF v] date_le_toordinal [OF v(2,1)] date_eq_toordinal [OF v]
    by (auto simp: less_le_not_le)
  finally show ?thesis .
qed

section \<open>Subtracting days\<close>

theorem sub_days_correct:
  assumes "valid_datetime x" "0 \<le> k" "k < toordinal (dt_date x)"
  shows "\<exists>y. sub_days x k = Inr y \<and> valid_datetime y \<and>
           toordinal (dt_date y) = toordinal (dt_date x) - k \<and> dt_time y = dt_time x"
proof -
  let ?n = "toordinal (dt_date x) - k"
  have b: "0 < ?n" "?n \<le> max_ordinal"
    using assms toordinal_bounds [of "dt_date x"] by (simp_all add: valid_datetime_def)
  then have "valid_date (ord2ymd ?n) \<and> toordinal (ord2ymd ?n) = ?n"
    by (intro toordinal_ord2ymd) simp_all
  then show ?thesis using b assms(1) by (simp add: sub_days_def Let_def valid_datetime_def)
qed

end
