(* ===== verification/Stats.thy ===== *)
theory Stats
  imports Store Ordinal
begin

text \<open>
  The statistics of the dashboard of \<open>src/app.py\<close>: \<open>calculer_statistiques\<close>
  (lines 131--143), the filter by analysis period (lines 294--301) and the two daily
  series the charts plot (lines 347 and 357). pandas' \<open>groupby(df['date_course'].dt.date)\<close>
  groups the rows by calendar date of the trip and lists the groups in ascending date
  order; a group exists only for a date that has a trip. The lemmas relate the mean
  number of trips per day to the number of trips and of distinct dates, the series
  to the totals, and give the period windows their meaning in day numbers (with the
  calendar facts of theory \<open>Ordinal\<close>).
\<close>

section \<open>Statistics\<close>

text \<open>The dict of lines 135--142; \<open>None\<close> is the empty dict \<open>{}\<close> of line 133.\<close>

record stats =
  total_courses :: nat
  ca_total :: real
  km_total :: real
  duree_moyenne :: real
  ticket_moyen :: real
  courses_jour :: real

definition date_de :: "datetime facture \<Rightarrow> date" where
  "date_de r = dt_date (date_course r)"

text \<open>The group keys of \<open>groupby(df['date_course'].dt.date)\<close>: distinct, ascending.\<close>

definition jours :: "datetime facture list \<Rightarrow> date list" where
  "jours df = sorted_list_of_set (set (map date_de df))"

definition du_jour :: "date \<Rightarrow> datetime facture list \<Rightarrow> datetime facture list" where
  "du_jour d df = filter (\<lambda>r. date_de r = d) df"

text \<open>\<open>groupby(...)['numero_facture'].count()\<close> (lines 141 and 357).\<close>

definition compte_par_jour :: "datetime facture list \<Rightarrow> (date \<times> nat) list" where
  "compte_par_jour df = map (\<lambda>d. (d, length (du_jour d df))) (jours df)"

text \<open>\<open>groupby(...)['montant_total'].sum()\<close> (line 347).\<close>

definition ca_par_jour :: "datetime facture list \<Rightarrow> (date \<times> real) list" where
  "ca_par_jour df = map (\<lambda>d. (d, sum_list (map montant_total (du_jour d df)))) (jours df)"

definition calculer_statistiques :: "datetime facture list \<Rightarrow> stats option" where
  "calculer_statistiques df =
     (if df = [] then None
      else Some \<lparr>total_courses = length df,
                 ca_total = sum_list (map montant_total df),
                 km_total = sum_list (map kilometrage df),
                 duree_moyenne = py_mean (map (\<lambda>r. real_of_int (duree r)) df),
                 ticket_moyen = py_mean (map montant_total df),
                 courses_jour = py_mean (map (\<lambda>(d, n). real n) (compte_par_jour df))\<rparr>)"

section \<open>Analysis period\<close>

text \<open>The options of the selectbox of line 284.\<close>

datatype periode = Sept_jours | Trente_jours | Cette_annee | Tout

text \<open>
  Lines 296--301 with \<open>today\<close> the value of \<open>datetime.now()\<close> (line 295): the last 7 or
  30 days keep the trips at or after \<open>today - timedelta(days=k)\<close> (with no upper
  bound), this year keeps the trips of \<open>today.year\<close>.
\<close>

definition filtre_periode :: "periode \<Rightarrow> datetime \<Rightarrow> datetime facture list \<Rightarrow> datetime facture list py_result" where
  "filtre_periode p today df =
     (case p of
        Sept_jours \<Rightarrow>
          (case sub_days today 7 of Inl e \<Rightarrow> Inl e | Inr limite \<Rightarrow> Inr (filter (\<lambda>r. limite \<le> date_course r) df))
      | Trente_jours \<Rightarrow>
          (case sub_days today 30 of Inl e \<Rightarrow> Inl e | Inr limite \<Rightarrow> Inr (filter (\<lambda>r. limite \<le> date_course r) df))
      | Cette_annee \<Rightarrow> Inr (filter (\<lambda>r. year (date_de r) = year (dt_date today)) df)
      | Tout \<Rightarrow> Inr df)"

section \<open>Sample data\<close>

text \<open>Three trips with totals 12, 18 and 30 on three distinct days (the specification's example).\<close>

definition trajet :: "date \<Rightarrow> real \<Rightarrow> datetime facture" where
  "trajet d montant =
     \<lparr>numero_facture = ''VTC-'', date_course = DateTime d (Time 10 0 0 0), depart = ''A'', arrivee = ''B'',
      kilometrage = 10, duree = 20, tarif_base = montant / 1.2, tva = montant - montant / 1.2,
      montant_total = montant, client_email = ''c@x.fr'', notes_facture = [], statut = statut_emise\<rparr>"

definition trois_trajets :: "datetime facture list" where
  "trois_trajets = [trajet (Date 2025 3 1) 12, trajet (Date 2025 3 2) 18, trajet (Date 2025 3 3) 30]"

text \<open>
  A trip is within the last \<open>k\<close> days of \<open>today\<close> in the sense of lines 296--299: its
  day number is after that of \<open>today\<close> minus \<open>k\<close>, or equal to it with a time of day
  not before that of \<open>today\<close>. Nothing bounds it from above.
\<close>

definition apres_limite :: "int \<Rightarrow> datetime \<Rightarrow> datetime facture \<Rightarrow> bool" where
  "apres_limite k today r \<longleftrightarrow>
     toordinal (dt_date today) - k < toordinal (date_de r) \<or>
     toordinal (dt_date today) - k = toordinal (date_de r) \<and> dt_time today \<le> dt_time (date_course r)"

text \<open>Four trips around \<open>clock1\<close> (2025-03-10 14:30:15): 5 days before, 7 days before at an
  earlier hour, three weeks after, and five weeks before.\<close>

definition trajets_mars :: "datetime facture list" where
  "trajets_mars = [trajet (Date 2025 3 5) 40, trajet (Date 2025 3 3) 18, trajet (Date 2025 4 1) 50,
                   trajet (Date 2025 2 1) 20]"

section \<open>Lemmas\<close>

lemma jours_distinct: "distinct (jours df)" and jours_sorted: "sorted (jours df)"
  and set_jours: "set (jours df) = set (map date_de df)"
  by (simp_all add: jours_def)

lemma sum_compte_par_jour: "(\<Sum>(d, n)\<leftarrow>compte_par_jour df. n) = length df"
proof -
  have "(\<Sum>(d, n)\<leftarrow>compte_par_jour df. n) = (\<Sum>d\<leftarrow>jours df. length (filter (\<lambda>r. date_de r = d) df))"
    by (simp add: compte_par_jour_def du_jour_def comp_def)
  also have "\<dots> = length df"
    by (rule sum_list_count_keys) (simp_all add: jours_distinct set_jours)
  finally show ?thesis .
qed

lemma sum_ca_par_jour: "(\<Sum>(d, x)\<leftarrow>ca_par_jour df. x) = sum_list (map montant_total df)"
proof -
  have "(\<Sum>(d, x)\<leftarrow>ca_par_jour df. x) =
          (\<Sum>d\<leftarrow>jours df. sum_list (map montant_total (filter (\<lambda>r. date_de r = d) df)))"
    by (simp add: ca_par_jour_def du_jour_def comp_def)
  also have "\<dots> = sum_list (map montant_total df)"
    by (rule sum_list_filter_keys) (simp_all add: jours_distinct set_jours)
  finally show ?thesis .
qed

lemma length_jours_pos: "df \<noteq> [] \<Longrightarrow> 0 < length (jours df)"
  by (simp add: jours_def card_gt_0_iff)

lemma du_jour_nonempty: "d \<in> set (jours df) \<Longrightarrow> du_jour d df \<noteq> []"
  by (auto simp: jours_def du_jour_def filter_empty_conv)

lemma sum_list_real: "sum_list (map (\<lambda>(d, n). real n) xs) = real (\<Sum>(d, n)\<leftarrow>xs. n)"
  by (induction xs) auto

lemma jours_le_length: "length (jours df) \<le> length df"
  by (simp add: jours_def) (metis card_image_le card_length finite_set le_trans)

lemma length_compte_par_jour [simp]: "length (compte_par_jour df) = length (jours df)"
  by (simp add: compte_par_jour_def)

lemma courses_jour_div:
  assumes "calculer_statistiques df = Some s"
  shows "courses_jour s = real (length df) / real (length (jours df))"
proof -
  have "sum_list (map (\<lambda>(d, n). real n) (compte_par_jour df)) = real (length df)"
    using sum_list_real [of "compte_par_jour df"] sum_compte_par_jour [of df] by simp
  with assms show ?thesis
    by (auto simp: calculer_statistiques_def py_mean_def split: if_splits)
qed

section \<open>Properties\<close>

text \<open>
  C21: The mean number of trips per day is taken over the days that
  have a trip only: it is the number of trips divided by the number of distinct trip dates,
  so it is at least 1 and at most the number of trips.
\<close>

theorem courses_jour_moyenne:
  assumes "calculer_statistiques df = Some s"
  shows "courses_jour s * real (length (jours df)) = real (total_courses s) \<and>
         1 \<le> courses_jour s \<and> courses_jour s \<le> real (total_courses s)"
proof -
  have ne: "df \<noteq> []" using assms by (simp add: calculer_statistiques_def split: if_splits)
  have tc: "total_courses s = length df"
    using assms by (auto simp: calculer_statistiques_def split: if_splits)
  have cj: "courses_jour s = real (length df) / real (length (jours df))"
    using assms by (rule courses_jour_div)
  have pos: "0 < length (jours df)" using ne by (rule length_jours_pos)
  have le: "length (jours df) \<le> length df" by (rule jours_le_length)
  show ?thesis
  proof (intro conjI)
    show "courses_jour s * real (length (jours df)) = real (total_courses s)"
      using cj tc pos by simp
    show "1 \<le> courses_jour s" using cj pos le by (simp add: le_divide_eq_1)
    show "courses_jour s \<le> real (total_courses s)"
      using cj tc pos by (simp add: divide_le_eq mult_le_cancel_left1 Suc_le_eq)
  qed
qed

theorem courses_jour_moyenne_witness:
  "\<exists>s. calculer_statistiques trois_trajets = Some s \<and>
     courses_jour s * real (length (jours trois_trajets)) = real (total_courses s) \<and>
     1 \<le> courses_jour s \<and> courses_jour s \<le> real (total_courses s)"
proof -
  obtain s where s: "calculer_statistiques trois_trajets = Some s"
    by (simp add: calculer_statistiques_def trois_trajets_def)
  show ?thesis using s courses_jour_moyenne [OF s] by blast
qed

text \<open>
  C20: The two chart series have one entry per distinct trip date, in
  strictly increasing date order, with no entry for a day without trips; the daily revenues
  add up to the total revenue and the daily counts to the number of trips.
\<close>

theorem series_journalieres:
  "map fst (ca_par_jour df) = jours df \<and> map fst (compte_par_jour df) = jours df \<and>
   sorted_wrt (<) (jours df) \<and> set (jours df) = set (map date_de df) \<and>
   (\<forall>p \<in> set (compte_par_jour df). 0 < snd p) \<and>
   (\<Sum>(d, x)\<leftarrow>ca_par_jour df. x) = sum_list (map montant_total df) \<and>
   (\<Sum>(d, n)\<leftarrow>compte_par_jour df. n) = length df"
proof (intro conjI)
  show "map fst (ca_par_jour df) = jours df" "map fst (compte_par_jour df) = jours df"
    by (simp_all add: ca_par_jour_def compte_par_jour_def comp_def)
  show "sorted_wrt (<) (jours df)" by (simp add: strict_sorted_iff jours_distinct jours_sorted)
  show "set (jours df) = set (map date_de df)" by (rule set_jours)
  show "\<forall>p \<in> set (compte_par_jour df). 0 < snd p"
    by (auto simp: compte_par_jour_def dest: du_jour_nonempty)
  show "(\<Sum>(d, x)\<leftarrow>ca_par_jour df. x) = sum_list (map montant_total df)" by (rule sum_ca_par_jour)
  show "(\<Sum>(d, n)\<leftarrow>compte_par_jour df. n) = length df" by (rule sum_compte_par_jour)
qed

theorem series_journalieres_witness:
  "list_all (\<lambda>p. 0 < snd p) (compte_par_jour trois_trajets) \<and>
   (\<Sum>(d, x)\<leftarrow>ca_par_jour trois_trajets. x) = 60 \<and> (\<Sum>(d, n)\<leftarrow>compte_par_jour trois_trajets. n) = 3"
  using series_journalieres [of trois_trajets] by (simp add: trois_trajets_def trajet_def list_all_iff)

lemma filtre_limite:
  assumes "valid_datetime today" "0 \<le> k" "k < toordinal (dt_date today)"
    "list_all (\<lambda>r. valid_datetime (date_course r)) df"
  shows "\<exists>limite. sub_days today k = Inr limite \<and> filter (\<lambda>r. limite \<le> date_course r) df = filter (apres_limite k today) df"
proof -
  obtain y where y: "sub_days today k = Inr y" "valid_datetime y"
    "toordinal (dt_date y) = toordinal (dt_date today) - k" "dt_time y = dt_time today"
    using sub_days_correct [OF assms(1-3)] by blast
  have "filter (\<lambda>r. y \<le> date_course r) df = filter (apres_limite k today) df"
  proof (rule filter_cong)
    fix r assume "r \<in> set df"
    then have "valid_datetime (date_course r)" using assms(4) by (simp add: list_all_iff)
    then show "(y \<le> date_course r) = apres_limite k today r"
      using datetime_le_toordinal [OF y(2)] y(3,4) by (simp add: apres_limite_def date_de_def)
  qed simp
  with y(1) show ?thesis by blast
qed

text \<open>C18: With a valid clock at least 31 days after the start of
  the calendar and valid trip dates, the options "7 derniers jours" and "30 derniers jours"
  keep exactly the trips at or after the same time of day 7 (30) days earlier, in order;
  trips dated after \<open>today\<close> are kept as well.\<close>

theorem filtre_derniers_jours:
  assumes "valid_datetime today" "30 < toordinal (dt_date today)"
    "list_all (\<lambda>r. valid_datetime (date_course r)) df"
  shows "filtre_periode Sept_jours today df = Inr (filter (apres_limite 7 today) df) \<and>
         filtre_periode Trente_jours today df = Inr (filter (apres_limite 30 today) df)"
proof -
  obtain l7 where l7: "sub_days today 7 = Inr l7" "filter (\<lambda>r. l7 \<le> date_course r) df = filter (apres_limite 7 today) df"
    using filtre_limite [OF assms(1) _ _ assms(3), of 7] assms(2) by auto
  obtain l30 where l30: "sub_days today 30 = Inr l30" "filter (\<lambda>r. l30 \<le> date_course r) df = filter (apres_limite 30 today) df"
    using filtre_limite [OF assms(1) _ _ assms(3), of 30] assms(2) by auto
  show ?thesis by (simp add: filtre_periode_def l7 l30)
qed

theorem filtre_derniers_jours_witness:
  "filtre_periode Sept_jours clock1 trajets_mars = Inr [trajet (Date 2025 3 5) 40, trajet (Date 2025 4 1) 50]"
proof -
  have v: "valid_datetime clock1" "30 < toordinal (dt_date clock1)"
    "list_all (\<lambda>r. valid_datetime (date_course r)) trajets_mars"
    using valid_samples(2)
    by (simp_all add: clock1_def trajets_mars_def trajet_def toordinal_def ymd2ord_def days_before_year_def
        days_before_month_def days_before_month_tbl_def is_leap_def valid_datetime_def valid_date_def
        valid_time_def days_in_month_def days_in_month_tbl_def)
  have "filter (apres_limite 7 clock1) trajets_mars = [trajet (Date 2025 3 5) 40, trajet (Date 2025 4 1) 50]"
    by (simp add: apres_limite_def clock1_def trajets_mars_def trajet_def date_de_def toordinal_def ymd2ord_def
        days_before_year_def days_before_month_def days_before_month_tbl_def is_leap_def less_eq_time_def time_key_def)
  with filtre_derniers_jours [OF v] show ?thesis by simp
qed

end
