(* ===== verification/Pyformat.thy ===== *)
theory Pyformat
  imports Prelude
begin

text \<open>
  Python's conversion of numbers to text as \<open>src/app.py\<close> uses it in f-strings:
  \<open>str(int)\<close>, \<open>format(x, '.kf')\<close> (lines 111--113, 265, 321--339) and \<open>str(float)\<close>
  (line 109). Floats are modelled as reals: \<open>format_fixed\<close> rounds the exact value half
  to even, as CPython does on the exact binary value, so the two agree except on values
  whose binary rounding moves them across a tie. \<open>str_float\<close> is Python's shortest
  representation for values with at most 16 decimals in \<open>[1e-4, 1e16)\<close>, the range
  of distances and amounts the form produces.
\<close>

fun show_nat :: "nat \<Rightarrow> string" where
  "show_nat n = (if n < 10 then [digit_char n] else show_nat (n div 10) @ [digit_char (n mod 10)])"

declare show_nat.simps [simp del]

definition int_str :: "int \<Rightarrow> string" where
  "int_str i = (if i < 0 then ''-'' @ show_nat (nat (- i)) else show_nat (nat i))"

definition round_half_even :: "real \<Rightarrow> int" where
  "round_half_even r =
     (let n = \<lfloor>r\<rfloor>; f = r - of_int n
      in if f < 1/2 then n else if 1/2 < f then n + 1 else if even n then n else n + 1)"

definition format_fixed :: "nat \<Rightarrow> real \<Rightarrow> string" where
  "format_fixed k x =
     (let c = nat (round_half_even (\<bar>x\<bar> * 10 ^ k))
      in (if x < 0 then ''-'' else []) @ show_nat (c div 10 ^ k) @
         (if k = 0 then [] else ''.'' @ zpad k (c mod 10 ^ k)))"

definition decimales :: "real \<Rightarrow> nat" where
  "decimales x =
     (case filter (\<lambda>k. x * 10 ^ k = of_int \<lfloor>x * 10 ^ k\<rfloor>) [1..<17] of [] \<Rightarrow> 17 | k # _ \<Rightarrow> k)"

definition str_float :: "real \<Rightarrow> string" where
  "str_float x = format_fixed (decimales x) x"

lemma show_nat_nonempty: "show_nat n \<noteq> []"
  by (subst show_nat.simps) simp

lemma round_half_even_of_int [simp]: "round_half_even (of_int n) = n"
  by (simp add: round_half_even_def)

lemma round_half_even_of_nat [simp]: "round_half_even (real n) = int n"
  using round_half_even_of_int [of "int n"] by simp

lemma format_fixed_shape:
  "0 < k \<Longrightarrow> \<exists>p. format_fixed k x = p @ ''.'' @ zpad k (nat (round_half_even (\<bar>x\<bar> * 10 ^ k)) mod 10 ^ k)"
  by (simp add: format_fixed_def Let_def)

text \<open>The rounding of \<open>format(x, '.kf')\<close> is to the nearest integer, and to the even one on a tie: the rounded value is within one half of the exact one, and when it is exactly one half away it is even.\<close>

lemma round_half_even_bound:
  "\<bar>r - of_int (round_half_even r)\<bar> \<le> 1/2 \<and>
   (\<bar>r - of_int (round_half_even r)\<bar> = 1/2 \<longrightarrow> even (round_half_even r))"
proof -
  have f: "0 \<le> r - of_int \<lfloor>r\<rfloor>" "r - of_int \<lfloor>r\<rfloor> < 1"
    by (simp_all add: floor_less_cancel)
  then show ?thesis
    unfolding round_half_even_def Let_def by (auto simp: abs_if; linarith)
qed

text \<open>On a value with at most k decimals, \<open>format(x, '.kf')\<close> writes it exactly: the integer part, a point and the k decimals padded with zeros.\<close>

lemma format_fixed_exact:
  assumes "0 < k"
  shows "format_fixed k (real n / 10 ^ k) = show_nat (n div 10 ^ k) @ ''.'' @ zpad k (n mod 10 ^ k)"
proof -
  have "real n / 10 ^ k * 10 ^ k = of_int (int n)" by simp
  moreover have "\<not> real n / 10 ^ k < 0" by (simp add: not_less)
  ultimately show ?thesis using assms by (simp add: format_fixed_def Let_def)
qed

lemma round_half_even_nonneg: "0 \<le> r \<Longrightarrow> 0 \<le> round_half_even r"
  by (simp add: round_half_even_def Let_def)

text \<open>On a non-negative value, \<open>format(x, '.kf')\<close> writes a whole number of units of the last place, within half a unit of the value.\<close>

lemma format_fixed_nonneg:
  assumes "0 \<le> x" "0 < k"
  shows "\<exists>c. format_fixed k x = show_nat (c div 10 ^ k) @ ''.'' @ zpad k (c mod 10 ^ k) \<and>
             \<bar>x * 10 ^ k - real c\<bar> \<le> 1/2"
proof -
  let ?r = "round_half_even (x * 10 ^ k)"
  have "0 \<le> ?r" using assms(1) by (simp add: round_half_even_nonneg)
  then have "real (nat ?r) = of_int ?r" by simp
  moreover have "\<bar>x * 10 ^ k - of_int ?r\<bar> \<le> 1/2" using round_half_even_bound by blast
  ultimately show ?thesis using assms
    by (intro exI [of _ "nat ?r"]) (simp add: format_fixed_def Let_def not_less)
qed

end
