(* ===== verification/Settings.thy ===== *)
theory Settings
  imports Prelude
begin

text \<open>
  The settings view of \<open>src/app.py\<close> (lines 364--455). The widgets build the
  configuration dict of lines 413--427 (company, billing, email, appearance); the save
  button writes the uploaded logo, if any, to \<open>logo.png\<close> and the whole dict to
  \<open>config.json\<close>; the reset button removes both files. The program never reads
  \<open>config.json\<close> back: the widgets show hard-coded defaults and neither the fare nor
  the document uses a saved value (theory \<open>App\<close> proves the latter).
\<close>

section \<open>Configuration\<close>

record entreprise =
  ent_name :: string
  ent_address :: string
  ent_postal_code :: string
  ent_city :: string
  ent_phone :: string
  ent_email :: string
  ent_siret :: string
  ent_tva_number :: string

record facturation =
  default_rate :: real
  min_fare :: real
  tva_rate :: real
  km_rate :: real

record email_settings =
  smtp_server :: string
  smtp_port :: int
  email_user :: string
  email_password :: string

record apparence =
  primary_color :: string
  footer_text :: string
  invoice_prefix :: string

text \<open>The dict of lines 413--427, as \<open>json.dump\<close> writes it.\<close>

record configuration =
  company :: entreprise
  billing :: facturation
  email :: email_settings
  appearance :: apparence

text \<open>The two files the view owns: \<open>config.json\<close> and \<open>logo.png\<close> (its bytes).\<close>

record fichiers_parametres =
  config_json :: "configuration option"
  logo_png :: "string option"

section \<open>Operations\<close>

text \<open>Lines 410--437: the logo first when one was uploaded, then the whole configuration.\<close>

definition sauvegarder :: "configuration \<Rightarrow> string option \<Rightarrow> fichiers_parametres \<Rightarrow> fichiers_parametres" where
  "sauvegarder cfg logo f =
     (let f1 = (case logo of None \<Rightarrow> f | Some octets \<Rightarrow> f\<lparr>logo_png := Some octets\<rparr>)
      in f1\<lparr>config_json := Some cfg\<rparr>)"

text \<open>Lines 446--451: each file removed when it exists.\<close>

definition reinitialiser :: "fichiers_parametres \<Rightarrow> fichiers_parametres" where
  "reinitialiser f =
     (let f1 = (if config_json f \<noteq> None then f\<lparr>config_json := None\<rparr> else f)
      in if logo_png f1 \<noteq> None then f1\<lparr>logo_png := None\<rparr> else f1)"

text \<open>The defaults the widgets show (lines 370--407); \<open>email_user\<close> and the password are empty.\<close>

definition config_defaut :: configuration where
  "config_defaut =
     \<lparr>company = \<lparr>ent_name = ''VTC Service Pro'', ent_address = ''123 rue de Paris'',
                 ent_postal_code = ''75000'', ent_city = ''Paris'', ent_phone = ''+33 6 12 34 56 78'',
                 ent_email = ''contact@vtcpro.fr'', ent_siret = ''123 456 789 00000'',
                 ent_tva_number = ''FR 12 345678900''\<rparr>,
      billing = \<lparr>default_rate = 45, min_fare = 15, tva_rate = 20, km_rate = 1.5\<rparr>,
      email = \<lparr>smtp_server = ''smtp.gmail.com'', smtp_port = 587, email_user = [], email_password = []\<rparr>,
      appearance = \<lparr>primary_color = ''#1E88E5'', footer_text = ''Merci de votre confiance!'',
                    invoice_prefix = ''VTC-''\<rparr>\<rparr>"

section \<open>Lemmas\<close>

text \<open>Saving replaces the whole configuration; the logo only when one is uploaded.\<close>

lemma sauvegarder_eq:
  "sauvegarder cfg logo f = \<lparr>config_json = Some cfg,
      logo_png = (case logo of None \<Rightarrow> logo_png f | Some octets \<Rightarrow> Some octets)\<rparr>"
  by (cases logo) (simp_all add: sauvegarder_def)

end
