(* ===== verification/Store_Spec.thy ===== *)
theory Store_Spec
  imports Store
begin

text \<open>
  The contract of the invoice record store in the specification (section 4.2), as an
  abstract model, and the proof that the sqlite table of theory \<open>Store\<close> implements it.
  The abstract store is a journal: the records with their ids, in insertion order.
  \<open>append(record) \<rightarrow> id\<close> gives the record an id above every id in use and adds it at
  the end; \<open>listAll()\<close> returns the journal; \<open>listFiltered(dateFrom, dateTo, status?)\<close>
  keeps the records whose trip date lies in the closed range and, when a status is
  given, whose status equals it. The abstraction of a table is what the program reads
  from it (\<open>SELECT *\<close> and \<open>pd.to_datetime\<close>).
\<close>

section \<open>The abstract store\<close>

type_synonym journal = "(int \<times> datetime facture) list"

definition journal_ok :: "journal \<Rightarrow> bool" where
  "journal_ok J \<longleftrightarrow> sorted_wrt (<) (map fst J) \<and> list_all (\<lambda>i. 0 < i) (map fst J)"

text \<open>\<open>append\<close> may choose any id above those in use: a relation, not a function.\<close>

definition spec_append :: "datetime facture \<Rightarrow> journal \<Rightarrow> int \<Rightarrow> journal \<Rightarrow> bool" where
  "spec_append r J i J' \<longleftrightarrow> 0 < i \<and> list_all (\<lambda>j. j < i) (map fst J) \<and> J' = J @ [(i, r)]"

definition spec_list_filtered :: "date \<Rightarrow> date \<Rightarrow> string option \<Rightarrow> journal \<Rightarrow> journal" where
  "spec_list_filtered d1 d2 st J =
     filter (\<lambda>(i, r). d1 \<le> dt_date (date_course r) \<and> dt_date (date_course r) \<le> d2 \<and>
                      (case st of None \<Rightarrow> True | Some s \<Rightarrow> statut r = s)) J"

section \<open>Abstraction\<close>

definition abs_table :: "table_factures \<Rightarrow> journal" where
  "abs_table t = (case lire_factures t of Inl _ \<Rightarrow> [] | Inr rs \<Rightarrow> rs)"

text \<open>The status selectbox of line 243: \<open>"Tous"\<close> stands for no status.\<close>

definition statut_option :: "string \<Rightarrow> string option" where
  "statut_option sf = (if sf = ''Tous'' then None else Some sf)"

section \<open>Lemmas\<close>

lemma lire_abs: "table_ok t \<Longrightarrow> lire_factures t = Inr (abs_table t)"
  using lire_factures_ok [of t] by (auto simp: abs_table_def)

lemma abs_table_fst: "table_ok t \<Longrightarrow> map fst (abs_table t) = map fst (lignes t)"
  using lire_factures_ok [of t] by (auto simp: abs_table_def)

lemma abs_append:
  assumes "table_ok t" "valid_datetime (date_course r)"
  shows "abs_table (to_sql_append r t) = abs_table t @ [(sequence t + 1, r)]"
  using lire_factures_append [OF assms lire_abs [OF assms(1)]] by (simp add: abs_table_def)

lemma journal_ok_abs: "table_ok t \<Longrightarrow> journal_ok (abs_table t)"
  by (simp add: journal_ok_def abs_table_fst table_ok_def list_all_iff)

text \<open>An append of a record with a valid date is an abstract \<open>append\<close> with the id \<open>sequence + 1\<close>.\<close>

lemma abs_append_spec:
  assumes "table_ok t" "valid_datetime (date_course r)"
  shows "spec_append r (abs_table t) (sequence t + 1) (abs_table (to_sql_append r t))"
proof -
  have "list_all (\<lambda>j. j < sequence t + 1) (map fst (abs_table t))"
    using assms(1) by (auto simp: abs_table_fst table_ok_def list_all_iff)
  moreover have "0 < sequence t + 1" using assms(1) by (simp add: table_ok_def)
  ultimately show ?thesis using abs_append [OF assms] by (simp add: spec_append_def)
qed

lemma filtre_historique_spec:
  "filtre_historique d1 d2 sf J = spec_list_filtered d1 d2 (statut_option sf) J"
  by (simp add: filtre_historique_def spec_list_filtered_def statut_option_def)

text \<open>C10: A sequence of appends of records with valid dates is read back
  as the journal before them followed by the records in the order appended, with the
  consecutive ids after the counter, and keeps the invariant.\<close>

theorem appends_sequence:
  assumes "table_ok t" "list_all (\<lambda>r. valid_datetime (date_course r)) rs"
  shows "table_ok (fold to_sql_append rs t) \<and>
         abs_table (fold to_sql_append rs t) = abs_table t @ zip (map (\<lambda>k. sequence t + int k) [1..<length rs + 1]) rs"
  using assms
proof (induction rs arbitrary: t)
  case Nil
  then show ?case by simp
next
  case (Cons r rs)
  let ?t1 = "to_sql_append r t"
  have v: "valid_datetime (date_course r)" "list_all (\<lambda>r. valid_datetime (date_course r)) rs" using Cons.prems(2) by simp_all
  have ok1: "table_ok ?t1" by (rule to_sql_append_ok [OF Cons.prems(1) v(1)])
  have s1: "sequence ?t1 = sequence t + 1" by (simp add: to_sql_append_id [OF Cons.prems(1)])
  have ih: "table_ok (fold to_sql_append rs ?t1) \<and>
      abs_table (fold to_sql_append rs ?t1) = abs_table ?t1 @ zip (map (\<lambda>k. sequence ?t1 + int k) [1..<length rs + 1]) rs"
    by (rule Cons.IH [OF ok1 v(2)])
  have "map (\<lambda>k. sequence t + int k) [1..<length (r # rs) + 1] =
        (sequence t + 1) # map (\<lambda>k. sequence ?t1 + int k) [1..<length rs + 1]"
    by (simp add: s1 upt_conv_Cons map_Suc_upt [symmetric] del: upt_Suc)
  then show ?case using ih abs_append [OF Cons.prems(1) v(1)] by simp
qed

theorem appends_sequence_witness:
  "abs_table (fold to_sql_append [facture50, facture50] table0) = [(1, facture50), (2, facture50)]"
proof -
  have v: "list_all (\<lambda>r. valid_datetime (date_course r)) [facture50, facture50]"
    using valid_samples by (simp add: facture50_def)
  have a: "abs_table table0 = []" by (simp add: abs_table_def lire_factures_def select_all_def table0_def)
  from appends_sequence [OF table0_ok v] show ?thesis by (simp add: a table0_seq)
qed

end
