(* ===== verification/Dashboard.thy ===== *)
theory Dashboard
  imports Stats Render
begin

text \<open>
  The four KPI cards of the dashboard of \<open>src/app.py\<close> (lines 307--339): the values
  that the HTML of each card shows, formatted as the \<open>str.format\<close> calls of the source
  do (\<open>{}\<close> of an int, \<open>{:.2f}\<close> with the euro sign, \<open>{:.1f} km\<close>). The HTML around
  them and the plotly charts of lines 342--362, which draw the two daily series of
  theory \<open>Stats\<close>, are presentation only.
\<close>

definition cartes_kpi :: "stats \<Rightarrow> string list" where
  "cartes_kpi st =
     [int_str (int (total_courses st)),
      format_fixed 2 (ca_total st) @ '' '' @ euro,
      format_fixed 1 (km_total st) @ '' km'',
      format_fixed 2 (ticket_moyen st) @ '' '' @ euro]"

text \<open>C26: For any non-empty set of trips with non-negative totals, the
  first card shows the number of trips and the revenue card shows a whole number of cents
  within half a cent of the sum of the totals.\<close>

theorem cartes_arrondies:
  assumes "calculer_statistiques df = Some st" "list_all (\<lambda>r. 0 \<le> montant_total r) df"
  shows "cartes_kpi st ! 0 = int_str (int (length df)) \<and>
         (\<exists>c. cartes_kpi st ! 1 = show_nat (c div 100) @ ''.'' @ zpad 2 (c mod 100) @ '' '' @ euro \<and>
              \<bar>sum_list (map montant_total df) * 100 - real c\<bar> \<le> 1/2)"
proof -
  have st: "total_courses st = length df" "ca_total st = sum_list (map montant_total df)"
    using assms(1) by (auto simp: calculer_statistiques_def split: if_splits)
  have "0 \<le> sum_list (map montant_total df)"
    using assms(2) by (induction df) auto
  from format_fixed_nonneg [OF this, of 2] show ?thesis
    by (auto simp: cartes_kpi_def st)
qed

theorem cartes_arrondies_witness:
  "cartes_kpi (the (calculer_statistiques trois_trajets)) ! 0 = ''3'' \<and>
   (\<exists>c. cartes_kpi (the (calculer_statistiques trois_trajets)) ! 1 = show_nat (c div 100) @ ''.'' @ zpad 2 (c mod 100) @ '' '' @ euro \<and>
        \<bar>sum_list (map montant_total trois_trajets) * 100 - real c\<bar> \<le> 1/2)"
proof -
  have c: "calculer_statistiques trois_trajets = Some (the (calculer_statistiques trois_trajets))"
    by (simp add: calculer_statistiques_def trois_trajets_def)
  have l: "list_all (\<lambda>r. 0 \<le> montant_total r) trois_trajets"
    by (simp add: trois_trajets_def trajet_def)
  have n: "int_str (int (length trois_trajets)) = ''3''"
    by (simp add: trois_trajets_def int_str_def show_nat.simps digit_char_def)
  from cartes_arrondies [OF c l] show ?thesis unfolding n .
qed

end
