(* ===== verification/App.thy ===== *)
theory App
  imports Stats Render Settings Store_Spec Dashboard
begin

text \<open>
  One run of \<open>main()\<close> of \<open>src/app.py\<close> (lines 146--458): Streamlit reruns the whole
  script on every interaction, with the widgets' current values. A run connects to the
  database and creates the table if needed (line 147), runs the view the menu selects
  (lines 167--455), then writes the footer with \<open>datetime.datetime.now()\<close> (line 457).
  An exception ends the run where it is raised; what the run wrote before stays written.
  The state is the part of the file system the program touches. \<open>app_step\<close> is the
  relation of successive runs, from which the reachable states and their invariants follow.
\<close>

section \<open>State\<close>

text \<open>
  The files and directories the program reads and writes: the directories \<open>data\<close> and
  \<open>factures\<close>, the table \<open>factures\<close> of \<open>data/vtc_factures.db\<close>, the PDF files by path,
  \<open>config.json\<close> and \<open>logo.png\<close>, and \<open>export_factures.xlsx\<close> (the exported rows).
\<close>

record etat =
  dossiers :: "string list"
  base :: "table_factures option"
  pdfs :: "string \<rightharpoonup> document"
  parametres :: fichiers_parametres
  export_xlsx :: "(int \<times> datetime facture) list option"

text \<open>What a run shows: nothing, a message, the history table or the dashboard.\<close>

datatype sortie =
    Rien
  | Succes
  | Erreur_champs
  | Vue_historique "(int \<times> datetime facture) list"
  | Vue_tableau stats "(date \<times> real) list" "(date \<times> nat) list"
  | Relance

text \<open>
  How a view ends: \<open>Suite\<close> falls through to the footer, \<open>Retour\<close> is the early
  \<open>return\<close> of line 188 or the rerun of line 453, which skip it.
\<close>

datatype fin_vue = Suite sortie | Retour sortie

text \<open>The menu choice of lines 153--164 with the values of that view's widgets.\<close>

datatype requete =
    Nouvelle_facture formulaire bool
  | Historique date date string bool
  | Tableau_de_bord periode
  | Parametres configuration "string option" bool bool

section \<open>Views\<close>

text \<open>
  Lines 185--229 (button \<open>generer\<close>): the required fields (an error and \<open>return\<close>), the
  record (lines 190--210, outside the \<open>try\<close>), the directory \<open>factures\<close> (213--214),
  the PDF (217), then the row appended to the table (220--223).
\<close>

definition vue_nouvelle_facture ::
  "pyobj option \<Rightarrow> formulaire \<Rightarrow> bool \<Rightarrow> datetime \<Rightarrow> etat \<Rightarrow> fin_vue py_result \<times> etat" where
  "vue_nouvelle_facture b f generer clock s =
     (if \<not> generer then (Inr (Suite Rien), s)
      else if \<not> champs_obligatoires f then (Inr (Retour Erreur_champs), s)
      else
        (case construire_facture b f clock of
           Inl e \<Rightarrow> (Inl e, s)
         | Inr data \<Rightarrow>
             (let s1 = (if ''factures'' \<in> set (dossiers s) then s
                        else s\<lparr>dossiers := dossiers s @ [''factures'']\<rparr>);
                  (chemin, doc) = generer_facture_pdf (logo_png (parametres s1) \<noteq> None) data;
                  s2 = s1\<lparr>pdfs := (pdfs s1)(chemin \<mapsto> doc)\<rparr>;
                  s3 = s2\<lparr>base := map_option (to_sql_append data) (base s2)\<rparr>
              in (Inr (Suite Succes), s3))))"

text \<open>
  Lines 247--274: the full read, and when it is not empty the date conversion, the
  filter, and the export of the filtered rows when the export button is pressed.
\<close>

definition vue_historique ::
  "date \<Rightarrow> date \<Rightarrow> string \<Rightarrow> bool \<Rightarrow> etat \<Rightarrow> fin_vue py_result \<times> etat" where
  "vue_historique date_debut date_fin statut_filter exporter s =
     (case base s of
        None \<Rightarrow> (Inl (OperationalError ''no such table: factures''), s)
      | Some t \<Rightarrow>
          if select_all t = [] then (Inr (Suite Rien), s)
          else
            (case lire_factures t of
               Inl e \<Rightarrow> (Inl e, s)
             | Inr df \<Rightarrow>
                 (let df_filtered = filtre_historique date_debut date_fin statut_filter df
                  in if exporter then (Inr (Suite (Vue_historique df_filtered)), s\<lparr>export_xlsx := Some df_filtered\<rparr>)
                     else (Inr (Suite (Vue_historique df_filtered)), s))))"

text \<open>
  Lines 287--362: the full read, and when it is not empty the clock (line 295), the
  period filter, the statistics, then the KPI cards, whose first access
  \<open>stats['total_courses']\<close> (line 315) raises KeyError on the empty dict.
\<close>

definition vue_tableau_de_bord ::
  "pyobj option \<Rightarrow> periode \<Rightarrow> datetime \<Rightarrow> etat \<Rightarrow> fin_vue py_result \<times> etat" where
  "vue_tableau_de_bord b p clock s =
     (case base s of
        None \<Rightarrow> (Inl (OperationalError ''no such table: factures''), s)
      | Some t \<Rightarrow>
          if select_all t = [] then (Inr (Suite Rien), s)
          else
            (case lire_factures t of
               Inl e \<Rightarrow> (Inl e, s)
             | Inr df \<Rightarrow>
                 (case dt_now b clock of
                    Inl e \<Rightarrow> (Inl e, s)
                  | Inr today \<Rightarrow>
                      (case filtre_periode p today (map snd df) of
                         Inl e \<Rightarrow> (Inl e, s)
                       | Inr dfp \<Rightarrow>
                           (case calculer_statistiques dfp of
                              None \<Rightarrow> (Inl (KeyError ''total_courses''), s)
                            | Some st \<Rightarrow>
                                (Inr (Suite (Vue_tableau st (ca_par_jour dfp) (compte_par_jour dfp))), s))))))"

text \<open>
  Lines 410--455: save, then reset; \<open>st.experimental_rerun()\<close> (line 453) stops the run
  and starts a new one.
\<close>

definition vue_parametres ::
  "configuration \<Rightarrow> string option \<Rightarrow> bool \<Rightarrow> bool \<Rightarrow> etat \<Rightarrow> fin_vue py_result \<times> etat" where
  "vue_parametres cfg logo sauver reinit s =
     (let s1 = (if sauver then s\<lparr>parametres := sauvegarder cfg logo (parametres s)\<rparr> else s)
      in if reinit then (Inr (Retour Relance), s1\<lparr>parametres := reinitialiser (parametres s1)\<rparr>)
         else (Inr (Suite (if sauver then Succes else Rien)), s1))"

section \<open>One run of main\<close>

definition vue :: "pyobj option \<Rightarrow> requete \<Rightarrow> datetime \<Rightarrow> etat \<Rightarrow> fin_vue py_result \<times> etat" where
  "vue b r clock s =
     (case r of
        Nouvelle_facture f generer \<Rightarrow> vue_nouvelle_facture b f generer clock s
      | Historique d1 d2 sf exporter \<Rightarrow> vue_historique d1 d2 sf exporter s
      | Tableau_de_bord p \<Rightarrow> vue_tableau_de_bord b p clock s
      | Parametres cfg logo sauver reinit \<Rightarrow> vue_parametres cfg logo sauver reinit s)"

text \<open>
  \<open>init_db()\<close> (line 147) fails when the directory \<open>data\<close> does not exist (sqlite3 cannot
  create the file); then the view, then the footer of line 457.
\<close>

definition main :: "pyobj option \<Rightarrow> requete \<Rightarrow> datetime \<Rightarrow> etat \<Rightarrow> sortie py_result \<times> etat" where
  "main b r clock s =
     (if ''data'' \<notin> set (dossiers s) then (Inl (OperationalError ''unable to open database file''), s)
      else
        (let s1 = s\<lparr>base := init_db (base s)\<rparr>
         in case vue b r clock s1 of
              (Inl e, s2) \<Rightarrow> (Inl e, s2)
            | (Inr (Retour out), s2) \<Rightarrow> (Inr out, s2)
            | (Inr (Suite out), s2) \<Rightarrow>
                (case dt_module_now b clock of
                   Inl e \<Rightarrow> (Inl e, s2)
                 | Inr _ \<Rightarrow> (Inr out, s2))))"

text \<open>The program as written: the global \<open>datetime\<close> is the one lines 1--16 leave.\<close>

abbreviation main_app :: "requete \<Rightarrow> datetime \<Rightarrow> etat \<Rightarrow> sortie py_result \<times> etat" where
  "main_app \<equiv> main (app_globals ''datetime'')"

text \<open>A state with another content of \<open>config.json\<close>.\<close>

definition avec_config :: "configuration option \<Rightarrow> etat \<Rightarrow> etat" where
  "avec_config c s = s\<lparr>parametres := (parametres s)\<lparr>config_json := c\<rparr>\<rparr>"

section \<open>Runs\<close>

text \<open>
  Successive runs of the script, each with some request and some clock value, from a
  state with the directory \<open>data\<close> and nothing else.
\<close>

definition etat_initial :: etat where
  "etat_initial = \<lparr>dossiers = [''data''], base = None, pdfs = Map.empty,
                   parametres = \<lparr>config_json = None, logo_png = None\<rparr>, export_xlsx = None\<rparr>"

text \<open>What the widgets and the clock can give: a valid form, a valid instant.\<close>

definition requete_ok :: "requete \<Rightarrow> bool" where
  "requete_ok r = (case r of Nouvelle_facture f _ \<Rightarrow> widgets_ok f | _ \<Rightarrow> True)"

inductive app_step :: "pyobj option \<Rightarrow> etat \<Rightarrow> etat \<Rightarrow> bool" where
  run: "requete_ok r \<Longrightarrow> valid_datetime clock \<Longrightarrow> main b r clock s = (out, s') \<Longrightarrow> app_step b s s'"

inductive reachable :: "pyobj option \<Rightarrow> etat \<Rightarrow> bool" where
  init: "reachable b etat_initial"
| step: "reachable b s \<Longrightarrow> app_step b s s' \<Longrightarrow> reachable b s'"


section \<open>Invariant\<close>

definition lignes_base :: "etat \<Rightarrow> (int \<times> string facture) list" where
  "lignes_base s = (case base s of None \<Rightarrow> [] | Some t \<Rightarrow> lignes t)"

text \<open>
  The table keeps its invariant (theory \<open>Store\<close>) and every row has its PDF: the
  document is written (line 217) before the row is appended (line 222), and no run
  deletes a document.
\<close>

definition inv_etat :: "etat \<Rightarrow> bool" where
  "inv_etat s \<longleftrightarrow>
     (case base s of None \<Rightarrow> True | Some t \<Rightarrow> table_ok t) \<and>
     list_all (\<lambda>(i, r). pdfs s (chemin_pdf (numero_facture r)) \<noteq> None) (lignes_base s)"

text \<open>
  A stored row is well formed when its date text reads back (\<open>pd.to_datetime\<close>) and
  the invoice it then gives is well formed; a state is, when all its rows are.
\<close>

definition ligne_bien_formee :: "string facture \<Rightarrow> bool" where
  "ligne_bien_formee r =
     (case to_datetime (date_course r) of Inl _ \<Rightarrow> False | Inr x \<Rightarrow> facture_bien_formee (map_date (\<lambda>_. x) r))"

definition types_ok :: "etat \<Rightarrow> bool" where
  "types_ok s \<longleftrightarrow> list_all (\<lambda>(i, r). ligne_bien_formee r) (lignes_base s)"

text \<open>
  The journal of a state: what the program reads from its table (\<open>abs_table\<close> of theory
  \<open>Store_Spec\<close>), empty while the table does not exist.
\<close>

definition journal_etat :: "etat \<Rightarrow> journal" where
  "journal_etat s = (case base s of None \<Rightarrow> [] | Some t \<Rightarrow> abs_table t)"

section \<open>Sample states\<close>

definition etat_apres_creation :: etat where
  "etat_apres_creation = snd (main datetime_class (Nouvelle_facture form50 True) clock1 etat_initial)"

definition etat_apres_essai :: etat where
  "etat_apres_essai = snd (main_app (Nouvelle_facture form50 True) clock1 etat_initial)"

definition table50 :: table_factures where
  "table50 = to_sql_append facture50 table0"

text \<open>A state whose table holds the sample invoice, a year before the clock \<open>clock2026\<close>.\<close>

definition etat50 :: etat where
  "etat50 = etat_initial\<lparr>base := Some table50\<rparr>"

definition clock2026 :: datetime where
  "clock2026 = DateTime (Date 2026 1 15) (Time 8 0 0 0)"

definition form_zero :: formulaire where
  "form_zero = form50\<lparr>saisie_tarif_base := 0\<rparr>"

text \<open>The state after a second creation of the same trip, at the same clock time one day later.\<close>

definition etat_deux_jours :: etat where
  "etat_deux_jours = snd (main datetime_class (Nouvelle_facture form50 True) clock2 etat_apres_creation)"

section \<open>Lemmas\<close>

inductive_cases app_stepE: "app_step b s s'"

lemma main_data:
  "''data'' \<in> set (dossiers s) \<Longrightarrow>
   main b r clock s =
     (case vue b r clock (s\<lparr>base := init_db (base s)\<rparr>) of
        (Inl e, s2) \<Rightarrow> (Inl e, s2)
      | (Inr (Retour out), s2) \<Rightarrow> (Inr out, s2)
      | (Inr (Suite out), s2) \<Rightarrow> (case dt_module_now b clock of Inl e \<Rightarrow> (Inl e, s2) | Inr _ \<Rightarrow> (Inr out, s2)))"
  by (simp add: main_def)

text \<open>Where a run's final state comes from.\<close>

lemma main_state:
  "main b r clock s = (out, s') \<Longrightarrow>
   s' = s \<or> (''data'' \<in> set (dossiers s) \<and> (\<exists>res. vue b r clock (s\<lparr>base := init_db (base s)\<rparr>) = (res, s')))"
  by (cases "vue b r clock (s\<lparr>base := init_db (base s)\<rparr>)")
     (auto simp: main_def split: if_splits sum.splits fin_vue.splits)

text \<open>Only the creation view writes the table or a document.\<close>

lemma vue_frame:
  assumes "vue b r clock s = (res, s')" "\<And>f g. r \<noteq> Nouvelle_facture f g"
  shows "base s' = base s \<and> pdfs s' = pdfs s"
proof (cases r)
  case (Nouvelle_facture f g)
  then show ?thesis using assms(2) by blast
next
  case (Historique d1 d2 sf ex)
  then show ?thesis using assms(1)
    by (auto simp: vue_def vue_historique_def Let_def split: option.splits if_splits sum.splits)
next
  case (Tableau_de_bord p)
  then show ?thesis using assms(1)
    by (auto simp: vue_def vue_tableau_de_bord_def split: option.splits if_splits sum.splits)
next
  case (Parametres cfg lg sv ri)
  then show ?thesis using assms(1)
    by (auto simp: vue_def vue_parametres_def Let_def split: if_splits)
qed

lemma numero_map_date [simp]: "numero_facture (map_date g r) = numero_facture r"
  by (simp add: map_date_def)

lemma init_db_inv: "inv_etat s \<Longrightarrow> inv_etat (s\<lparr>base := init_db (base s)\<rparr>)"
  by (auto simp: inv_etat_def init_db_def lignes_base_def table_ok_def split: option.splits)

lemma valid_combine: "widgets_ok f \<Longrightarrow> valid_datetime (combine (saisie_date_course f) (saisie_heure_course f))"
  by (simp add: widgets_ok_def combine_def valid_datetime_def)

lemma construire_facture_valid:
  "construire_facture b f clock = Inr data \<Longrightarrow> widgets_ok f \<Longrightarrow> valid_datetime (date_course data)"
proof (cases b)
  case None
  then show "construire_facture b f clock = Inr data \<Longrightarrow> widgets_ok f \<Longrightarrow> valid_datetime (date_course data)"
    by (simp add: construire_facture_def dt_combine_def)
next
  case (Some a)
  then show "construire_facture b f clock = Inr data \<Longrightarrow> widgets_ok f \<Longrightarrow> valid_datetime (date_course data)"
    by (cases a) (auto simp: construire_facture_def dt_combine_def dt_now_def valid_combine
        split: if_splits sum.splits)
qed

text \<open>A creation that gets its record writes the document, then appends the row.\<close>

lemma vue_nouvelle_facture_ecrit:
  assumes "vue_nouvelle_facture b f True clock s = (res, s')" "champs_obligatoires f"
    "construire_facture b f clock = Inr data"
  shows "res = Inr (Suite Succes) \<and>
         pdfs s' = (pdfs s)(chemin_pdf (numero_facture data) \<mapsto>
                      snd (generer_facture_pdf (logo_png (parametres s) \<noteq> None) data)) \<and>
         base s' = map_option (to_sql_append data) (base s) \<and> parametres s' = parametres s"
  using assms by (auto simp: vue_nouvelle_facture_def generer_facture_pdf_def Let_def split: if_splits)

lemma vue_nouvelle_facture_inv:
  assumes "vue_nouvelle_facture b f g clock s = (res, s')" "widgets_ok f" "inv_etat s"
  shows "inv_etat s'"
proof (cases "g \<and> champs_obligatoires f \<and> (\<exists>data. construire_facture b f clock = Inr data)")
  case False
  then have "s' = s" using assms(1)
    by (auto simp: vue_nouvelle_facture_def split: if_splits sum.splits)
  with assms(3) show ?thesis by simp
next
  case True
  then obtain data where g: "g" "champs_obligatoires f" and d: "construire_facture b f clock = Inr data" by blast
  have vd: "valid_datetime (date_course data)" using d assms(2) by (rule construire_facture_valid)
  let ?p = "chemin_pdf (numero_facture data)"
  let ?doc = "snd (generer_facture_pdf (logo_png (parametres s) \<noteq> None) data)"
  have w: "vue_nouvelle_facture b f True clock s = (res, s')" using assms(1) g(1) by simp
  have s': "pdfs s' = (pdfs s)(?p \<mapsto> ?doc)" "base s' = map_option (to_sql_append data) (base s)"
    using vue_nouvelle_facture_ecrit [OF w g(2) d] by simp_all
  show ?thesis
  proof (cases "base s")
    case None
    then show ?thesis using assms(3) s' by (simp add: inv_etat_def lignes_base_def)
  next
    case (Some t)
    have ok: "table_ok t" and old: "list_all (\<lambda>(i, r). pdfs s (chemin_pdf (numero_facture r)) \<noteq> None) (lignes t)"
      using assms(3) Some by (simp_all add: inv_etat_def lignes_base_def)
    have "table_ok (to_sql_append data t)" using ok vd by (rule to_sql_append_ok)
    moreover have "list_all (\<lambda>(i, r). ((pdfs s)(?p \<mapsto> ?doc)) (chemin_pdf (numero_facture r)) \<noteq> None)
                     (lignes (to_sql_append data t))"
      using old by (auto simp: to_sql_append_id [OF ok] list_all_iff)
    ultimately show ?thesis using Some s' by (simp add: inv_etat_def lignes_base_def)
  qed
qed

lemma vue_inv:
  assumes "vue b r clock s = (res, s')" "requete_ok r" "inv_etat s"
  shows "inv_etat s'"
proof (cases "\<exists>f g. r = Nouvelle_facture f g")
  case True
  then show ?thesis using assms vue_nouvelle_facture_inv
    by (auto simp: vue_def requete_ok_def)
next
  case False
  then have "base s' = base s \<and> pdfs s' = pdfs s" using vue_frame [OF assms(1)] by blast
  then show ?thesis using assms(3) by (simp add: inv_etat_def lignes_base_def)
qed

lemma app_step_inv: "app_step b s s' \<Longrightarrow> inv_etat s \<Longrightarrow> inv_etat s'"
proof (induction rule: app_step.induct)
  case (run r clock b s out s')
  from run.hyps(3) have "s' = s \<or> (\<exists>res. vue b r clock (s\<lparr>base := init_db (base s)\<rparr>) = (res, s'))"
    using main_state by blast
  then show ?case
    using run.prems run.hyps(1) vue_inv init_db_inv by blast
qed

text \<open>With the program's own binding no creation gets past line 190.\<close>

lemma app_step_vide:
  assumes "app_step (app_globals ''datetime'') s s'" "lignes_base s = []" "pdfs s = Map.empty"
  shows "lignes_base s' = [] \<and> pdfs s' = Map.empty"
  using assms(1)
proof cases
  case (run r clock out)
  have init: "lignes_base (s\<lparr>base := init_db (base s)\<rparr>) = []"
    using assms(2) by (auto simp: lignes_base_def init_db_def split: option.splits)
  from run(3) consider "s' = s"
    | res where "vue (app_globals ''datetime'') r clock (s\<lparr>base := init_db (base s)\<rparr>) = (res, s')"
    using main_state by blast
  then show ?thesis
  proof cases
    case 1
    then show ?thesis using assms by simp
  next
    case 2
    show ?thesis
    proof (cases "\<exists>f g. r = Nouvelle_facture f g")
      case True
      then obtain f g where r: "r = Nouvelle_facture f g" by blast
      have "s' = s\<lparr>base := init_db (base s)\<rparr>"
        using 2 r by (auto simp: vue_def vue_nouvelle_facture_def app_globals_datetime
            construire_facture_module split: if_splits)
      then show ?thesis using init assms(3) by simp
    next
      case False
      then have "base s' = init_db (base s) \<and> pdfs s' = pdfs s" using vue_frame [OF 2] by simp
      then show ?thesis using init assms(3) by (simp add: lignes_base_def)
    qed
  qed
qed

lemma vue_dossiers: "vue b r clock s = (res, s') \<Longrightarrow> set (dossiers s) \<subseteq> set (dossiers s')"
  by (cases r) (auto simp: vue_def vue_nouvelle_facture_def vue_historique_def vue_tableau_de_bord_def
      vue_parametres_def Let_def split: if_splits sum.splits option.splits prod.splits)

lemma reachable_etat: "reachable b s \<Longrightarrow> inv_etat s \<and> ''data'' \<in> set (dossiers s)"
proof (induction rule: reachable.induct)
  case init
  show ?case by (simp add: inv_etat_def etat_initial_def lignes_base_def)
next
  case (step b s s')
  from step.hyps(2) show ?case
  proof cases
    case (run r clock out)
    from main_state [OF run(3)] have "s' = s \<or> (\<exists>res. vue b r clock (s\<lparr>base := init_db (base s)\<rparr>) = (res, s'))"
      by blast
    then have "''data'' \<in> set (dossiers s')" using step.IH vue_dossiers by fastforce
    moreover have "inv_etat s'" using app_step_inv [OF step.hyps(2)] step.IH by blast
    ultimately show ?thesis by blast
  qed
qed

lemma vue_sauvegarde:
  "vue b (Parametres cfg logo True False) clock s = (Inr (Suite Succes), s\<lparr>parametres := sauvegarder cfg logo (parametres s)\<rparr>)"
  by (simp add: vue_def vue_parametres_def)

lemma main_creation_classe:
  assumes "''data'' \<in> set (dossiers s)" "champs_obligatoires f" "construire_facture datetime_class f clock = Inr data"
  shows "\<exists>s'. main datetime_class (Nouvelle_facture f True) clock s = (Inl (AttributeError ''datetime''), s') \<and>
     pdfs s' = (pdfs s)(chemin_pdf (numero_facture data) \<mapsto>
                  snd (generer_facture_pdf (logo_png (parametres s) \<noteq> None) data)) \<and>
     base s' = map_option (to_sql_append data) (init_db (base s)) \<and> parametres s' = parametres s"
proof -
  let ?s1 = "s\<lparr>base := init_db (base s)\<rparr>"
  obtain res s' where v: "vue_nouvelle_facture datetime_class f True clock ?s1 = (res, s')"
    by (cases "vue_nouvelle_facture datetime_class f True clock ?s1") blast
  from vue_nouvelle_facture_ecrit [OF v assms(2,3)] have w:
    "res = Inr (Suite Succes)"
    "pdfs s' = (pdfs s)(chemin_pdf (numero_facture data) \<mapsto>
                  snd (generer_facture_pdf (logo_png (parametres s) \<noteq> None) data))"
    "base s' = map_option (to_sql_append data) (init_db (base s))" "parametres s' = parametres s"
    by simp_all
  have "main datetime_class (Nouvelle_facture f True) clock s = (Inl (AttributeError ''datetime''), s')"
    using assms(1) v w(1) by (simp add: main_data vue_def dt_module_now_def)
  with w show ?thesis by blast
qed

lemma champs_form50: "champs_obligatoires form50"
  by (simp add: champs_obligatoires_iff form50_def)

lemma valid_facture50: "valid_datetime (date_course facture50)"
  using valid_samples by (simp add: facture50_def)

lemma lire_table0: "lire_factures table0 = Inr []"
  by (simp add: lire_factures_def select_all_def table0_def)

lemma lire_table50: "lire_factures table50 = Inr [(1, facture50)]"
  using lire_factures_append [OF table0_ok valid_facture50 lire_table0] by (simp add: table50_def table0_def)

lemma table50_ok: "table_ok table50"
  unfolding table50_def using table0_ok valid_facture50 by (rule to_sql_append_ok)

lemma lignes_table50: "lignes table50 \<noteq> []"
  by (simp add: table50_def table0_def to_sql_append_def Let_def)

lemma etat_initial_data: "''data'' \<in> set (dossiers etat_initial)"
  by (simp add: etat_initial_def)

lemma step_apres_creation: "app_step datetime_class etat_initial etat_apres_creation"
proof -
  have "requete_ok (Nouvelle_facture form50 True)" using valid_samples(4) by (simp add: requete_ok_def)
  moreover have "main datetime_class (Nouvelle_facture form50 True) clock1 etat_initial =
      (fst (main datetime_class (Nouvelle_facture form50 True) clock1 etat_initial), etat_apres_creation)"
    by (simp add: etat_apres_creation_def)
  ultimately show ?thesis using valid_samples(2) by (blast intro: app_step.run)
qed

lemma reachable_apres_creation: "reachable datetime_class etat_apres_creation"
  using step_apres_creation by (blast intro: reachable.intros)

lemma reachable_vide:
  "reachable b s \<Longrightarrow> b = app_globals ''datetime'' \<Longrightarrow> lignes_base s = [] \<and> pdfs s = Map.empty"
proof (induction rule: reachable.induct)
  case init
  show ?case by (simp add: etat_initial_def lignes_base_def)
next
  case (step b s s')
  then show ?case using app_step_vide by blast
qed

text \<open>C2: As shipped (line 16 binds \<open>datetime\<close> to the module), submitting a form whose required fields are all truthy raises \<open>AttributeError\<close> at \<open>datetime.combine\<close> (line 190): no PDF is written and no row is stored; the only state change is the table creation of \<open>init_db\<close>.\<close>

theorem creation_attribute_error:
  assumes "''data'' \<in> set (dossiers s)" "champs_obligatoires f"
  shows "main_app (Nouvelle_facture f True) clock s = (Inl (AttributeError ''combine''), s\<lparr>base := init_db (base s)\<rparr>)"
  using assms
  by (simp add: main_data vue_def vue_nouvelle_facture_def app_globals_datetime construire_facture_module)

theorem creation_attribute_error_witness:
  "main_app (Nouvelle_facture form50 True) clock1 etat_initial =
     (Inl (AttributeError ''combine''), etat_initial\<lparr>base := Some table0\<rparr>)"
  using creation_attribute_error [OF etat_initial_data champs_form50, of clock1]
  by (simp add: etat_initial_def init_db_def table0_def)

text \<open>C1: As shipped, no sequence of requests ever stores an invoice or writes a PDF: in every state reachable from the initial state under the module binding, the table is empty and there is no PDF.\<close>

theorem app_sans_facture: "reachable (app_globals ''datetime'') s \<Longrightarrow> lignes_base s = [] \<and> pdfs s = Map.empty"
  using reachable_vide by blast

theorem app_sans_facture_witness: "lignes_base etat_apres_essai = [] \<and> pdfs etat_apres_essai = Map.empty"
proof -
  have "requete_ok (Nouvelle_facture form50 True)" using valid_samples(4) by (simp add: requete_ok_def)
  moreover have "main_app (Nouvelle_facture form50 True) clock1 etat_initial =
      (fst (main_app (Nouvelle_facture form50 True) clock1 etat_initial), etat_apres_essai)"
    by (simp add: etat_apres_essai_def)
  ultimately have "app_step (app_globals ''datetime'') etat_initial etat_apres_essai"
    using valid_samples(2) by (blast intro: app_step.run)
  then have "reachable (app_globals ''datetime'') etat_apres_essai" by (blast intro: reachable.intros)
  then show ?thesis by (rule app_sans_facture)
qed

text \<open>C4: Under the class binding of \<open>datetime\<close> (line 15 alone), invoice creation builds the invoice, writes its PDF and appends one row with the next id, which reads back as the previous rows followed by the new invoice; the request still ends with \<open>AttributeError\<close> at the footer's \<open>datetime.datetime.now()\<close> (line 457).\<close>

theorem creation_classe:
  assumes "''data'' \<in> set (dossiers s)" "champs_obligatoires f" "widgets_ok f"
    "init_db (base s) = Some t" "table_ok t"
  shows "\<exists>data rs s'. construire_facture datetime_class f clock = Inr data \<and>
     main datetime_class (Nouvelle_facture f True) clock s = (Inl (AttributeError ''datetime''), s') \<and>
     lire_factures t = Inr rs \<and> base s' = Some (to_sql_append data t) \<and>
     lire_factures (to_sql_append data t) = Inr (rs @ [(sequence t + 1, data)]) \<and>
     pdfs s' (chemin_pdf (numero_facture data)) \<noteq> None"
proof -
  obtain data where d: "construire_facture datetime_class f clock = Inr data"
    using construire_facture_class by blast
  have vd: "valid_datetime (date_course data)" using d assms(3) by (rule construire_facture_valid)
  obtain rs where rs: "lire_factures t = Inr rs" using lire_factures_ok [OF assms(5)] by blast
  obtain s' where m: "main datetime_class (Nouvelle_facture f True) clock s = (Inl (AttributeError ''datetime''), s')"
    "pdfs s' (chemin_pdf (numero_facture data)) \<noteq> None" "base s' = Some (to_sql_append data t)"
    using main_creation_classe [OF assms(1,2) d] assms(4) by auto
  show ?thesis using d rs m lire_factures_append [OF assms(5) vd rs] by blast
qed

theorem creation_classe_witness:
  "\<exists>data rs s'. construire_facture datetime_class form50 clock1 = Inr data \<and>
     main datetime_class (Nouvelle_facture form50 True) clock1 etat_initial = (Inl (AttributeError ''datetime''), s') \<and>
     lire_factures table0 = Inr rs \<and> base s' = Some (to_sql_append data table0) \<and>
     lire_factures (to_sql_append data table0) = Inr (rs @ [(1, data)]) \<and>
     pdfs s' (chemin_pdf (numero_facture data)) \<noteq> None"
proof -
  have "''data'' \<in> set (dossiers etat_initial)" "init_db (base etat_initial) = Some table0"
    by (simp_all add: etat_initial_def init_db_def table0_def)
  from creation_classe [OF this(1) champs_form50 valid_samples(4) this(2) table0_ok]
  show ?thesis by (simp add: table0_def)
qed

text \<open>C12: As shipped, the dashboard raises \<open>AttributeError\<close> at \<open>datetime.now()\<close> (line 295) as soon as the table holds a row, and leaves the state unchanged.\<close>

theorem tableau_attribute_error:
  assumes "''data'' \<in> set (dossiers s)" "base s = Some t" "table_ok t" "lignes t \<noteq> []"
  shows "main_app (Tableau_de_bord p) clock s = (Inl (AttributeError ''now''), s)"
proof -
  obtain rs where rs: "lire_factures t = Inr rs" using lire_factures_ok [OF assms(3)] by blast
  show ?thesis using assms rs
    by (simp add: main_data vue_def vue_tableau_de_bord_def app_globals_datetime dt_now_def
        init_db_def select_all_sorted)
qed

theorem tableau_attribute_error_witness:
  "main_app (Tableau_de_bord Tout) clock1 etat50 = (Inl (AttributeError ''now''), etat50)"
proof -
  have "''data'' \<in> set (dossiers etat50)" "base etat50 = Some table50"
    by (simp_all add: etat50_def etat_initial_def)
  from tableau_attribute_error [OF this table50_ok lignes_table50] show ?thesis .
qed

text \<open>C13: Under the class binding, a non-empty table whose rows all fall outside the selected period makes \<open>calculer_statistiques\<close> return \<open>None\<close>, and line 306 raises \<open>KeyError 'total_courses'\<close> instead of showing the no-data message.\<close>

theorem tableau_fenetre_vide:
  assumes "''data'' \<in> set (dossiers s)" "base s = Some t" "table_ok t" "lire_factures t = Inr df"
    "lignes t \<noteq> []" "filtre_periode p clock (map snd df) = Inr []"
  shows "main datetime_class (Tableau_de_bord p) clock s = (Inl (KeyError ''total_courses''), s)"
  using assms
  by (simp add: main_data vue_def vue_tableau_de_bord_def init_db_def select_all_sorted dt_now_def
      calculer_statistiques_def)

theorem tableau_fenetre_vide_witness:
  "main datetime_class (Tableau_de_bord Cette_annee) clock2026 etat50 = (Inl (KeyError ''total_courses''), etat50)"
proof -
  have "''data'' \<in> set (dossiers etat50)" "base etat50 = Some table50"
    by (simp_all add: etat50_def etat_initial_def)
  moreover have "filtre_periode Cette_annee clock2026 (map snd [(1::int, facture50)]) = Inr []"
    by (simp add: filtre_periode_def clock2026_def facture50_def course0_def date_de_def)
  ultimately show ?thesis
    using tableau_fenetre_vide [OF _ _ table50_ok lire_table50 lignes_table50] by blast
qed

text \<open>C15: A form with a falsy required field (an empty place, or a zero distance, duration or fare) is rejected with the error message before any invoice is built, whatever the binding of \<open>datetime\<close>.\<close>

theorem champs_manquants:
  assumes "''data'' \<in> set (dossiers s)" "\<not> champs_obligatoires f"
  shows "main b (Nouvelle_facture f True) clock s = (Inr Erreur_champs, s\<lparr>base := init_db (base s)\<rparr>)"
  using assms by (simp add: main_data vue_def vue_nouvelle_facture_def)

theorem champs_manquants_witness:
  "widgets_ok form_zero \<and>
   main datetime_class (Nouvelle_facture form_zero True) clock1 etat_initial =
     (Inr Erreur_champs, etat_initial\<lparr>base := Some table0\<rparr>)"
proof
  show "widgets_ok form_zero" using valid_samples(4) by (simp add: widgets_ok_def form_zero_def)
  have "\<not> champs_obligatoires form_zero" by (simp add: champs_obligatoires_iff form_zero_def)
  from champs_manquants [OF etat_initial_data this, of datetime_class clock1]
  show "main datetime_class (Nouvelle_facture form_zero True) clock1 etat_initial =
     (Inr Erreur_champs, etat_initial\<lparr>base := Some table0\<rparr>)"
    by (simp add: etat_initial_def init_db_def table0_def)
qed

lemma lignes_apres_creation: "lignes_base etat_apres_creation \<noteq> []"
proof -
  obtain data where d: "construire_facture datetime_class form50 clock1 = Inr data"
    using construire_facture_class by blast
  have "init_db (base etat_initial) = Some table0" by (simp add: etat_initial_def init_db_def table0_def)
  then have "base etat_apres_creation = Some (to_sql_append data table0)"
    using main_creation_classe [OF etat_initial_data champs_form50 d]
    by (auto simp: etat_apres_creation_def)
  then show ?thesis by (simp add: lignes_base_def to_sql_append_def Let_def)
qed

lemma construire_bien_formee:
  assumes "construire_facture b f clock = Inr r" "widgets_ok f" "valid_datetime clock"
  shows "facture_bien_formee r"
proof -
  have b: "b = datetime_class" using assms(1) by (rule construire_facture_Inr)
  let ?dc = "combine (saisie_date_course f) (saisie_heure_course f)"
  have v: "valid_datetime ?dc" using assms(2) by (rule valid_combine)
  have "lire_numero (generer_numero ?dc clock) =
          Some (dt_date ?dc, hour (dt_time clock), minute (dt_time clock), second (dt_time clock))"
    using v assms(3) by (simp add: valid_datetime_def lire_numero_generer)
  moreover have "valid_time (Time (hour (dt_time clock)) (minute (dt_time clock)) (second (dt_time clock)) 0)"
    using assms(3) by (cases "dt_time clock") (simp add: valid_datetime_def valid_time_def)
  ultimately show ?thesis
    using assms(1,2) v b
    by (auto simp: facture_bien_formee_def construire_facture_class widgets_ok_def
        calcul_montant_total_def calcul_tva_def)
qed

lemma ligne_map_date: "facture_bien_formee d \<Longrightarrow> ligne_bien_formee (map_date isoformat_sp d)"
  by (simp add: ligne_bien_formee_def facture_bien_formee_def comp_def)

lemma vue_nouvelle_facture_base:
  "vue_nouvelle_facture b f g clock s = (res, s') \<Longrightarrow>
   base s' = base s \<or> (\<exists>data. construire_facture b f clock = Inr data \<and> base s' = map_option (to_sql_append data) (base s))"
  by (auto simp: vue_nouvelle_facture_def Let_def split: if_splits sum.splits prod.splits)

lemma types_ok_init_db: "types_ok s \<Longrightarrow> types_ok (s\<lparr>base := init_db (base s)\<rparr>)"
  by (auto simp: types_ok_def lignes_base_def init_db_def split: option.splits)

lemma vue_types:
  assumes "vue b r clock s = (res, s')" "requete_ok r" "valid_datetime clock" "types_ok s"
  shows "types_ok s'"
proof (cases "\<exists>f g. r = Nouvelle_facture f g")
  case True
  then obtain f g where r: "r = Nouvelle_facture f g" by blast
  have v: "vue_nouvelle_facture b f g clock s = (res, s')" "widgets_ok f"
    using assms(1,2) by (simp_all add: r vue_def requete_ok_def)
  from vue_nouvelle_facture_base [OF v(1)] show ?thesis
  proof
    assume "base s' = base s"
    then show ?thesis using assms(4) by (simp add: types_ok_def lignes_base_def)
  next
    assume "\<exists>data. construire_facture b f clock = Inr data \<and> base s' = map_option (to_sql_append data) (base s)"
    then obtain data where d: "construire_facture b f clock = Inr data" and b: "base s' = map_option (to_sql_append data) (base s)"
      by blast
    have "ligne_bien_formee (map_date isoformat_sp data)"
      using construire_bien_formee [OF d v(2) assms(3)] by (rule ligne_map_date)
    then show ?thesis using assms(4) b
      by (cases "base s") (simp_all add: types_ok_def lignes_base_def to_sql_append_def Let_def)
  qed
next
  case False
  then have "base s' = base s" using vue_frame [OF assms(1)] by blast
  then show ?thesis using assms(4) by (simp add: types_ok_def lignes_base_def)
qed

lemma app_step_types: "app_step b s s' \<Longrightarrow> types_ok s \<Longrightarrow> types_ok s'"
proof (induction rule: app_step.induct)
  case (run r clock b s out s')
  from main_state [OF run.hyps(3)] show ?case
    using run.prems run.hyps(1,2) vue_types types_ok_init_db by blast
qed

text \<open>C5: Every state reachable by a sequence of requests satisfies the store invariant: the table, when it exists, is well formed, and every stored invoice has its PDF.\<close>

theorem reachable_inv: "reachable b s \<Longrightarrow> inv_etat s"
  using reachable_etat by blast

theorem reachable_inv_witness: "inv_etat etat_apres_creation \<and> lignes_base etat_apres_creation \<noteq> []"
  using reachable_inv [OF reachable_apres_creation] lignes_apres_creation by blast

text \<open>C29: The reset button removes \<open>config.json\<close> and \<open>logo.png\<close> and touches neither the invoice table nor the PDFs; the request ends with a rerun.\<close>

theorem reinitialisation:
  assumes "''data'' \<in> set (dossiers s)"
  shows "\<exists>s'. main b (Parametres cfg logo sauver True) clock s = (Inr Relance, s') \<and>
           config_json (parametres s') = None \<and> logo_png (parametres s') = None \<and>
           base s' = init_db (base s) \<and> pdfs s' = pdfs s"
  using assms
  by (simp add: main_data vue_def vue_parametres_def reinitialiser_def sauvegarder_def Let_def
      split: option.splits)

theorem reinitialisation_witness:
  "\<exists>s'. main datetime_class (Parametres config_defaut (Some ''PNG'') True True) clock1 etat50 = (Inr Relance, s') \<and>
     config_json (parametres s') = None \<and> logo_png (parametres s') = None \<and>
     base s' = Some table50 \<and> pdfs s' = pdfs etat50"
  using reinitialisation [of etat50 datetime_class config_defaut "Some ''PNG''" True clock1]
  by (simp add: etat50_def etat_initial_def init_db_def)

text \<open>C3: Whatever object the name \<open>datetime\<close> is bound to, a
  request to create an invoice never ends in success: the binding that lets
  \<open>datetime.combine\<close> and \<open>datetime.now()\<close> (lines 190--191) run is the class, and the
  footer's \<open>datetime.datetime.now()\<close> (line 457) then fails.\<close>

theorem creation_jamais_reussie:
  "fst (main b (Nouvelle_facture f True) clock s) \<noteq> Inr Succes"
proof (cases "construire_facture b f clock")
  case (Inl e)
  then show ?thesis
    by (simp add: main_def vue_def vue_nouvelle_facture_def Let_def split: prod.splits sum.splits fin_vue.splits)
next
  case (Inr data)
  then have "b = datetime_class" by (rule construire_facture_Inr)
  with Inr show ?thesis
    by (simp add: main_def vue_def vue_nouvelle_facture_def dt_module_now_def Let_def
        split: prod.splits sum.splits fin_vue.splits)
qed

lemma avec_config_simps [simp]:
  "dossiers (avec_config c s) = dossiers s" "base (avec_config c s) = base s"
  "pdfs (avec_config c s) = pdfs s" "logo_png (parametres (avec_config c s)) = logo_png (parametres s)"
  "avec_config c (s\<lparr>base := x\<rparr>) = (avec_config c s)\<lparr>base := x\<rparr>"
  "avec_config c (s\<lparr>pdfs := p\<rparr>) = (avec_config c s)\<lparr>pdfs := p\<rparr>"
  "avec_config c (s\<lparr>dossiers := d\<rparr>) = (avec_config c s)\<lparr>dossiers := d\<rparr>"
  "avec_config c (s\<lparr>export_xlsx := e\<rparr>) = (avec_config c s)\<lparr>export_xlsx := e\<rparr>"
  by (simp_all add: avec_config_def)

lemma vue_avec_config:
  "\<not> (\<exists>cfg l sv rs. r = Parametres cfg l sv rs) \<Longrightarrow>
   vue b r clock (avec_config c s) = map_prod id (avec_config c) (vue b r clock s)"
  by (cases r) (auto simp: vue_def vue_nouvelle_facture_def vue_historique_def vue_tableau_de_bord_def Let_def
      split: sum.splits option.splits prod.splits)

text \<open>C27: No run reads \<open>config.json\<close>: outside the settings view, which
  writes it, a run from a state with any other content of the file (another tax rate,
  another prefix) does exactly what it does from the original state, and leaves the file
  as it was.\<close>

theorem config_ignoree:
  assumes "\<not> (\<exists>cfg l sv rs. r = Parametres cfg l sv rs)"
  shows "main b r clock (avec_config c s) = map_prod id (avec_config c) (main b r clock s)"
  using vue_avec_config [OF assms, of b clock c "s\<lparr>base := init_db (base s)\<rparr>"]
  by (auto simp: main_def Let_def split: prod.splits sum.splits fin_vue.splits)

theorem config_ignoree_witness:
  "main datetime_class (Nouvelle_facture form50 True) clock1
     (avec_config (Some (config_defaut\<lparr>billing := (billing config_defaut)\<lparr>tva_rate := 5.5\<rparr>\<rparr>)) etat_initial) =
   map_prod id (avec_config (Some (config_defaut\<lparr>billing := (billing config_defaut)\<lparr>tva_rate := 5.5\<rparr>\<rparr>)))
     (main datetime_class (Nouvelle_facture form50 True) clock1 etat_initial)"
  by (rule config_ignoree) simp

text \<open>C16: As shipped, the history view works: from a state with the directory
  \<open>data\<close> and a table satisfying the invariant, it shows nothing when the table is empty,
  and otherwise exactly the abstract \<open>listFiltered\<close> of the stored journal, which it also
  exports to \<open>export_factures.xlsx\<close> when the export button is pressed; it writes no row
  and no document.\<close>

theorem historique_app:
  assumes "''data'' \<in> set (dossiers s)" "init_db (base s) = Some t" "table_ok t"
  shows "main_app (Historique d1 d2 sf exporter) clock s =
     (if lignes t = [] then (Inr Rien, s\<lparr>base := Some t\<rparr>)
      else (Inr (Vue_historique (spec_list_filtered d1 d2 (statut_option sf) (abs_table t))),
            s\<lparr>base := Some t, export_xlsx := (if exporter then Some (spec_list_filtered d1 d2 (statut_option sf) (abs_table t))
                                                else export_xlsx s)\<rparr>))"
  using assms
  by (simp add: main_data vue_def vue_historique_def select_all_sorted lire_abs app_globals_datetime
      dt_module_now_def filtre_historique_spec Let_def)

theorem historique_app_witness:
  "main_app (Historique (Date 2025 3 1) (Date 2025 3 31) ''Tous'' True) clock1 etat50 =
     (Inr (Vue_historique [(1, facture50)]), etat50\<lparr>export_xlsx := Some [(1, facture50)]\<rparr>)"
proof -
  have d: "''data'' \<in> set (dossiers etat50)" and i: "init_db (base etat50) = Some table50"
    by (simp_all add: etat50_def etat_initial_def init_db_def)
  have ab: "abs_table table50 = [(1, facture50)]" using lire_table50 by (simp add: abs_table_def)
  have st: "statut_option ''Tous'' = None" by (simp add: statut_option_def)
  have sp: "spec_list_filtered (Date 2025 3 1) (Date 2025 3 31) None [(1, facture50)] = [(1, facture50)]"
    by (simp add: spec_list_filtered_def facture50_def course0_def less_eq_date_def date_key_def)
  have rec: "etat50\<lparr>base := Some table50, export_xlsx := Some [(1, facture50)]\<rparr> = etat50\<lparr>export_xlsx := Some [(1, facture50)]\<rparr>"
    by (simp add: etat50_def)
  note h = historique_app [OF d i table50_ok, of "Date 2025 3 1" "Date 2025 3 31" "''Tous''" True clock1]
  show ?thesis
    by (rule trans [OF h]) (simp only: if_not_P [OF lignes_table50] ab st sp rec if_True)
qed

text \<open>C17: With \<open>datetime\<close> bound to the class, the store can always grow:
  from every reachable state some run (a valid creation form) appends exactly one row,
  although that run ends with the footer's AttributeError.\<close>

theorem progression_classe:
  assumes "reachable datetime_class s"
  shows "\<exists>s'. app_step datetime_class s s' \<and> length (lignes_base s') = Suc (length (lignes_base s))"
proof -
  have inv: "inv_etat s" and data: "''data'' \<in> set (dossiers s)" using reachable_etat [OF assms] by simp_all
  obtain t where t: "init_db (base s) = Some t" "table_ok t" "lignes t = lignes_base s"
  proof (cases "base s")
    case None
    then show thesis using that [of table0] table0_ok by (simp add: init_db_def table0_def lignes_base_def)
  next
    case (Some t)
    then show thesis using that [of t] inv by (simp add: init_db_def inv_etat_def lignes_base_def)
  qed
  obtain data where d: "construire_facture datetime_class form50 clock1 = Inr data"
    using construire_facture_class by blast
  obtain s' where s': "main datetime_class (Nouvelle_facture form50 True) clock1 s = (Inl (AttributeError ''datetime''), s')"
    "base s' = map_option (to_sql_append data) (init_db (base s))"
    using main_creation_classe [OF data champs_form50 d] by blast
  have "requete_ok (Nouvelle_facture form50 True)" using valid_samples(4) by (simp add: requete_ok_def)
  then have "app_step datetime_class s s'" using valid_samples(2) s'(1) by (blast intro: app_step.run)
  moreover have "length (lignes_base s') = Suc (length (lignes_base s))"
    using s'(2) t by (simp add: lignes_base_def to_sql_append_def Let_def)
  ultimately show ?thesis by blast
qed

theorem progression_classe_witness:
  "\<exists>s'. app_step datetime_class etat_initial s' \<and> length (lignes_base s') = Suc (length (lignes_base etat_initial))"
  using progression_classe [OF reachable.init] .

text \<open>C28: As shipped, the save button of the settings view writes the whole
  configuration to \<open>config.json\<close>, replacing any earlier one, and the uploaded logo if
  there is one (otherwise the old \<open>logo.png\<close> stays); the run ends in success and touches
  neither the invoices nor the PDFs.\<close>

theorem sauvegarde_app:
  assumes "''data'' \<in> set (dossiers s)"
  shows "main_app (Parametres cfg logo True False) clock s =
     (Inr Succes, s\<lparr>base := init_db (base s),
                   parametres := \<lparr>config_json = Some cfg,
                                  logo_png = (case logo of None \<Rightarrow> logo_png (parametres s) | Some octets \<Rightarrow> Some octets)\<rparr>\<rparr>)"
  using assms
  by (simp add: main_data vue_sauvegarde sauvegarder_eq app_globals_datetime dt_module_now_def)

theorem sauvegarde_app_witness:
  "main_app (Parametres config_defaut (Some ''PNG'') True False) clock1 etat_initial =
     (Inr Succes, etat_initial\<lparr>base := Some table0,
                               parametres := \<lparr>config_json = Some config_defaut, logo_png = Some ''PNG''\<rparr>\<rparr>)"
proof -
  have "''data'' \<in> set (dossiers etat_initial)" "init_db (base etat_initial) = Some table0"
    by (simp_all add: etat_initial_def init_db_def table0_def)
  from sauvegarde_app [OF this(1), of config_defaut "Some ''PNG''" clock1] this(2) show ?thesis by simp
qed

text \<open>C7: Every row of every reachable state, whatever the binding of
  \<open>datetime\<close>, reads back as a well-formed invoice: a valid trip datetime; an invoice
  number \<open>VTC-YYYYMMDD-HHMMSS\<close> whose date fields decode to the trip's own date and whose
  time fields decode to a valid time of day; non-negative inputs; the 20% tax and its
  total; status \<open>emise\<close>.\<close>

theorem reachable_types: "reachable b s \<Longrightarrow> types_ok s"
proof (induction rule: reachable.induct)
  case init
  show ?case by (simp add: types_ok_def etat_initial_def lignes_base_def)
next
  case (step b s s')
  then show ?case using app_step_types by blast
qed

theorem reachable_types_witness: "types_ok etat_apres_creation \<and> lignes_base etat_apres_creation \<noteq> []"
  using reachable_types [OF reachable_apres_creation] lignes_apres_creation by blast

lemma journal_etat_base: "base s' = base s \<Longrightarrow> journal_etat s' = journal_etat s"
  by (simp add: journal_etat_def)

lemma init_db_journal:
  assumes "inv_etat s"
  shows "\<exists>t. init_db (base s) = Some t \<and> table_ok t \<and> journal_etat s = abs_table t"
proof (cases "base s")
  case None
  have "init_db None = Some table0" by (simp add: init_db_def table0_def)
  then show ?thesis
    using None table0_ok lire_table0 by (simp add: journal_etat_def abs_table_def)
next
  case (Some t)
  then show ?thesis using assms by (simp add: init_db_def journal_etat_def inv_etat_def)
qed

text \<open>C9: Every run refines the append-only store of the specification
  (section 4.2) under the abstraction \<open>journal_etat\<close>: from a reachable state, the journal
  after any run, whatever the binding and the view, is the journal before it, or the
  journal before it with one well-formed invoice appended at an id above every id in use
  (an abstract \<open>append\<close>). No run edits, reorders or deletes a stored invoice, and every
  invoice that enters the store passed the creation rules.\<close>

theorem journal_append_only:
  assumes "reachable b s" "app_step b s s'"
  shows "journal_etat s' = journal_etat s \<or>
         (\<exists>r i. facture_bien_formee r \<and> spec_append r (journal_etat s) i (journal_etat s'))"
proof -
  obtain rq clock out where ok: "requete_ok rq" "valid_datetime clock" and m: "main b rq clock s = (out, s')"
    using assms(2) by (auto elim: app_stepE)
  let ?s1 = "s\<lparr>base := init_db (base s)\<rparr>"
  obtain t where t: "init_db (base s) = Some t" "table_ok t" "journal_etat s = abs_table t"
    using init_db_journal reachable_etat [OF assms(1)] by blast
  from main_state [OF m] show ?thesis
  proof
    assume "s' = s"
    then show ?thesis by simp
  next
    assume "''data'' \<in> set (dossiers s) \<and> (\<exists>res. vue b rq clock ?s1 = (res, s'))"
    then obtain res where v: "vue b rq clock ?s1 = (res, s')" by blast
    show ?thesis
    proof (cases "\<exists>f g. rq = Nouvelle_facture f g")
      case True
      then obtain f g where r: "rq = Nouvelle_facture f g" by blast
      have vn: "vue_nouvelle_facture b f g clock ?s1 = (res, s')" "widgets_ok f"
        using v ok(1) by (simp_all add: r vue_def requete_ok_def)
      from vue_nouvelle_facture_base [OF vn(1)] show ?thesis
      proof
        assume "base s' = base ?s1"
        then show ?thesis using t by (simp add: journal_etat_def)
      next
        assume "\<exists>data. construire_facture b f clock = Inr data \<and> base s' = map_option (to_sql_append data) (base ?s1)"
        then obtain data where d: "construire_facture b f clock = Inr data"
          and b: "base s' = map_option (to_sql_append data) (base ?s1)" by blast
        have "spec_append data (abs_table t) (sequence t + 1) (abs_table (to_sql_append data t))"
          using abs_append_spec [OF t(2) construire_facture_valid [OF d vn(2)]] .
        moreover have "facture_bien_formee data" using construire_bien_formee [OF d vn(2) ok(2)] .
        ultimately show ?thesis using b t by (simp add: journal_etat_def) blast
      qed
    next
      case False
      then have "base s' = base ?s1" using vue_frame [OF v] by blast
      then show ?thesis using t by (simp add: journal_etat_def)
    qed
  qed
qed

theorem journal_append_only_witness:
  "journal_etat etat_apres_creation = journal_etat etat_initial \<or>
   (\<exists>r i. facture_bien_formee r \<and> spec_append r (journal_etat etat_initial) i (journal_etat etat_apres_creation))"
  by (rule journal_append_only [OF reachable.init step_apres_creation])

lemma lignes_pdfs_creation:
  assumes "''data'' \<in> set (dossiers s)" "init_db (base s) = Some t"
    "construire_facture datetime_class f clock = Inr data" "champs_obligatoires f"
  shows "lignes_base (snd (main datetime_class (Nouvelle_facture f True) clock s)) = lignes (to_sql_append data t) \<and>
    pdfs (snd (main datetime_class (Nouvelle_facture f True) clock s)) =
      (pdfs s)(chemin_pdf (numero_facture data) \<mapsto> snd (generer_facture_pdf (logo_png (parametres s) \<noteq> None) data)) \<and>
    ''data'' \<in> set (dossiers (snd (main datetime_class (Nouvelle_facture f True) clock s)))"
proof -
  obtain s' where s': "main datetime_class (Nouvelle_facture f True) clock s = (Inl (AttributeError ''datetime''), s')"
     "pdfs s' = (pdfs s)(chemin_pdf (numero_facture data) \<mapsto> snd (generer_facture_pdf (logo_png (parametres s) \<noteq> None) data))"
     "base s' = map_option (to_sql_append data) (init_db (base s))"
    using main_creation_classe [OF assms(1,4,3)] by blast
  have "''data'' \<in> set (dossiers s')"
    using main_state [OF s'(1)] assms(1) vue_dossiers by fastforce
  then show ?thesis using s' assms(2) by (simp add: lignes_base_def)
qed

text \<open>C14: With \<open>datetime\<close> bound to the class, the dashboard of a non-empty
  table whose selected period holds some trips shows the statistics of exactly those trips
  and their two daily series; the run then fails at the footer's
  \<open>datetime.datetime.now()\<close> and changes nothing.\<close>

theorem tableau_classe:
  assumes "''data'' \<in> set (dossiers s)" "base s = Some t" "table_ok t" "lignes t \<noteq> []"
    "filtre_periode p clock (map snd (abs_table t)) = Inr dfp" "dfp \<noteq> []"
  shows "\<exists>st. calculer_statistiques dfp = Some st \<and> total_courses st = length dfp \<and>
     vue datetime_class (Tableau_de_bord p) clock s = (Inr (Suite (Vue_tableau st (ca_par_jour dfp) (compte_par_jour dfp))), s) \<and>
     main datetime_class (Tableau_de_bord p) clock s = (Inl (AttributeError ''datetime''), s)"
proof -
  have i: "s\<lparr>base := init_db (base s)\<rparr> = s" using assms(2) by (simp add: init_db_def)
  have v: "vue datetime_class (Tableau_de_bord p) clock s =
      (Inr (Suite (Vue_tableau (the (calculer_statistiques dfp)) (ca_par_jour dfp) (compte_par_jour dfp))), s)"
    using assms(2-6) by (simp add: vue_def vue_tableau_de_bord_def select_all_sorted lire_abs dt_now_def
        calculer_statistiques_def)
  show ?thesis
    using v assms(1,6) by (simp add: main_data i dt_module_now_def calculer_statistiques_def)
qed

theorem tableau_classe_witness:
  "\<exists>st. calculer_statistiques [facture50] = Some st \<and> total_courses st = length [facture50] \<and>
     vue datetime_class (Tableau_de_bord Tout) clock1 etat50 =
       (Inr (Suite (Vue_tableau st (ca_par_jour [facture50]) (compte_par_jour [facture50]))), etat50) \<and>
     main datetime_class (Tableau_de_bord Tout) clock1 etat50 = (Inl (AttributeError ''datetime''), etat50)"
proof -
  have "''data'' \<in> set (dossiers etat50)" "base etat50 = Some table50"
    by (simp_all add: etat50_def etat_initial_def)
  moreover have "filtre_periode Tout clock1 (map snd (abs_table table50)) = Inr [facture50]"
    using lire_table50 by (simp add: abs_table_def filtre_periode_def)
  ultimately show ?thesis using tableau_classe [OF _ _ table50_ok lignes_table50] by blast
qed

text \<open>C22: With \<open>datetime\<close> bound to the class, creating the same trip twice
  at the same clock time on two days reaches a state with two rows carrying the same
  invoice number and a single PDF: the second run overwrote the first invoice's document.\<close>

theorem pdf_ecrase:
  "reachable datetime_class etat_deux_jours \<and>
   map (\<lambda>(i, r). numero_facture r) (lignes_base etat_deux_jours) = [''VTC-20250310-143015'', ''VTC-20250310-143015''] \<and>
   dom (pdfs etat_deux_jours) = {chemin_pdf ''VTC-20250310-143015''}"
proof -
  obtain d1 where d1: "construire_facture datetime_class form50 clock1 = Inr d1" using construire_facture_class by blast
  obtain d2 where d2: "construire_facture datetime_class form50 clock2 = Inr d2" using construire_facture_class by blast
  have n1: "numero_facture d1 = ''VTC-20250310-143015''"
    using d1 by (auto simp: construire_facture_class form50_def clock1_def generer_numero_def combine_def
        strftime_Ymd_def strftime_HMS_def digit_char_def model_simps)
  have n2: "numero_facture d2 = ''VTC-20250310-143015''"
    using d2 by (auto simp: construire_facture_class form50_def clock2_def generer_numero_def combine_def
        strftime_Ymd_def strftime_HMS_def digit_char_def model_simps)
  have i0: "init_db (base etat_initial) = Some table0" by (simp add: etat_initial_def init_db_def table0_def)
  note c1 = lignes_pdfs_creation [OF etat_initial_data i0 d1 champs_form50]
  have i1: "init_db (base etat_apres_creation) = Some (to_sql_append d1 table0)"
    using main_creation_classe [OF etat_initial_data champs_form50 d1] i0
    by (auto simp: etat_apres_creation_def init_db_def)
  have data1: "''data'' \<in> set (dossiers etat_apres_creation)" using c1 by (simp add: etat_apres_creation_def)
  note c2 = lignes_pdfs_creation [OF data1 i1 d2 champs_form50]
  have r: "reachable datetime_class etat_deux_jours"
  proof -
    have "requete_ok (Nouvelle_facture form50 True)" using valid_samples(4) by (simp add: requete_ok_def)
    moreover have "main datetime_class (Nouvelle_facture form50 True) clock2 etat_apres_creation =
      (fst (main datetime_class (Nouvelle_facture form50 True) clock2 etat_apres_creation), etat_deux_jours)"
      by (simp add: etat_deux_jours_def)
    ultimately have "app_step datetime_class etat_apres_creation etat_deux_jours"
      using valid_samples(3) by (blast intro: app_step.run)
    with reachable_apres_creation show ?thesis by (rule reachable.step)
  qed
  have l2: "lignes_base etat_deux_jours = lignes (to_sql_append d2 (to_sql_append d1 table0))"
    using c2 unfolding etat_deux_jours_def [symmetric] by (simp add: insert_commute)
  have "map (\<lambda>(i, r). numero_facture r) (lignes_base etat_deux_jours) = [numero_facture d1, numero_facture d2]"
    unfolding l2 by (simp add: to_sql_append_def table0_def Let_def)
  moreover have "dom (pdfs etat_apres_creation) = {chemin_pdf (numero_facture d1)}"
    using c1 unfolding etat_apres_creation_def [symmetric] by (simp add: etat_initial_def)
  then have "dom (pdfs etat_deux_jours) = {chemin_pdf (numero_facture d1), chemin_pdf (numero_facture d2)}"
    using c2 unfolding etat_deux_jours_def [symmetric] by (simp add: insert_commute)
  ultimately show ?thesis using r n1 n2 by simp
qed

end
