(* ===== verification/Session.thy ===== *)
theory Session
  imports App
begin

text \<open>
  The rerun of the script. \<open>st.experimental_rerun()\<close> (line 453) stops the run and
  Streamlit starts the script again with the same widget values, except that buttons
  read \<open>False\<close> in every run but the one of the click. A session step is therefore a
  loop: run \<open>main\<close>, and while a run asks for a rerun, run it again with the buttons
  released. The loop is written with fuel; the lemmas show that two runs are always
  enough and that more fuel does not change the result.
\<close>

definition relacher :: "requete \<Rightarrow> requete" where
  "relacher r =
     (case r of
        Nouvelle_facture f _ \<Rightarrow> Nouvelle_facture f False
      | Historique d1 d2 sf _ \<Rightarrow> Historique d1 d2 sf False
      | Tableau_de_bord p \<Rightarrow> Tableau_de_bord p
      | Parametres cfg logo _ _ \<Rightarrow> Parametres cfg logo False False)"

fun executer :: "nat \<Rightarrow> pyobj option \<Rightarrow> requete \<Rightarrow> datetime \<Rightarrow> etat \<Rightarrow> (sortie py_result \<times> etat) option" where
  "executer 0 b r clock s = None"
| "executer (Suc n) b r clock s =
     (case main b r clock s of
        (Inr Relance, s') \<Rightarrow> executer n b (relacher r) clock s'
      | res \<Rightarrow> Some res)"

lemma vue_relache_pas_relance:
  "fst (vue b (relacher r) clock s) \<noteq> Inr (Retour Relance) \<and> fst (vue b (relacher r) clock s) \<noteq> Inr (Suite Relance)"
  by (cases r) (auto simp: relacher_def vue_def vue_nouvelle_facture_def vue_historique_def
      vue_tableau_de_bord_def vue_parametres_def Let_def split: if_splits sum.splits option.splits prod.splits)

lemma main_relache_pas_relance: "fst (main b (relacher r) clock s) \<noteq> Inr Relance"
  using vue_relache_pas_relance [of b r clock "s\<lparr>base := init_db (base s)\<rparr>"]
  by (auto simp: main_def Let_def split: prod.splits sum.splits fin_vue.splits if_splits)

lemma executer_relache: "executer (Suc n) b (relacher r) clock s = Some (main b (relacher r) clock s)"
  using main_relache_pas_relance [of b r clock s]
  by (cases "main b (relacher r) clock s") (auto split: sum.splits sortie.splits)

lemma executer_deux:
  "executer (Suc (Suc n)) b r clock s =
     Some (case main b r clock s of (Inr Relance, s') \<Rightarrow> main b (relacher r) clock s' | res \<Rightarrow> res)"
proof (cases "main b r clock s")
  case (Pair o1 s1)
  show ?thesis
  proof (cases "o1 = Inr Relance")
    case True
    then have "executer (Suc (Suc n)) b r clock s = executer (Suc n) b (relacher r) clock s1"
      using Pair by simp
    then show ?thesis using Pair True by (simp only: executer_relache) simp
  next
    case False
    then show ?thesis using Pair by (auto split: sum.splits sortie.splits)
  qed
qed

text \<open>C30: The rerun loop of a session step always ends: whatever the
  binding, the request and the state, two runs of the script give a result (a released
  request never asks for another rerun), and more fuel gives the same result.\<close>

theorem executer_termine:
  "\<exists>res. executer (Suc (Suc n)) b r clock s = Some res \<and> executer (Suc (Suc (Suc n))) b r clock s = Some res"
  by (simp only: executer_deux) simp


lemma main_reinit:
  assumes "''data'' \<in> set (dossiers s)"
  shows "main b (Parametres cfg logo sv True) clock s =
    (Inr Relance, let s1 = (if sv then s\<lparr>parametres := sauvegarder cfg logo (parametres s)\<rparr> else s)
                  in s1\<lparr>base := init_db (base s), parametres := reinitialiser (parametres s1)\<rparr>)"
  using assms by (simp add: main_data vue_def vue_parametres_def Let_def)

lemma init_db_idem: "init_db (init_db t) = init_db t"
  by (simp add: init_db_def split: option.split)

lemma reinitialiser_vide: "config_json (reinitialiser f) = None \<and> logo_png (reinitialiser f) = None"
  by (simp add: reinitialiser_def Let_def)

text \<open>C31: As shipped, a click on the reset button takes exactly two
  runs: the first removes \<open>config.json\<close> and \<open>logo.png\<close> and asks for a rerun, the
  second, with the buttons released, shows the settings page again; the invoices and
  PDFs are untouched.\<close>

theorem reinitialisation_session:
  assumes "''data'' \<in> set (dossiers s)"
  shows "executer 1 (app_globals ''datetime'') (Parametres cfg logo sv True) clock s = None \<and>
    (\<exists>s''. executer 2 (app_globals ''datetime'') (Parametres cfg logo sv True) clock s = Some (Inr Rien, s'') \<and>
       config_json (parametres s'') = None \<and> logo_png (parametres s'') = None \<and>
       base s'' = init_db (base s) \<and> pdfs s'' = pdfs s)"
proof -
  let ?b = "app_globals ''datetime''"
  define s1 where "s1 = (let s1 = (if sv then s\<lparr>parametres := sauvegarder cfg logo (parametres s)\<rparr> else s)
                  in s1\<lparr>base := init_db (base s), parametres := reinitialiser (parametres s1)\<rparr>)"
  have m1: "main ?b (Parametres cfg logo sv True) clock s = (Inr Relance, s1)"
    unfolding s1_def by (rule main_reinit [OF assms])
  have f: "''data'' \<in> set (dossiers s1)" "base s1 = init_db (base s)" "pdfs s1 = pdfs s"
    "config_json (parametres s1) = None" "logo_png (parametres s1) = None"
    using assms reinitialiser_vide by (simp_all add: s1_def Let_def)
  have m2: "main ?b (Parametres cfg logo False False) clock s1 = (Inr Rien, s1)"
    using f(1,2) by (simp add: main_data vue_def vue_parametres_def app_globals_datetime dt_module_now_def init_db_idem)
  have r: "relacher (Parametres cfg logo sv True) = Parametres cfg logo False False" by (simp add: relacher_def)
  have "executer 1 ?b (Parametres cfg logo sv True) clock s = None" by (simp add: m1)
  moreover have "executer 2 ?b (Parametres cfg logo sv True) clock s = Some (Inr Rien, s1)"
    by (simp add: numeral_2_eq_2 m1 r m2)
  ultimately show ?thesis using f by blast
qed

theorem reinitialisation_session_witness:
  "executer 1 (app_globals ''datetime'') (Parametres config_defaut None False True) clock1 etat_initial = None \<and>
    (\<exists>s''. executer 2 (app_globals ''datetime'') (Parametres config_defaut None False True) clock1 etat_initial = Some (Inr Rien, s'') \<and>
       config_json (parametres s'') = None \<and> logo_png (parametres s'') = None \<and>
       base s'' = init_db (base etat_initial) \<and> pdfs s'' = pdfs etat_initial)"
  using etat_initial_data by (rule reinitialisation_session)

end
