(* ===== verification/Spec2Isabelle.thy ===== *)
theory Spec2Isabelle
  imports Session Store_Spec
begin

text \<open>
  \<^bold>\<open>A model of the VTC invoicing application \<open>src/app.py\<close>.\<close>

  The program is one Streamlit script. Streamlit reruns \<open>main()\<close> on every interaction.
  A run creates the sqlite table if needed (\<open>init_db\<close>) and runs the view that the
  sidebar menu selects:
  \<^item> creation of an invoice: the form, the required-field check, the tax, the invoice
    number, the PDF through \<open>generer_facture_pdf\<close>, and one row appended with
    \<open>df.to_sql\<close>;
  \<^item> history: the full read, a filter by date and status, and the Excel export;
  \<^item> dashboard: the full read, a filter by period, \<open>calculer_statistiques\<close> and two daily
    series;
  \<^item> settings: saving to \<open>config.json\<close> and \<open>logo.png\<close>, or removing both.
  The run then writes a footer with the current year. The development models these parts
  as follows, leaf first.

  \<^descr>[\<open>Prelude\<close>] Python exceptions as the left side of \<open>py_exc + 'a\<close>, Python
    truthiness (\<open>all([...])\<close>), zero-padded decimal fields and their parser, the pandas
    mean. Generic lemmas on digits and sums, and the \<open>model_simps\<close> collection.
  \<^descr>[\<open>Calendar\<close>] The library semantics the program relies on:
    \<^item> \<open>date\<close>, \<open>time\<close> and \<open>datetime\<close>, with Python's order as a \<open>linorder\<close> instance;
    \<^item> CPython's \<open>_ymd2ord\<close>/\<open>_ord2ymd\<close>;
    \<^item> \<open>datetime - timedelta(days=k)\<close>, with its \<open>OverflowError\<close>;
    \<^item> the \<open>strftime\<close> formats;
    \<^item> the ISO text that the sqlite3 adapter writes and \<open>pd.to_datetime\<close> reads.
    Lemmas: the round trip \<open>to_datetime (isoformat_sp x) = Inr x\<close> on valid datetimes,
    and the injectivity of the \<open>%Y%m%d\<close> and \<open>%H%M%S\<close> fields.
  \<^descr>[\<open>Ordinal\<close>] Correctness of that calendar arithmetic on the whole range of
    \<open>datetime\<close>:
    \<^item> \<open>ord2ymd\<close> inverts \<open>toordinal\<close> on valid dates (\<open>ord2ymd_toordinal\<close>), and every
      day number in \<open>1 .. max_ordinal\<close> is the number of the valid date it computes
      (\<open>toordinal_ord2ymd\<close>);
    \<^item> day numbers preserve the order of dates, so datetimes compare by day number and
      then time (\<open>datetime_le_toordinal\<close>);
    \<^item> \<open>today - timedelta(days=k)\<close> returns, moves the day number by \<open>k\<close> and keeps the
      time (\<open>sub_days_correct\<close>).
    The proof splits years into 400-, 100-, 4- and 1-year cycles. The month step is
    checked by evaluation on every day of a common and of a leap year.
  \<^descr>[\<open>Namespace\<close>] Lines 1--16 as a fold of import statements over the global
    namespace (\<open>app_imports\<close>, \<open>app_globals\<close>). Three call sites resolve the global
    name \<open>datetime\<close>: \<open>dt_combine\<close> (line 190), \<open>dt_now\<close> (lines 191 and 295) and
    \<open>dt_module_now\<close> (line 457). Line 16 leaves \<open>datetime\<close> bound to the module.
  \<^descr>[\<open>Fare\<close>] Lines 167--210:
    \<^item> the form (\<open>formulaire\<close>), and what the widgets can return (\<open>widgets_ok\<close>);
    \<^item> the required-field check (\<open>champs_obligatoires\<close>);
    \<^item> the tax and the total (\<open>calcul_tva\<close>, \<open>calcul_montant_total\<close>);
    \<^item> the number (\<open>generer_numero\<close>);
    \<^item> the \<open>data\<close> dict (\<open>construire_facture\<close>, a \<open>facture\<close> record).
    \<open>facture_bien_formee\<close> says what a built record looks like; its number must decode
    (\<open>lire_numero\<close>) to the trip date and a valid time of day. Lemmas: the amounts,
    reading the number back, and when two numbers are equal (they do not separate days).
  \<^descr>[\<open>Store\<close>] The table \<open>factures\<close> (\<open>table_factures\<close>: rows in insertion order
    and the AUTOINCREMENT counter); \<open>init_db\<close>; the append \<open>to_sql_append\<close>
    (lines 220--223); the full read \<open>lire_factures\<close> (\<open>SELECT *\<close> then
    \<open>pd.to_datetime\<close>); the history filter \<open>filtre_historique\<close>. Lemmas:
    \<^item> the invariant \<open>table_ok\<close> (ids strictly increasing and bounded by the counter,
      dates stored as valid ISO text) is kept by every append;
    \<^item> append then read returns the old rows and then the new one;
    \<^item> the filter returns exactly the matching rows, in order.
  \<^descr>[\<open>Store_Spec\<close>] The store contract of the specification (section 4.2) as an
    abstract journal: \<open>spec_append\<close>, a relation that may pick any id above those in use;
    \<open>spec_list_filtered\<close>; the abstraction \<open>abs_table\<close> (what the program reads back).
    Lemmas: an append of the table is an abstract append with the id \<open>sequence + 1\<close>
    (\<open>abs_append_spec\<close>, used by the simulation in \<open>App\<close>), and any sequence of
    appends reads back in order, with consecutive ids (\<open>appends_sequence\<close>).
  \<^descr>[\<open>Stats\<close>] \<open>calculer_statistiques\<close> (lines 131--143), the period filter
    \<open>filtre_periode\<close> (lines 294--301), and the series \<open>ca_par_jour\<close> and
    \<open>compte_par_jour\<close> (pandas \<open>groupby\<close> over the distinct trip dates in increasing
    order). Lemmas:
    \<^item> mean trips per day = trips / distinct dates;
    \<^item> the series sum to the totals;
    \<^item> the exact meaning of the 7- and 30-day windows (\<open>apres_limite\<close>), which have
      no upper bound.
  \<^descr>[\<open>Pyformat\<close>] \<open>str(int)\<close>, \<open>format(x, '.kf')\<close> with round-half-even, and
    \<open>str(float)\<close> for values with at most 16 decimals.
  \<^descr>[\<open>Render\<close>] \<open>generer_facture_pdf\<close> (lines 68--128), as the list of reportlab
    flowables, with its texts as UTF-8 byte strings, plus the output path \<open>chemin_pdf\<close>.
    Lemma: the amount cells are cents within half a cent of the amount. The distance cell
    is \<open>str(float)\<close>, not a fixed precision (a finding, not a theorem).
  \<^descr>[\<open>Settings\<close>] The configuration dict (lines 369--427), \<open>sauvegarder\<close> (save,
    lines 410--440) and \<open>reinitialiser\<close> (reset, lines 446--452).
  \<^descr>[\<open>App\<close>] The state \<open>etat\<close>: directories, the table, the PDFs by path, the two
    settings files, and the export. One run \<open>main\<close>, with the four views \<open>vue_*\<close>: an
    exception ends the run and keeps what was written before it. \<open>app_step\<close> is one run
    for any request the widgets can produce and any valid clock; \<open>reachable\<close> is its
    closure from the initial state. Lemmas:
    \<^item> creation under each binding of \<open>datetime\<close>;
    \<^item> the two dashboard exceptions;
    \<^item> the validation rejection;
    \<^item> the store invariant of every reachable state;
    \<^item> every stored row of every reachable state reads back as a well-formed invoice
      (\<open>types_ok\<close>);
    \<^item> every run refines the append-only store: under the abstraction
      \<open>journal_etat\<close>, a run leaves the journal unchanged or performs one abstract
      append of a well-formed invoice (\<open>journal_append_only\<close>);
    \<^item> with the class binding, some run always adds a row (progress);
    \<^item> the shipped history view shows and exports exactly the abstract filtered
      journal;
    \<^item> save;
    \<^item> no reachable state of the shipped program holds an invoice;
    \<^item> no run reads \<open>config.json\<close>;
    \<^item> reset.
  \<^descr>[\<open>Dashboard\<close>] The four KPI cards of the dashboard (lines 307--339,
    \<open>cartes_kpi\<close>): the trip count, the revenue, the distance and the mean ticket, as the
    texts of the four \<open>st.markdown\<close> cards. Lemma: the count card is the number of
    trips and the revenue card is cents within half a cent of the sum of the amounts
    (\<open>cartes_arrondies\<close>).
  \<^descr>[\<open>Session\<close>] The Streamlit rerun loop around \<open>main\<close>: a run that ends in
    \<open>st.rerun()\<close> (after reset) is run again with the buttons released (\<open>relacher\<close>).
    \<open>executer\<close> is that loop with fuel. Lemmas:
    \<^item> two runs of fuel always suffice and more fuel gives the same result
      (\<open>executer_termine\<close>);
    \<^item> a reset click, under the shipped binding, needs exactly the second run and
      ends with the settings and logo removed, the table kept and the PDFs kept
      (\<open>reinitialisation_session\<close>).
    Successive interactions of a browser session are successive runs, i.e. steps of
    \<open>App.app_step\<close>.

  \<^bold>\<open>Main results.\<close>
  \<^item> As shipped, \<open>datetime\<close> is the module. Invoice creation raises \<open>AttributeError\<close>
    at \<open>datetime.combine\<close>, and no sequence of runs ever stores an invoice or writes a
    PDF (\<open>App.app_sans_facture\<close>).
  \<^item> No binding of the name makes creation succeed (\<open>App.creation_jamais_reussie\<close>).
  \<^item> With the class bound, the store part works: a fresh id, and the row reads back
    after the others (\<open>App.creation_classe\<close>, \<open>Store.append_then_read\<close>).
  \<^item> The dashboard fails as soon as there is a row, and with the class bound it fails
    on an empty period.
  \<^item> Zero amounts are rejected as missing.
  \<^item> The number does not separate two days.
  \<^item> The tax rate and prefix are fixed: the configuration is never read.
  \<^item> The last-7/30-days windows also keep trips dated in the future
    (\<open>Stats.filtre_derniers_jours\<close>).
  \<^item> Two invoices for the same trip date, created at the same time of day on two
    different days, share a PDF path, and the second overwrites the first
    (\<open>App.pdf_ecrase\<close>).
  \<^item> The rerun after a reset always ends (\<open>Session.executer_termine\<close>).
  \<^item> Invoice numbers are equal exactly when the trip date and the clock time to the
    second agree (\<open>Fare.generer_numero_eq_iff\<close>).

  \<^bold>\<open>Abstractions.\<close>
  \<^item> Python floats are reals, so binary rounding is not modelled. \<open>format_fixed\<close>
    rounds the exact value, half to even.
  \<^item> Widget values are any values the widgets' domains allow (\<open>widgets_ok\<close>,
    \<open>requete_ok\<close>). The clock is an input of each run.
  \<^item> sqlite's AUTOINCREMENT is the counter \<open>sequence\<close>.
  \<^item> A document is its flowables and page size.
  \<^item> Fuel and bounds.
    \<^item> Inside one run, every iteration is over a finite list (rows, groups, widgets),
      and every definition is total: recursion is structural, or on \<open>n div 10\<close> in
      \<open>show_nat\<close>; \<open>ord2ymd\<close> is a fixed number of divisions.
    \<^item> Across runs, \<open>st.rerun()\<close> could in principle rerun without end, so
      \<open>Session.executer\<close> takes fuel (\<open>None\<close> when it runs out). A rerun
      releases the buttons, and a run with no button pressed never asks for a rerun,
      so fuel 2 is enough for every request and state; \<open>executer_termine\<close>
      proves this together with the fact that more fuel does not change the result.

  \<^bold>\<open>Not modelled.\<close>
  \<^item> Page setup and CSS (lines 18--42) and the plotly charts: they draw and change
    no state.
  \<^item> The PDF and xlsx bytes.
  \<^item> The email imports, which are never used.
  \<^item> Failures of the file system (a full disk, permissions) beyond the missing
    \<open>data\<close> directory.
  \<^item> Time zones and DST: the program uses naive datetimes only.
  \<^item> Streamlit's widget state between runs: each run gets the widget values as its request.
\<close>

end
